theory Spec2Isabelle
  imports Complex_Main "HOL-Library.AList" "HOL-Library.Multiset"
begin

section \<open>Exact-slot variant: puzzleGame-berhasil.tsx\<close>

text \<open>
  The jigsaw component keeps a grid of slots (\<open>gridItems\<close>, the empty string marks a
  free slot) and a pool of piece ids. A piece carries its id and the index of the slot
  where it belongs; the remaining fields of the source type (image data, row, col,
  padding, base size) are used for rendering only and are left out.
\<close>

record GridPiece =
  gp_id :: string
  correctIndex :: nat

datatype PuzzleMode = Partial | Empty

text \<open>
  The droppable under the pointer at release: \<open>over.id\<close> is \<open>slot-n\<close>, \<open>pool\<close> or
  something else; \<open>over\<close> itself may be null.
\<close>

datatype Over = OverSlot nat | OverPool | OverOther

text \<open>The two alerts of \<open>handleDragEnd\<close>: "Slot sudah terisi!" and "Posisi salah!".\<close>

datatype Signal = SlotOccupied | WrongPosition

record GridState =
  gridItems :: "string list"
  gridPool :: "string list"
  gridActive :: "string option"

definition find_grid_piece :: "GridPiece list \<Rightarrow> string \<Rightarrow> GridPiece option" where
  "find_grid_piece pieces i = List.find (\<lambda>p. gp_id p = i) pieces"

text \<open>\<open>gridItems.indexOf(id)\<close>: the first index holding the id, if any.\<close>

fun indexOf :: "string list \<Rightarrow> string \<Rightarrow> nat option" where
  "indexOf [] i = None"
| "indexOf (g # gs) i = (if g = i then Some 0 else map_option Suc (indexOf gs i))"

text \<open>
  \<open>handleDragEnd\<close> of the exact-slot component. The result pairs the alert raised (if
  any) with the next state. Reading \<open>gridItems[targetIndex]\<close> beyond the array gives
  \<open>undefined\<close>, which differs from the empty string, so such a drop takes the
  "occupied" branch.
\<close>

definition grid_handleDragEnd ::
  "GridPiece list \<Rightarrow> string \<Rightarrow> Over option \<Rightarrow> GridState \<Rightarrow> Signal option \<times> GridState" where
  "grid_handleDragEnd pieces activePieceId over s =
     (let s0 = s\<lparr>gridActive := None\<rparr> in
      case over of
        None \<Rightarrow> (None, s0)
      | Some ov \<Rightarrow>
          (case find_grid_piece pieces activePieceId of
             None \<Rightarrow> (None, s0)
           | Some piece \<Rightarrow>
               (case ov of
                  OverSlot targetIndex \<Rightarrow>
                    if \<not> (targetIndex < length (gridItems s) \<and> gridItems s ! targetIndex = [])
                    then (Some SlotOccupied, s0)
                    else if correctIndex piece \<noteq> targetIndex
                    then (Some WrongPosition, s0)
                    else (None, s0\<lparr>gridItems := (gridItems s)[targetIndex := activePieceId],
                                    gridPool := filter (\<lambda>i. i \<noteq> activePieceId) (gridPool s)\<rparr>)
                | OverPool \<Rightarrow>
                    (case indexOf (gridItems s) activePieceId of
                       None \<Rightarrow> (None, s0)
                     | Some fromGridIndex \<Rightarrow>
                         (None, s0\<lparr>gridItems := (gridItems s)[fromGridIndex := []],
                                   gridPool := gridPool s @ [activePieceId]\<rparr>))
                | OverOther \<Rightarrow> (None, s0))))"

definition grid_handleDragStart :: "string \<Rightarrow> GridState \<Rightarrow> GridState" where
  "grid_handleDragStart i s = s\<lparr>gridActive := Some i\<rparr>"

text \<open>
  The per-slot test of the solved check:
  \<open>gridItems.every((id, idx) => pieces.find(p => p.id === id)?.correctIndex === idx)\<close>.
\<close>

definition slot_correct :: "GridPiece list \<Rightarrow> nat \<Rightarrow> string \<Rightarrow> bool" where
  "slot_correct pieces idx i = (map_option correctIndex (find_grid_piece pieces i) = Some idx)"

definition all_slots_correct :: "GridPiece list \<Rightarrow> string list \<Rightarrow> bool" where
  "all_slots_correct pieces grid = list_all (\<lambda>(idx, i). slot_correct pieces idx i) (enumerate 0 grid)"

definition grid_solved :: "GridPiece list \<Rightarrow> GridState \<Rightarrow> bool" where
  "grid_solved pieces s =
     (gridPool s = [] \<and> [] \<notin> set (gridItems s) \<and> all_slots_correct pieces (gridItems s))"

text \<open>
  Initialisation. \<open>shuffledPieces\<close> is the outcome of the random sort, any
  rearrangement of the pieces. In partial mode \<open>Math.floor(totalSlots * 0.4) + 2\<close>
  of them are put on their own slots, the rest goes to the pool.
\<close>

definition grid_init :: "GridPiece list \<Rightarrow> PuzzleMode \<Rightarrow> nat \<Rightarrow> GridState" where
  "grid_init shuffledPieces mode totalSlots =
     (case mode of
        Partial \<Rightarrow>
          (let placedCount = (totalSlots * 2) div 5 + 2;
               placedPieces = take placedCount shuffledPieces;
               newGrid = foldl (\<lambda>g p. g[correctIndex p := gp_id p])
                               (replicate totalSlots []) placedPieces;
               remainingIds = filter (\<lambda>i. \<not> list_ex (\<lambda>p. gp_id p = i) placedPieces)
                                     (map gp_id shuffledPieces)
           in \<lparr>gridItems = newGrid, gridPool = remainingIds, gridActive = None\<rparr>)
      | Empty \<Rightarrow>
          \<lparr>gridItems = replicate totalSlots [], gridPool = map gp_id shuffledPieces,
           gridActive = None\<rparr>)"

text \<open>The states a session can reach: initialisation, then any drag starts and drops.\<close>

inductive grid_reachable :: "GridPiece list \<Rightarrow> nat \<Rightarrow> GridState \<Rightarrow> bool"
  for pieces :: "GridPiece list" and totalSlots :: nat where
  grid_reach_init:
    "mset shuffledPieces = mset pieces \<Longrightarrow>
     grid_reachable pieces totalSlots (grid_init shuffledPieces mode totalSlots)"
| grid_reach_start:
    "grid_reachable pieces totalSlots s \<Longrightarrow>
     grid_reachable pieces totalSlots (grid_handleDragStart i s)"
| grid_reach_end:
    "grid_reachable pieces totalSlots s \<Longrightarrow>
     grid_reachable pieces totalSlots (snd (grid_handleDragEnd pieces i over s))"


section \<open>Exact-slot variants: the other components\<close>

text \<open>
  \<open>grid_handleDragEnd\<close> above is the \<open>handleDragEnd\<close> of \<open>PuzzleJigsaw\<close> in
  puzzleGame-berhasil.tsx and puzzleGame-berhasil-2.tsx and of the \<open>PuzzleGame\<close> component
  that raises alerts; initialisation and solved check are the same in all grid
  components. Three more components place pieces on exact slots.

  \<open>WoodPuzzleGame\<close>: the same drops are rejected, by a bare \<open>return\<close>. The result pairs
  the alert raised with the next state, as above; this handler raises none.
\<close>

definition wood_handleDragEnd ::
  "GridPiece list \<Rightarrow> string \<Rightarrow> Over option \<Rightarrow> GridState \<Rightarrow> Signal option \<times> GridState" where
  "wood_handleDragEnd pieces activePieceId over s =
     (let s0 = s\<lparr>gridActive := None\<rparr> in
      case over of
        None \<Rightarrow> (None, s0)
      | Some ov \<Rightarrow>
          (case find_grid_piece pieces activePieceId of
             None \<Rightarrow> (None, s0)
           | Some piece \<Rightarrow>
               (case ov of
                  OverSlot targetIndex \<Rightarrow>
                    if \<not> (targetIndex < length (gridItems s) \<and> gridItems s ! targetIndex = [])
                    then (None, s0)
                    else if correctIndex piece \<noteq> targetIndex
                    then (None, s0)
                    else (None, s0\<lparr>gridItems := (gridItems s)[targetIndex := activePieceId],
                                    gridPool := filter (\<lambda>i. i \<noteq> activePieceId) (gridPool s)\<rparr>)
                | OverPool \<Rightarrow>
                    (case indexOf (gridItems s) activePieceId of
                       None \<Rightarrow> (None, s0)
                     | Some fromGridIndex \<Rightarrow>
                         (None, s0\<lparr>gridItems := (gridItems s)[fromGridIndex := []],
                                   gridPool := gridPool s @ [activePieceId]\<rparr>))
                | OverOther \<Rightarrow> (None, s0))))"

inductive wood_reachable :: "GridPiece list \<Rightarrow> nat \<Rightarrow> GridState \<Rightarrow> bool"
  for pieces :: "GridPiece list" and totalSlots :: nat where
  wood_reach_init:
    "mset shuffledPieces = mset pieces \<Longrightarrow>
     wood_reachable pieces totalSlots (grid_init shuffledPieces mode totalSlots)"
| wood_reach_start:
    "wood_reachable pieces totalSlots s \<Longrightarrow>
     wood_reachable pieces totalSlots (grid_handleDragStart i s)"
| wood_reach_end:
    "wood_reachable pieces totalSlots s \<Longrightarrow>
     wood_reachable pieces totalSlots (snd (wood_handleDragEnd pieces i over s))"

text \<open>
  The timed \<open>PuzzleGame\<close> (with sound effects and a countdown): a rejected drop plays
  \<open>sfxFalseRef\<close>, for an occupied slot and for a wrong slot alike, an accepted one
  \<open>sfxCorrectRef\<close>; a drop on anything but a slot does nothing. \<open>playSfx\<close> plays only
  while the sound effects are switched on (the audio elements exist from the first
  render on).
\<close>

datatype Sfx = SfxFalse | SfxCorrect

definition playSfx :: "bool \<Rightarrow> Sfx \<Rightarrow> Sfx option" where
  "playSfx isSfxOn audio = (if \<not> isSfxOn then None else Some audio)"

definition timed_handleDragEnd ::
  "bool \<Rightarrow> GridPiece list \<Rightarrow> string \<Rightarrow> Over option \<Rightarrow> GridState \<Rightarrow> Sfx option \<times> GridState" where
  "timed_handleDragEnd isSfxOn pieces activePieceId over s =
     (let s0 = s\<lparr>gridActive := None\<rparr> in
      case over of
        None \<Rightarrow> (None, s0)
      | Some ov \<Rightarrow>
          (case find_grid_piece pieces activePieceId of
             None \<Rightarrow> (None, s0)
           | Some piece \<Rightarrow>
               (case ov of
                  OverSlot targetIndex \<Rightarrow>
                    if \<not> (targetIndex < length (gridItems s) \<and> gridItems s ! targetIndex = [])
                    then (playSfx isSfxOn SfxFalse, s0)
                    else if correctIndex piece \<noteq> targetIndex
                    then (playSfx isSfxOn SfxFalse, s0)
                    else (playSfx isSfxOn SfxCorrect,
                          s0\<lparr>gridItems := (gridItems s)[targetIndex := activePieceId],
                             gridPool := filter (\<lambda>i. i \<noteq> activePieceId) (gridPool s)\<rparr>)
                | OverPool \<Rightarrow> (None, s0)
                | OverOther \<Rightarrow> (None, s0))))"

inductive timed_reachable :: "GridPiece list \<Rightarrow> nat \<Rightarrow> GridState \<Rightarrow> bool"
  for pieces :: "GridPiece list" and totalSlots :: nat where
  timed_reach_init:
    "mset shuffledPieces = mset pieces \<Longrightarrow>
     timed_reachable pieces totalSlots (grid_init shuffledPieces mode totalSlots)"
| timed_reach_start:
    "timed_reachable pieces totalSlots s \<Longrightarrow>
     timed_reachable pieces totalSlots (grid_handleDragStart i s)"
| timed_reach_end:
    "timed_reachable pieces totalSlots s \<Longrightarrow>
     timed_reachable pieces totalSlots (snd (timed_handleDragEnd isSfxOn pieces i over s))"
















section \<open>Piece count to grid: puzzle-triangle, puzzle-random and the random-shapes component\<close>

record Grid =
  rows :: nat
  cols :: nat

text \<open>
  \<open>getPieceDimensions\<close> of puzzle-triangle: a table lookup,
  \<open>mapping[pieceCount] || { rows: 4, cols: 4 }\<close>.
\<close>

definition mapping :: "(int \<times> Grid) list" where
  "mapping =
     [(8, \<lparr>rows = 2, cols = 2\<rparr>), (12, \<lparr>rows = 2, cols = 3\<rparr>), (18, \<lparr>rows = 3, cols = 3\<rparr>),
      (24, \<lparr>rows = 3, cols = 4\<rparr>), (32, \<lparr>rows = 4, cols = 4\<rparr>), (40, \<lparr>rows = 4, cols = 5\<rparr>),
      (50, \<lparr>rows = 5, cols = 5\<rparr>), (72, \<lparr>rows = 6, cols = 6\<rparr>)]"

definition getPieceDimensions :: "int \<Rightarrow> Grid" where
  "getPieceDimensions pieceCount =
     (case map_of mapping pieceCount of Some g \<Rightarrow> g | None \<Rightarrow> \<lparr>rows = 4, cols = 4\<rparr>)"

text \<open>\<open>getGridForPieceCount\<close> of puzzle-random: an exact match, else the closest entry.\<close>

record GridEntry =
  ge_pieces :: int
  ge_rows :: nat
  ge_cols :: nat

definition gridMap :: "GridEntry list" where
  "gridMap =
     [\<lparr>ge_pieces = 4, ge_rows = 1, ge_cols = 1\<rparr>, \<lparr>ge_pieces = 8, ge_rows = 1, ge_cols = 2\<rparr>,
      \<lparr>ge_pieces = 12, ge_rows = 1, ge_cols = 3\<rparr>, \<lparr>ge_pieces = 16, ge_rows = 2, ge_cols = 2\<rparr>,
      \<lparr>ge_pieces = 20, ge_rows = 1, ge_cols = 5\<rparr>, \<lparr>ge_pieces = 24, ge_rows = 2, ge_cols = 3\<rparr>,
      \<lparr>ge_pieces = 32, ge_rows = 2, ge_cols = 4\<rparr>, \<lparr>ge_pieces = 36, ge_rows = 3, ge_cols = 3\<rparr>,
      \<lparr>ge_pieces = 40, ge_rows = 2, ge_cols = 5\<rparr>, \<lparr>ge_pieces = 48, ge_rows = 3, ge_cols = 4\<rparr>,
      \<lparr>ge_pieces = 60, ge_rows = 3, ge_cols = 5\<rparr>, \<lparr>ge_pieces = 64, ge_rows = 4, ge_cols = 4\<rparr>,
      \<lparr>ge_pieces = 72, ge_rows = 3, ge_cols = 6\<rparr>, \<lparr>ge_pieces = 80, ge_rows = 4, ge_cols = 5\<rparr>,
      \<lparr>ge_pieces = 96, ge_rows = 4, ge_cols = 6\<rparr>, \<lparr>ge_pieces = 100, ge_rows = 5, ge_cols = 5\<rparr>,
      \<lparr>ge_pieces = 120, ge_rows = 5, ge_cols = 6\<rparr>, \<lparr>ge_pieces = 144, ge_rows = 6, ge_cols = 6\<rparr>]"

text \<open>
  The piece count is a JS number, an IEEE double. The model takes the counts with an
  integer value as \<open>int\<close>. \<open>piecesCount - g.pieces\<close> is then the exact difference
  rounded to the nearest double: \<open>round_double\<close> keeps a significand of 53 bits and
  rounds ties to even (\<open>excess_bits\<close> counts the low bits that do not fit). Below
  \<open>2^53\<close> nothing is rounded.
\<close>

function excess_bits :: "int \<Rightarrow> nat" where
  "excess_bits m = (if m < 2 ^ 53 then 0 else Suc (excess_bits (m div 2)))"
  by pat_completeness auto
termination
  by (relation "measure nat") auto

declare excess_bits.simps [simp del]

definition round_double :: "int \<Rightarrow> int" where
  "round_double n =
     (let m = \<bar>n\<bar>;
          e = excess_bits m;
          q = m div 2 ^ e;
          r = m mod 2 ^ e;
          up = (2 * r > 2 ^ e \<or> (2 * r = 2 ^ e \<and> odd q))
      in sgn n * ((if up then q + 1 else q) * 2 ^ e))"

text \<open>The fallback loop \<open>for (const g of gridMap)\<close>, with \<open>closest\<close> and \<open>minDiff\<close> as state.\<close>

fun closest_loop :: "int \<Rightarrow> GridEntry \<Rightarrow> int \<Rightarrow> GridEntry list \<Rightarrow> GridEntry" where
  "closest_loop piecesCount closest minDiff [] = closest"
| "closest_loop piecesCount closest minDiff (g # gs) =
     (let diff = \<bar>round_double (piecesCount - ge_pieces g)\<bar>
      in if diff < minDiff then closest_loop piecesCount g diff gs
         else closest_loop piecesCount closest minDiff gs)"

definition getGridForPieceCount :: "int \<Rightarrow> Grid" where
  "getGridForPieceCount piecesCount =
     (case List.find (\<lambda>g. ge_pieces g = piecesCount) gridMap of
        Some exact \<Rightarrow> \<lparr>rows = ge_rows exact, cols = ge_cols exact\<rparr>
      | None \<Rightarrow>
          (let closest = closest_loop piecesCount (hd gridMap)
                           \<bar>round_double (piecesCount - ge_pieces (hd gridMap))\<bar> gridMap
           in \<lparr>rows = ge_rows closest, cols = ge_cols closest\<rparr>))"

text \<open>
  The random-shapes component (\<open>PuzzleRandomShapes\<close>, with \<open>totalPieces\<close>) looks the
  count up in \<open>PIECE_CONFIGURATIONS\<close> at the start of its \<open>createTrianglePuzzle\<close> and
  throws when there is no entry; the message lists \<open>AVAILABLE_PIECE_COUNTS\<close>, the keys
  of the table in ascending order.
\<close>

definition PIECE_CONFIGURATIONS :: "(int \<times> Grid) list" where
  "PIECE_CONFIGURATIONS =
     [(4, \<lparr>rows = 1, cols = 1\<rparr>), (6, \<lparr>rows = 1, cols = 2\<rparr>), (8, \<lparr>rows = 2, cols = 1\<rparr>),
      (9, \<lparr>rows = 2, cols = 2\<rparr>), (12, \<lparr>rows = 2, cols = 2\<rparr>), (15, \<lparr>rows = 2, cols = 3\<rparr>),
      (16, \<lparr>rows = 2, cols = 3\<rparr>), (18, \<lparr>rows = 3, cols = 2\<rparr>), (20, \<lparr>rows = 3, cols = 3\<rparr>),
      (24, \<lparr>rows = 3, cols = 3\<rparr>), (25, \<lparr>rows = 3, cols = 4\<rparr>), (28, \<lparr>rows = 3, cols = 4\<rparr>),
      (30, \<lparr>rows = 4, cols = 3\<rparr>), (32, \<lparr>rows = 4, cols = 3\<rparr>), (35, \<lparr>rows = 4, cols = 4\<rparr>),
      (36, \<lparr>rows = 4, cols = 4\<rparr>), (40, \<lparr>rows = 4, cols = 4\<rparr>), (42, \<lparr>rows = 4, cols = 5\<rparr>),
      (45, \<lparr>rows = 4, cols = 5\<rparr>), (48, \<lparr>rows = 5, cols = 4\<rparr>), (50, \<lparr>rows = 5, cols = 5\<rparr>)]"

definition AVAILABLE_PIECE_COUNTS :: "int list" where
  "AVAILABLE_PIECE_COUNTS = sort (map fst PIECE_CONFIGURATIONS)"

datatype error = NoConfiguration int "int list"

definition createTrianglePuzzle_config :: "int \<Rightarrow> error + Grid" where
  "createTrianglePuzzle_config totalPieces =
     (case map_of PIECE_CONFIGURATIONS totalPieces of
        None \<Rightarrow> Inl (NoConfiguration totalPieces AVAILABLE_PIECE_COUNTS)
      | Some config \<Rightarrow> Inr config)"

section \<open>Triangle pieces and neighbor resolution\<close>

text \<open>
  Coordinates are JavaScript numbers; they are modelled as real numbers, so sums and
  differences are exact. The fields \<open>x\<close> and \<open>y\<close> of the source are \<open>px\<close> and \<open>py\<close>.
\<close>

record Point =
  px :: real
  py :: real

text \<open>
  The key of a neighbor entry is the template string
  \<open>`${a},${b}-${c},${d}`\<close> of four numbers. The string is determined by the four
  numbers in this order and different numbers print differently, so the key is kept as
  the four numbers.
\<close>

datatype EdgeKey = EdgeKey real real real real

text \<open>
  A piece. \<open>src\<close> (the rasterised image) is left out. \<open>neighbors\<close> is a JavaScript
  object used as a dictionary: assigning to an existing key replaces the value in
  place, a new key is appended, and \<open>Object.values\<close> lists the values in that order.
  Only strings are ever stored, so the \<open>null\<close> of the source type does not occur.
\<close>

record Piece =
  piece_id :: string
  piece_row :: nat
  piece_col :: nat
  triangleIndex :: nat
  correctPosition :: Point
  polygon :: "Point list"
  width :: real
  height :: real
  neighbors :: "(EdgeKey \<times> string) list"

definition distance :: "Point \<Rightarrow> Point \<Rightarrow> real" where
  "distance p1 p2 = sqrt ((px p1 - px p2)\<^sup>2 + (py p1 - py p2)\<^sup>2)"

text \<open>\<open>Math.min(...xs)\<close> and \<open>Math.max(...xs)\<close> on the coordinates of a polygon.\<close>

fun list_min :: "real list \<Rightarrow> real" where
  "list_min [] = 0"
| "list_min (v # vs) = fold min vs v"

fun list_max :: "real list \<Rightarrow> real" where
  "list_max [] = 0"
| "list_max (v # vs) = fold max vs v"

record Bounds =
  minX :: real
  minY :: real
  maxX :: real
  maxY :: real

definition getPolygonBounds :: "Point list \<Rightarrow> Bounds" where
  "getPolygonBounds poly =
     \<lparr>minX = list_min (map px poly), minY = list_min (map py poly),
      maxX = list_max (map px poly), maxY = list_max (map py poly)\<rparr>"

text \<open>Decimal digits of a number, for the ids \<open>piece-row-col-index\<close>.\<close>

definition digit_char :: "nat \<Rightarrow> char" where
  "digit_char d = ''0123456789'' ! d"

fun string_of_nat :: "nat \<Rightarrow> string" where
  "string_of_nat n =
     (if n < 10 then [digit_char n]
      else string_of_nat (n div 10) @ [digit_char (n mod 10)])"

definition createTrianglePiece :: "Point list \<Rightarrow> nat \<Rightarrow> nat \<Rightarrow> nat \<Rightarrow> Piece" where
  "createTrianglePiece triangle r c k =
     (let bounds = getPolygonBounds triangle
      in \<lparr>piece_id = ''piece-'' @ string_of_nat r @ ''-'' @ string_of_nat c @ ''-'' @ string_of_nat k,
          piece_row = r, piece_col = c, triangleIndex = k,
          correctPosition = \<lparr>px = minX bounds, py = minY bounds\<rparr>,
          polygon = triangle,
          width = maxX bounds - minX bounds, height = maxY bounds - minY bounds,
          neighbors = []\<rparr>)"

subsection \<open>puzzle-triangle: two triangles per cell\<close>

definition cell_triangles :: "real \<Rightarrow> real \<Rightarrow> nat \<Rightarrow> nat \<Rightarrow> Point list list" where
  "cell_triangles cellWidth cellHeight r c =
     (let topLeft = \<lparr>px = real c * cellWidth, py = real r * cellHeight\<rparr>;
          topRight = \<lparr>px = (real c + 1) * cellWidth, py = real r * cellHeight\<rparr>;
          bottomLeft = \<lparr>px = real c * cellWidth, py = (real r + 1) * cellHeight\<rparr>;
          bottomRight = \<lparr>px = (real c + 1) * cellWidth, py = (real r + 1) * cellHeight\<rparr>
      in if (r + c) mod 2 = 0
         then [[topLeft, topRight, bottomRight], [topLeft, bottomRight, bottomLeft]]
         else [[topLeft, topRight, bottomLeft], [topRight, bottomRight, bottomLeft]])"

text \<open>The vertex test of \<open>setupNeighbors\<close>, with the tolerance as a parameter.\<close>

definition close_to :: "real \<Rightarrow> Point \<Rightarrow> Point \<Rightarrow> bool" where
  "close_to tol p1 p2 = (\<bar>px p1 - px p2\<bar> < tol \<and> \<bar>py p1 - py p2\<bar> < tol)"

text \<open>
  \<open>setupNeighbors\<close> of puzzle-triangle. The shared points are the vertices of the
  piece itself that lie within 0.1 of some vertex of the other piece, in the order of
  the piece's own polygon; the key is built from the first two.
\<close>

definition sharedPoints :: "Piece \<Rightarrow> Piece \<Rightarrow> Point list" where
  "sharedPoints piece otherPiece =
     filter (\<lambda>p1. list_ex (\<lambda>p2. close_to (1/10) p1 p2) (polygon otherPiece)) (polygon piece)"

definition edgeKey :: "Point list \<Rightarrow> EdgeKey" where
  "edgeKey shared = EdgeKey (px (shared ! 0)) (py (shared ! 0)) (px (shared ! 1)) (py (shared ! 1))"

definition visit_other :: "Piece \<Rightarrow> (EdgeKey \<times> string) list \<Rightarrow> Piece \<Rightarrow> (EdgeKey \<times> string) list" where
  "visit_other piece nbs otherPiece =
     (if piece_id piece = piece_id otherPiece then nbs
      else if length (sharedPoints piece otherPiece) = 2
           then AList.update (edgeKey (sharedPoints piece otherPiece)) (piece_id otherPiece) nbs
           else nbs)"

definition setupNeighbors :: "Piece list \<Rightarrow> Piece list" where
  "setupNeighbors pieces =
     map (\<lambda>piece. piece\<lparr>neighbors := foldl (visit_other piece) (neighbors piece) pieces\<rparr>) pieces"

definition createTrianglePuzzle :: "real \<Rightarrow> real \<Rightarrow> nat \<Rightarrow> nat \<Rightarrow> Piece list" where
  "createTrianglePuzzle imgWidth imgHeight nrows ncols =
     (let cellWidth = imgWidth / real ncols;
          cellHeight = imgHeight / real nrows
      in setupNeighbors
           (concat (map (\<lambda>r. concat (map (\<lambda>c.
              map (\<lambda>(k, tri). createTrianglePiece tri r c k)
                  (enumerate 0 (cell_triangles cellWidth cellHeight r c)))
              [0..<ncols])) [0..<nrows])))"

subsection \<open>puzzle-random: four triangles per cell\<close>

definition generateTrianglePattern ::
  "Point \<Rightarrow> Point \<Rightarrow> Point \<Rightarrow> Point \<Rightarrow> nat \<Rightarrow> nat \<Rightarrow> Point list list" where
  "generateTrianglePattern topLeft topRight bottomLeft bottomRight r c =
     (let cellW = px topRight - px topLeft;
          cellH = py bottomLeft - py topLeft;
          patternType = (r * 7 + c * 13) mod 6;
          cxy = (if patternType = 0 then (50/100, 50/100)
                 else if patternType = 1 then (30/100, 35/100)
                 else if patternType = 2 then (70/100, 30/100)
                 else if patternType = 3 then (30/100, 70/100)
                 else if patternType = 4 then (70/100, 65/100)
                 else if patternType = 5 then (40/100, 60/100)
                 else (50/100, 50/100));
          interior = \<lparr>px = px topLeft + cellW * fst cxy, py = py topLeft + cellH * snd cxy\<rparr>
      in [[topLeft, topRight, interior], [topRight, bottomRight, interior],
          [bottomRight, bottomLeft, interior], [bottomLeft, topLeft, interior]])"

text \<open>
  The shared points of puzzle-random: every vertex pair within the tolerance
  contributes the first piece's vertex, unless a point within 0.01 is there already.
\<close>

definition push_shared :: "real \<Rightarrow> Point \<Rightarrow> Point list \<Rightarrow> Point \<Rightarrow> Point list" where
  "push_shared tolerance p1 shared p2 =
     (if close_to tolerance p1 p2
      then (if list_ex (\<lambda>sp. close_to (1/100) sp p1) shared then shared else shared @ [p1])
      else shared)"

definition sharedPoints_random :: "real \<Rightarrow> Piece \<Rightarrow> Piece \<Rightarrow> Point list" where
  "sharedPoints_random tolerance piece otherPiece =
     foldl (\<lambda>shared p1. foldl (push_shared tolerance p1) shared (polygon otherPiece))
           [] (polygon piece)"

text \<open>
  \<open>sharedPoints.sort(...)\<close> with the comparator of the source: by x when the x
  differ by more than 0.1, else by y. The sort is stable; it is modelled as an insertion
  sort.
\<close>

definition compare_points :: "Point \<Rightarrow> Point \<Rightarrow> real" where
  "compare_points a b = (if \<bar>px a - px b\<bar> > 1/10 then px a - px b else py a - py b)"

fun insert_point :: "Point \<Rightarrow> Point list \<Rightarrow> Point list" where
  "insert_point a [] = [a]"
| "insert_point a (b # bs) =
     (if compare_points a b < 0 then a # b # bs else b # insert_point a bs)"

definition sort_points :: "Point list \<Rightarrow> Point list" where
  "sort_points ps = foldl (\<lambda>acc a. insert_point a acc) [] ps"

text \<open>\<open>Math.round(v * 10)\<close>: the nearest integer, halves upwards.\<close>

definition round10 :: "real \<Rightarrow> real" where
  "round10 v = real_of_int \<lfloor>v * 10 + 1/2\<rfloor>"

definition edgeKey_random :: "Point list \<Rightarrow> EdgeKey" where
  "edgeKey_random shared =
     EdgeKey (round10 (px (shared ! 0))) (round10 (py (shared ! 0)))
             (round10 (px (shared ! 1))) (round10 (py (shared ! 1)))"

text \<open>
  \<open>setupNeighbors(pieces, tolerance)\<close> of puzzle-random visits every pair \<open>i < j\<close>
  once and writes the entry of both pieces. The state is the list of pieces.
\<close>

definition visit_pair :: "real \<Rightarrow> Piece list \<Rightarrow> nat \<times> nat \<Rightarrow> Piece list" where
  "visit_pair tolerance pieces ij =
     (let i = fst ij; j = snd ij;
          piece = pieces ! i; otherPiece = pieces ! j;
          shared = sharedPoints_random tolerance piece otherPiece
      in if i \<ge> j then pieces
         else if length shared \<ge> 2
         then (let k = edgeKey_random (sort_points shared);
                   pieces1 = pieces[i := piece\<lparr>neighbors := AList.update k (piece_id otherPiece) (neighbors piece)\<rparr>];
                   other1 = pieces1 ! j
               in pieces1[j := other1\<lparr>neighbors := AList.update k (piece_id piece) (neighbors other1)\<rparr>])
         else pieces)"

definition setupNeighbors_random :: "Piece list \<Rightarrow> real \<Rightarrow> Piece list" where
  "setupNeighbors_random pieces tolerance =
     foldl (visit_pair tolerance) pieces
       (concat (map (\<lambda>i. map (\<lambda>j. (i, j)) [0..<length pieces]) [0..<length pieces]))"

definition createTrianglePuzzle_random :: "real \<Rightarrow> real \<Rightarrow> nat \<Rightarrow> nat \<Rightarrow> Piece list" where
  "createTrianglePuzzle_random imgWidth imgHeight nrows ncols =
     (let maxDimension = max imgWidth imgHeight;
          imageScale = (if maxDimension > 800 then 800 / maxDimension else 1);
          w = imgWidth * imageScale;
          h = imgHeight * imageScale;
          cellWidth = w / real ncols;
          cellHeight = h / real nrows
      in setupNeighbors_random
           (concat (map (\<lambda>r. concat (map (\<lambda>c.
              map (\<lambda>(k, tri). createTrianglePiece tri r c k)
                (enumerate 0 (generateTrianglePattern
                   \<lparr>px = real c * cellWidth, py = real r * cellHeight\<rparr>
                   \<lparr>px = (real c + 1) * cellWidth, py = real r * cellHeight\<rparr>
                   \<lparr>px = real c * cellWidth, py = (real r + 1) * cellHeight\<rparr>
                   \<lparr>px = (real c + 1) * cellWidth, py = (real r + 1) * cellHeight\<rparr> r c)))
              [0..<ncols])) [0..<nrows])) 1)"

section \<open>A concrete puzzle\<close>

text \<open>
  The eight pieces puzzle-triangle cuts from a 200 by 200 image with the 2 by 2 grid
  (piece count 8), written out: first as \<open>createTrianglePiece\<close> leaves them, then with
  the neighbor entries \<open>setupNeighbors\<close> adds.
\<close>

definition raw_2x2 :: "Piece list" where
  "raw_2x2 =
     [\<lparr>piece_id = ''piece-0-0-0'', piece_row = 0, piece_col = 0, triangleIndex = 0,
       correctPosition = \<lparr>px = 0, py = 0\<rparr>,
       polygon = [\<lparr>px = 0, py = 0\<rparr>, \<lparr>px = 100, py = 0\<rparr>, \<lparr>px = 100, py = 100\<rparr>],
       width = 100, height = 100,
       neighbors = []\<rparr>,
      \<lparr>piece_id = ''piece-0-0-1'', piece_row = 0, piece_col = 0, triangleIndex = 1,
       correctPosition = \<lparr>px = 0, py = 0\<rparr>,
       polygon = [\<lparr>px = 0, py = 0\<rparr>, \<lparr>px = 100, py = 100\<rparr>, \<lparr>px = 0, py = 100\<rparr>],
       width = 100, height = 100,
       neighbors = []\<rparr>,
      \<lparr>piece_id = ''piece-0-1-0'', piece_row = 0, piece_col = 1, triangleIndex = 0,
       correctPosition = \<lparr>px = 100, py = 0\<rparr>,
       polygon = [\<lparr>px = 100, py = 0\<rparr>, \<lparr>px = 200, py = 0\<rparr>, \<lparr>px = 100, py = 100\<rparr>],
       width = 100, height = 100,
       neighbors = []\<rparr>,
      \<lparr>piece_id = ''piece-0-1-1'', piece_row = 0, piece_col = 1, triangleIndex = 1,
       correctPosition = \<lparr>px = 100, py = 0\<rparr>,
       polygon = [\<lparr>px = 200, py = 0\<rparr>, \<lparr>px = 200, py = 100\<rparr>, \<lparr>px = 100, py = 100\<rparr>],
       width = 100, height = 100,
       neighbors = []\<rparr>,
      \<lparr>piece_id = ''piece-1-0-0'', piece_row = 1, piece_col = 0, triangleIndex = 0,
       correctPosition = \<lparr>px = 0, py = 100\<rparr>,
       polygon = [\<lparr>px = 0, py = 100\<rparr>, \<lparr>px = 100, py = 100\<rparr>, \<lparr>px = 0, py = 200\<rparr>],
       width = 100, height = 100,
       neighbors = []\<rparr>,
      \<lparr>piece_id = ''piece-1-0-1'', piece_row = 1, piece_col = 0, triangleIndex = 1,
       correctPosition = \<lparr>px = 0, py = 100\<rparr>,
       polygon = [\<lparr>px = 100, py = 100\<rparr>, \<lparr>px = 100, py = 200\<rparr>, \<lparr>px = 0, py = 200\<rparr>],
       width = 100, height = 100,
       neighbors = []\<rparr>,
      \<lparr>piece_id = ''piece-1-1-0'', piece_row = 1, piece_col = 1, triangleIndex = 0,
       correctPosition = \<lparr>px = 100, py = 100\<rparr>,
       polygon = [\<lparr>px = 100, py = 100\<rparr>, \<lparr>px = 200, py = 100\<rparr>, \<lparr>px = 200, py = 200\<rparr>],
       width = 100, height = 100,
       neighbors = []\<rparr>,
      \<lparr>piece_id = ''piece-1-1-1'', piece_row = 1, piece_col = 1, triangleIndex = 1,
       correctPosition = \<lparr>px = 100, py = 100\<rparr>,
       polygon = [\<lparr>px = 100, py = 100\<rparr>, \<lparr>px = 200, py = 200\<rparr>, \<lparr>px = 100, py = 200\<rparr>],
       width = 100, height = 100,
       neighbors = []\<rparr>]"

definition puzzle_2x2 :: "Piece list" where
  "puzzle_2x2 =
     [\<lparr>piece_id = ''piece-0-0-0'', piece_row = 0, piece_col = 0, triangleIndex = 0,
       correctPosition = \<lparr>px = 0, py = 0\<rparr>,
       polygon = [\<lparr>px = 0, py = 0\<rparr>, \<lparr>px = 100, py = 0\<rparr>, \<lparr>px = 100, py = 100\<rparr>],
       width = 100, height = 100,
       neighbors = [(EdgeKey 0 0 100 100, ''piece-0-0-1''), (EdgeKey 100 0 100 100, ''piece-0-1-0'')]\<rparr>,
      \<lparr>piece_id = ''piece-0-0-1'', piece_row = 0, piece_col = 0, triangleIndex = 1,
       correctPosition = \<lparr>px = 0, py = 0\<rparr>,
       polygon = [\<lparr>px = 0, py = 0\<rparr>, \<lparr>px = 100, py = 100\<rparr>, \<lparr>px = 0, py = 100\<rparr>],
       width = 100, height = 100,
       neighbors = [(EdgeKey 0 0 100 100, ''piece-0-0-0''), (EdgeKey 100 100 0 100, ''piece-1-0-0'')]\<rparr>,
      \<lparr>piece_id = ''piece-0-1-0'', piece_row = 0, piece_col = 1, triangleIndex = 0,
       correctPosition = \<lparr>px = 100, py = 0\<rparr>,
       polygon = [\<lparr>px = 100, py = 0\<rparr>, \<lparr>px = 200, py = 0\<rparr>, \<lparr>px = 100, py = 100\<rparr>],
       width = 100, height = 100,
       neighbors = [(EdgeKey 100 0 100 100, ''piece-0-0-0''), (EdgeKey 200 0 100 100, ''piece-0-1-1'')]\<rparr>,
      \<lparr>piece_id = ''piece-0-1-1'', piece_row = 0, piece_col = 1, triangleIndex = 1,
       correctPosition = \<lparr>px = 100, py = 0\<rparr>,
       polygon = [\<lparr>px = 200, py = 0\<rparr>, \<lparr>px = 200, py = 100\<rparr>, \<lparr>px = 100, py = 100\<rparr>],
       width = 100, height = 100,
       neighbors = [(EdgeKey 200 0 100 100, ''piece-0-1-0''), (EdgeKey 200 100 100 100, ''piece-1-1-0'')]\<rparr>,
      \<lparr>piece_id = ''piece-1-0-0'', piece_row = 1, piece_col = 0, triangleIndex = 0,
       correctPosition = \<lparr>px = 0, py = 100\<rparr>,
       polygon = [\<lparr>px = 0, py = 100\<rparr>, \<lparr>px = 100, py = 100\<rparr>, \<lparr>px = 0, py = 200\<rparr>],
       width = 100, height = 100,
       neighbors = [(EdgeKey 0 100 100 100, ''piece-0-0-1''), (EdgeKey 100 100 0 200, ''piece-1-0-1'')]\<rparr>,
      \<lparr>piece_id = ''piece-1-0-1'', piece_row = 1, piece_col = 0, triangleIndex = 1,
       correctPosition = \<lparr>px = 0, py = 100\<rparr>,
       polygon = [\<lparr>px = 100, py = 100\<rparr>, \<lparr>px = 100, py = 200\<rparr>, \<lparr>px = 0, py = 200\<rparr>],
       width = 100, height = 100,
       neighbors = [(EdgeKey 100 100 0 200, ''piece-1-0-0''), (EdgeKey 100 100 100 200, ''piece-1-1-1'')]\<rparr>,
      \<lparr>piece_id = ''piece-1-1-0'', piece_row = 1, piece_col = 1, triangleIndex = 0,
       correctPosition = \<lparr>px = 100, py = 100\<rparr>,
       polygon = [\<lparr>px = 100, py = 100\<rparr>, \<lparr>px = 200, py = 100\<rparr>, \<lparr>px = 200, py = 200\<rparr>],
       width = 100, height = 100,
       neighbors = [(EdgeKey 100 100 200 100, ''piece-0-1-1''), (EdgeKey 100 100 200 200, ''piece-1-1-1'')]\<rparr>,
      \<lparr>piece_id = ''piece-1-1-1'', piece_row = 1, piece_col = 1, triangleIndex = 1,
       correctPosition = \<lparr>px = 100, py = 100\<rparr>,
       polygon = [\<lparr>px = 100, py = 100\<rparr>, \<lparr>px = 200, py = 200\<rparr>, \<lparr>px = 100, py = 200\<rparr>],
       width = 100, height = 100,
       neighbors = [(EdgeKey 100 100 100 200, ''piece-1-0-1''), (EdgeKey 100 100 200 200, ''piece-1-1-0'')]\<rparr>]"

text \<open>
  The four pieces puzzle-random cuts from a 100 by 100 image with the 1 by 1 grid
  (piece count 4), with their neighbor entries.
\<close>

definition puzzle_random_1x1 :: "Piece list" where
  "puzzle_random_1x1 =
     [\<lparr>piece_id = ''piece-0-0-0'', piece_row = 0, piece_col = 0, triangleIndex = 0,
       correctPosition = \<lparr>px = 0, py = 0\<rparr>,
       polygon = [\<lparr>px = 0, py = 0\<rparr>, \<lparr>px = 100, py = 0\<rparr>, \<lparr>px = 50, py = 50\<rparr>],
       width = 100, height = 50,
       neighbors = [(EdgeKey 500 500 1000 0, ''piece-0-0-1''), (EdgeKey 0 0 500 500, ''piece-0-0-3'')]\<rparr>,
      \<lparr>piece_id = ''piece-0-0-1'', piece_row = 0, piece_col = 0, triangleIndex = 1,
       correctPosition = \<lparr>px = 50, py = 0\<rparr>,
       polygon = [\<lparr>px = 100, py = 0\<rparr>, \<lparr>px = 100, py = 100\<rparr>, \<lparr>px = 50, py = 50\<rparr>],
       width = 50, height = 100,
       neighbors = [(EdgeKey 500 500 1000 0, ''piece-0-0-0''), (EdgeKey 500 500 1000 1000, ''piece-0-0-2'')]\<rparr>,
      \<lparr>piece_id = ''piece-0-0-2'', piece_row = 0, piece_col = 0, triangleIndex = 2,
       correctPosition = \<lparr>px = 0, py = 50\<rparr>,
       polygon = [\<lparr>px = 100, py = 100\<rparr>, \<lparr>px = 0, py = 100\<rparr>, \<lparr>px = 50, py = 50\<rparr>],
       width = 100, height = 50,
       neighbors = [(EdgeKey 500 500 1000 1000, ''piece-0-0-1''), (EdgeKey 0 1000 500 500, ''piece-0-0-3'')]\<rparr>,
      \<lparr>piece_id = ''piece-0-0-3'', piece_row = 0, piece_col = 0, triangleIndex = 3,
       correctPosition = \<lparr>px = 0, py = 0\<rparr>,
       polygon = [\<lparr>px = 0, py = 100\<rparr>, \<lparr>px = 0, py = 0\<rparr>, \<lparr>px = 50, py = 50\<rparr>],
       width = 50, height = 100,
       neighbors = [(EdgeKey 0 0 500 500, ''piece-0-0-0''), (EdgeKey 0 1000 500 500, ''piece-0-0-2'')]\<rparr>]"

section \<open>Placement and snapping: puzzle-triangle\<close>

text \<open>
  A placed piece. \<open>connectedGroup\<close> is a JavaScript \<open>Set\<close> of ids; it is kept as the
  list of its elements in insertion order, which is the order \<open>forEach\<close> visits them.
  \<open>placedPieces\<close> is a \<open>Map\<close> from ids to placed pieces, kept as an association
  list: \<open>map_of\<close> is \<open>get\<close>, \<open>AList.update\<close> is \<open>set\<close> (a present key keeps its
  place, a new key goes to the end) and \<open>AList.delete\<close> is \<open>delete\<close>.
\<close>

record PlacedPiece =
  placed_id :: string
  position :: Point
  isLocked :: bool
  connectedGroup :: "string list"

type_synonym PlacedMap = "(string \<times> PlacedPiece) list"

text \<open>\<open>Set.add\<close> and \<open>new Set(array)\<close>.\<close>

definition set_add :: "string list \<Rightarrow> string \<Rightarrow> string list" where
  "set_add s i = (if i \<in> set s then s else s @ [i])"

definition new_set :: "string list \<Rightarrow> string list" where
  "new_set xs = foldl set_add [] xs"

text \<open>All ids that occur in some \<open>connectedGroup\<close> of the map.\<close>

definition link_targets :: "PlacedMap \<Rightarrow> string set" where
  "link_targets pm = (\<Union>e\<in>set pm. set (connectedGroup (snd e)))"

text \<open>
  The breadth-first loop over \<open>connectedGroup\<close> links, with the queue and the visited
  set as arguments. \<open>getConnectedGroup\<close> runs it with nothing excluded; the merge in
  \<open>handleDragEnd\<close> runs the same loop but skips the ids of the dragged group
  (\<open>visited.has(current) || connectedGroup.includes(current)\<close>). Each round either
  drops a queue entry or visits a new id out of finitely many, so the loop ends.
\<close>

function walk :: "PlacedMap \<Rightarrow> string list \<Rightarrow> string list \<Rightarrow> string list \<Rightarrow> string list" where
  "walk pm excl [] visited = visited"
| "walk pm excl (current # queue) visited =
     (if current \<in> set visited \<or> current \<in> set excl then walk pm excl queue visited
      else (case map_of pm current of
              None \<Rightarrow> walk pm excl queue (visited @ [current])
            | Some placed \<Rightarrow>
                walk pm excl
                  (queue @ filter (\<lambda>i. i \<notin> set (visited @ [current])) (connectedGroup placed))
                  (visited @ [current])))"
  by pat_completeness auto
termination
proof (relation "measures [\<lambda>(pm, excl, queue, visited). card ((link_targets pm \<union> set queue) - set visited),
                          \<lambda>(pm, excl, queue, visited). length queue]", goal_cases)
  case 1
  then show ?case by simp
next
  case (2 pm excl current queue visited)
  have "card ((link_targets pm \<union> set queue) - set visited)
        \<le> card ((link_targets pm \<union> set (current # queue)) - set visited)"
    by (rule card_mono) (auto simp: link_targets_def)
  then show ?case by auto
next
  case (3 pm excl current queue visited)
  have fin: "finite ((link_targets pm \<union> set (current # queue)) - set visited)"
    by (auto simp: link_targets_def)
  have "(link_targets pm \<union> set queue) - set (visited @ [current])
        \<subset> (link_targets pm \<union> set (current # queue)) - set visited"
    using 3 by auto
  from psubset_card_mono [OF fin this] show ?case by simp
next
  case (4 pm excl current queue visited placed)
  have fin: "finite ((link_targets pm \<union> set (current # queue)) - set visited)"
    by (auto simp: link_targets_def)
  from 4 have "(current, placed) \<in> set pm" by (simp add: map_of_SomeD)
  then have "set (connectedGroup placed) \<subseteq> link_targets pm"
    by (force simp: link_targets_def)
  then have "(link_targets pm \<union> set (queue @ filter (\<lambda>i. i \<notin> set (visited @ [current])) (connectedGroup placed)))
          - set (visited @ [current])
        \<subset> (link_targets pm \<union> set (current # queue)) - set visited"
    using 4 by auto
  from psubset_card_mono [OF fin this] show ?case by simp
qed

definition getConnectedGroup :: "PlacedMap \<Rightarrow> string \<Rightarrow> string list" where
  "getConnectedGroup pm pieceId = walk pm [] [pieceId] []"

definition find_piece :: "Piece list \<Rightarrow> string \<Rightarrow> Piece option" where
  "find_piece pieces i = List.find (\<lambda>p. piece_id p = i) pieces"

text \<open>
  Where the piece belongs when its neighbor stays where it is: the neighbor's position
  plus the offset between the two correct positions.
\<close>

definition expectedPos :: "Piece \<Rightarrow> Piece \<Rightarrow> PlacedPiece \<Rightarrow> Point" where
  "expectedPos piece neighbor neighborPlaced =
     \<lparr>px = px (position neighborPlaced) + (px (correctPosition piece) - px (correctPosition neighbor)),
      py = py (position neighborPlaced) + (py (correctPosition piece) - py (correctPosition neighbor))\<rparr>"

record SnapCandidate =
  neighborId :: string
  snapPos :: Point
  dist :: real

record SnapResult =
  shouldSnap :: bool
  snapPosition :: Point
  snapNeighbors :: "string list"

text \<open>
  The candidates of \<open>checkAndSnapToNeighbors\<close>, in the order of
  \<open>Object.values(piece.neighbors)\<close>. An empty id is falsy and skipped.
\<close>

definition candidate_of ::
  "Piece list \<Rightarrow> PlacedMap \<Rightarrow> real \<Rightarrow> Piece \<Rightarrow> Point \<Rightarrow> string \<Rightarrow> SnapCandidate list" where
  "candidate_of pieces pm snapThreshold piece pos nId =
     (if nId = [] then []
      else case map_of pm nId of
             None \<Rightarrow> []
           | Some neighborPlaced \<Rightarrow>
               (case find_piece pieces nId of
                  None \<Rightarrow> []
                | Some neighbor \<Rightarrow>
                    (let e = expectedPos piece neighbor neighborPlaced;
                         d = distance pos e
                     in if d < snapThreshold
                        then [\<lparr>neighborId = nId, snapPos = e, dist = d\<rparr>]
                        else [])))"

definition snapCandidates ::
  "Piece list \<Rightarrow> PlacedMap \<Rightarrow> real \<Rightarrow> Piece \<Rightarrow> Point \<Rightarrow> SnapCandidate list" where
  "snapCandidates pieces pm snapThreshold piece pos =
     concat (map (candidate_of pieces pm snapThreshold piece pos) (map snd (neighbors piece)))"

text \<open>
  \<open>checkAndSnapToNeighbors\<close>. The candidates are sorted by distance (a stable sort) and
  the first is the best; the neighbors returned are the candidates' ids together with
  their connected groups.
\<close>

definition checkAndSnapToNeighbors ::
  "Piece list \<Rightarrow> PlacedMap \<Rightarrow> real \<Rightarrow> string \<Rightarrow> Point \<Rightarrow> SnapResult" where
  "checkAndSnapToNeighbors pieces pm snapThreshold pieceId pos =
     (case find_piece pieces pieceId of
        None \<Rightarrow> \<lparr>shouldSnap = False, snapPosition = pos, snapNeighbors = []\<rparr>
      | Some piece \<Rightarrow>
          (case sort_key dist (snapCandidates pieces pm snapThreshold piece pos) of
             [] \<Rightarrow> \<lparr>shouldSnap = False, snapPosition = pos, snapNeighbors = []\<rparr>
           | best # rest \<Rightarrow>
               \<lparr>shouldSnap = True, snapPosition = snapPos best,
                snapNeighbors =
                  foldl (\<lambda>allNeighbors candidate.
                           foldl set_add (set_add allNeighbors (neighborId candidate))
                                 (getConnectedGroup pm (neighborId candidate)))
                        [] (best # rest)\<rparr>))"

text \<open>The session state of puzzle-triangle (the display-only \<open>dragDelta\<close> is left out).\<close>

datatype DragSource = FromPool | FromPlaced

record PuzzleState =
  placedPieces :: PlacedMap
  poolItems :: "string list"
  activeId :: "string option"
  dragSource :: "DragSource option"

definition handleDragStart :: "string \<Rightarrow> PuzzleState \<Rightarrow> PuzzleState" where
  "handleDragStart i s =
     (if i \<in> set (poolItems s)
      then s\<lparr>activeId := Some i, dragSource := Some FromPool,
             poolItems := filter (\<lambda>pid. pid \<noteq> i) (poolItems s)\<rparr>
      else if map_of (placedPieces s) i \<noteq> None
      then s\<lparr>activeId := Some i, dragSource := Some FromPlaced\<rparr>
      else s\<lparr>activeId := Some i\<rparr>)"

text \<open>
  A piece from the pool is dropped on the canvas at \<open>pos\<close>: the \<open>setPlacedPieces\<close>
  update of the pool branch of \<open>handleDragEnd\<close>. The pool branch of \<open>onUp\<close> in
  puzzle-random makes the same update.
\<close>

definition pool_drop :: "Piece list \<Rightarrow> real \<Rightarrow> PlacedMap \<Rightarrow> string \<Rightarrow> Point \<Rightarrow> PlacedMap" where
  "pool_drop pieces snapThreshold prev pieceId pos =
     (let r = checkAndSnapToNeighbors pieces prev snapThreshold pieceId pos;
          finalPos = (if shouldSnap r then snapPosition r else pos)
      in if shouldSnap r \<and> length (snapNeighbors r) > 0
         then (let allConnected = new_set (pieceId # snapNeighbors r)
               in foldl (\<lambda>newMap i.
                     if i = pieceId
                     then AList.update i \<lparr>placed_id = i, position = finalPos, isLocked = True,
                            connectedGroup = filter (\<lambda>cId. cId \<noteq> i) allConnected\<rparr> newMap
                     else (case map_of prev i of
                             Some old \<Rightarrow>
                               AList.update i (old\<lparr>isLocked := True,
                                  connectedGroup := filter (\<lambda>cId. cId \<noteq> i) allConnected\<rparr>) newMap
                           | None \<Rightarrow> newMap))
                   prev allConnected)
         else AList.update pieceId \<lparr>placed_id = pieceId, position = finalPos, isLocked = False,
                connectedGroup = []\<rparr> prev)"

text \<open>
  The placed branch of \<open>handleDragEnd\<close>. First every piece of the dragged group is
  moved by the drag delta and unlocked.
\<close>

definition move_group :: "PlacedMap \<Rightarrow> string list \<Rightarrow> Point \<Rightarrow> PlacedMap" where
  "move_group prev groupIds delta =
     foldl (\<lambda>newMap i.
              case map_of prev i of
                Some old \<Rightarrow>
                  AList.update i (old\<lparr>position := \<lparr>px = px (position old) + px delta,
                                                   py = py (position old) + py delta\<rparr>,
                                      isLocked := False\<rparr>) newMap
              | None \<Rightarrow> newMap)
           prev groupIds"

record BestSnap =
  bs_snapPos :: Point
  bs_groupPieceId :: string
  bs_groupPiecePos :: Point
  bs_neighborId :: string
  bs_dist :: real

text \<open>
  The snaps within the threshold found by the two nested loops, in the order the loops
  meet them: every piece of the group against each of its neighbors that is placed and
  is not itself in the dragged group.
\<close>

definition group_candidate_of ::
  "Piece list \<Rightarrow> PlacedMap \<Rightarrow> real \<Rightarrow> string list \<Rightarrow> string \<Rightarrow> Piece \<Rightarrow> PlacedPiece \<Rightarrow> string
     \<Rightarrow> BestSnap list" where
  "group_candidate_of pieces newMap snapThreshold groupIds groupId groupPiece groupPlaced nId =
     (if nId = [] \<or> nId \<in> set groupIds then []
      else case map_of newMap nId of
             None \<Rightarrow> []
           | Some neighborPlaced \<Rightarrow>
               (case find_piece pieces nId of
                  None \<Rightarrow> []
                | Some neighborPiece \<Rightarrow>
                    (let e = expectedPos groupPiece neighborPiece neighborPlaced;
                         d = distance (position groupPlaced) e
                     in if d < snapThreshold
                        then [\<lparr>bs_snapPos = e, bs_groupPieceId = groupId,
                               bs_groupPiecePos = position groupPlaced,
                               bs_neighborId = nId, bs_dist = d\<rparr>]
                        else [])))"

definition group_candidates ::
  "Piece list \<Rightarrow> PlacedMap \<Rightarrow> real \<Rightarrow> string list \<Rightarrow> BestSnap list" where
  "group_candidates pieces newMap snapThreshold groupIds =
     concat (map (\<lambda>groupId.
        case find_piece pieces groupId of
          None \<Rightarrow> []
        | Some groupPiece \<Rightarrow>
            (case map_of newMap groupId of
               None \<Rightarrow> []
             | Some groupPlaced \<Rightarrow>
                 concat (map (group_candidate_of pieces newMap snapThreshold groupIds
                                groupId groupPiece groupPlaced)
                             (map snd (neighbors groupPiece)))))
        groupIds)"

text \<open>\<open>if (!bestSnap || dist < bestSnap.dist) bestSnap = ...\<close>, over the candidates.\<close>

definition better :: "BestSnap option \<Rightarrow> BestSnap \<Rightarrow> BestSnap option" where
  "better bestSnap c =
     (case bestSnap of
        None \<Rightarrow> Some c
      | Some b \<Rightarrow> if bs_dist c < bs_dist b then Some c else Some b)"

text \<open>
  The merge: the neighbors within the threshold are expanded to their connected groups
  (walking the moved map, never entering the dragged group), and every member of the
  union is rewritten, the dragged ones shifted by the snap offset.
\<close>

definition expandedNeighbors :: "PlacedMap \<Rightarrow> string list \<Rightarrow> string list \<Rightarrow> string list" where
  "expandedNeighbors newMap groupIds allNeighborIds =
     foldl (\<lambda>expanded nId. foldl set_add expanded (walk newMap groupIds [nId] []))
           [] allNeighborIds"

definition merge_group ::
  "PlacedMap \<Rightarrow> string list \<Rightarrow> BestSnap \<Rightarrow> string list \<Rightarrow> PlacedMap" where
  "merge_group newMap groupIds bs allNeighborIds =
     (let snapOffset = \<lparr>px = px (bs_snapPos bs) - px (bs_groupPiecePos bs),
                        py = py (bs_snapPos bs) - py (bs_groupPiecePos bs)\<rparr>;
          allConnected = new_set (groupIds @ expandedNeighbors newMap groupIds allNeighborIds)
      in foldl (\<lambda>m i.
            case map_of m i of
              None \<Rightarrow> m
            | Some old \<Rightarrow>
                AList.update i
                  \<lparr>placed_id = i,
                   position = (if i \<in> set groupIds
                               then \<lparr>px = px (position old) + px snapOffset,
                                     py = py (position old) + py snapOffset\<rparr>
                               else position old),
                   isLocked = True,
                   connectedGroup = filter (\<lambda>cId. cId \<noteq> i) allConnected\<rparr> m)
          newMap allConnected)"

definition group_drop :: "Piece list \<Rightarrow> real \<Rightarrow> PlacedMap \<Rightarrow> string \<Rightarrow> Point \<Rightarrow> PlacedMap" where
  "group_drop pieces snapThreshold prev pieceId delta =
     (let groupIds = getConnectedGroup prev pieceId;
          newMap = move_group prev groupIds delta;
          cands = group_candidates pieces newMap snapThreshold groupIds;
          bestSnap = foldl better None cands;
          allNeighborIds = new_set (map bs_neighborId cands)
      in case bestSnap of
           None \<Rightarrow> newMap
         | Some bs \<Rightarrow>
             if length allNeighborIds > 0 then merge_group newMap groupIds bs allNeighborIds
             else newMap)"

text \<open>
  The release event: whether the pointer is over the canvas, whether the canvas
  rectangle and the activating event are there, the drop point on the canvas in image
  coordinates, and the drag delta in image coordinates.
\<close>

record DragEndEvent =
  overCanvas :: bool
  hasRect :: bool
  dropPoint :: Point
  dragDelta :: Point

definition handleDragEnd ::
  "Piece list \<Rightarrow> real \<Rightarrow> string \<Rightarrow> DragEndEvent \<Rightarrow> PuzzleState \<Rightarrow> PuzzleState" where
  "handleDragEnd pieces snapThreshold pieceId ev s =
     (case find_piece pieces pieceId of
        None \<Rightarrow> s\<lparr>activeId := None, dragSource := None\<rparr>
      | Some piece \<Rightarrow>
          (case dragSource s of
             Some FromPool \<Rightarrow>
               (if overCanvas ev \<and> hasRect ev
                then s\<lparr>placedPieces :=
                          pool_drop pieces snapThreshold (placedPieces s) pieceId
                            \<lparr>px = px (dropPoint ev) - width piece / 2,
                             py = py (dropPoint ev) - height piece / 2\<rparr>\<rparr>
                else s\<lparr>poolItems := poolItems s @ [pieceId]\<rparr>)
           | Some FromPlaced \<Rightarrow>
               s\<lparr>placedPieces :=
                   group_drop pieces snapThreshold (placedPieces s) pieceId (dragDelta ev)\<rparr>
           | None \<Rightarrow> s)
          \<lparr>activeId := None, dragSource := None\<rparr>)"

definition handleReturnToPool :: "string \<Rightarrow> PuzzleState \<Rightarrow> PuzzleState" where
  "handleReturnToPool pieceId s =
     (let groupIds = getConnectedGroup (placedPieces s) pieceId
      in s\<lparr>placedPieces := foldl (\<lambda>newMap i. AList.delete i newMap) (placedPieces s) groupIds,
            poolItems := poolItems s @ groupIds\<rparr>)"

text \<open>
  The solved check of puzzle-triangle: every piece is placed, the pool is empty, and the
  walk from the first piece visits as many ids as there are pieces.
\<close>

definition solved_check :: "Piece list \<Rightarrow> PuzzleState \<Rightarrow> bool" where
  "solved_check pieces s =
     (case pieces of
        [] \<Rightarrow> False
      | first # rest \<Rightarrow>
          length (placedPieces s) = length pieces \<and> poolItems s = []
          \<and> length (getConnectedGroup (placedPieces s) (piece_id first)) = length pieces)"

text \<open>
  A session of puzzle-triangle: the pool starts as a shuffle of all ids; a drag starts
  on a piece shown in the pool or on the board while no drag is active, ends for the
  piece it started with, and a double click on a placed piece returns its group to the
  pool.
\<close>

definition init_state :: "string list \<Rightarrow> PuzzleState" where
  "init_state shuffled =
     \<lparr>placedPieces = [], poolItems = shuffled, activeId = None, dragSource = None\<rparr>"

inductive reachable :: "Piece list \<Rightarrow> real \<Rightarrow> PuzzleState \<Rightarrow> bool"
  for pieces :: "Piece list" and snapThreshold :: real where
  reach_init:
    "mset shuffled = mset (map piece_id pieces) \<Longrightarrow> reachable pieces snapThreshold (init_state shuffled)"
| reach_start:
    "reachable pieces snapThreshold s \<Longrightarrow> activeId s = None \<Longrightarrow>
     i \<in> set (poolItems s) \<or> map_of (placedPieces s) i \<noteq> None \<Longrightarrow>
     reachable pieces snapThreshold (handleDragStart i s)"
| reach_end:
    "reachable pieces snapThreshold s \<Longrightarrow> activeId s = Some i \<Longrightarrow>
     reachable pieces snapThreshold (handleDragEnd pieces snapThreshold i ev s)"
| reach_return:
    "reachable pieces snapThreshold s \<Longrightarrow> activeId s = None \<Longrightarrow>
     map_of (placedPieces s) i \<noteq> None \<Longrightarrow>
     reachable pieces snapThreshold (handleReturnToPool i s)"

text \<open>
  The piece that is on its way from the pool to the board: handleDragStart has taken it
  out of the pool and handleDragEnd has not yet placed or returned it.
\<close>

definition in_flight :: "PuzzleState \<Rightarrow> string set" where
  "in_flight s =
     (case dragSource s of
        Some FromPool \<Rightarrow> (case activeId s of Some a \<Rightarrow> {a} | None \<Rightarrow> {})
      | Some FromPlaced \<Rightarrow> {}
      | None \<Rightarrow> {})"


section \<open>Placement and snapping with mouse handlers: the earlier triangle component and puzzle-random\<close>

text \<open>
  The earlier version of the triangle component (and puzzle-random for placed pieces)
  drives the board with mouse handlers. \<open>dragState\<close> holds the ids being dragged, the
  first being the piece under the pointer, and the pointer's offset within that piece.
\<close>

record DragState =
  pieceIds :: "string list"
  offset :: Point

record MouseState =
  mousePlaced :: PlacedMap
  mousePool :: "string list"
  dragState :: "DragState option"

definition handlePoolPieceMouseDown :: "string \<Rightarrow> MouseState \<Rightarrow> MouseState" where
  "handlePoolPieceMouseDown pieceId s =
     s\<lparr>dragState := Some \<lparr>pieceIds = [pieceId], offset = \<lparr>px = 0, py = 0\<rparr>\<rparr>\<rparr>"

text \<open>The pointer position \<open>mouse\<close> is relative to the canvas.\<close>

definition handlePlacedPieceMouseDown :: "string \<Rightarrow> Point \<Rightarrow> MouseState \<Rightarrow> MouseState" where
  "handlePlacedPieceMouseDown pieceId mouse s =
     (case map_of (mousePlaced s) pieceId of
        None \<Rightarrow> s
      | Some placed \<Rightarrow>
          s\<lparr>dragState := Some \<lparr>pieceIds = getConnectedGroup (mousePlaced s) pieceId,
                                offset = \<lparr>px = px mouse - px (position placed),
                                          py = py mouse - py (position placed)\<rparr>\<rparr>\<rparr>)"

text \<open>
  \<open>handleMouseMove\<close>: the first dragged piece goes to the pointer (its links are
  reset), every other dragged piece that is placed moves by the same offset, and the
  dragged ids leave the pool. With no dragged id (\<open>pieceIds[0]\<close> undefined) nothing
  is written.
\<close>

definition handleMouseMove :: "Point \<Rightarrow> MouseState \<Rightarrow> MouseState" where
  "handleMouseMove mouse s =
     (case dragState s of
        None \<Rightarrow> s
      | Some ds \<Rightarrow>
          (case pieceIds ds of
             [] \<Rightarrow> s
           | primaryPieceId # others \<Rightarrow>
               (let newX = px mouse - px (offset ds);
                    newY = py mouse - py (offset ds);
                    oldPlaced = map_of (mousePlaced s) primaryPieceId;
                    offsetX = (case oldPlaced of Some op \<Rightarrow> newX - px (position op) | None \<Rightarrow> 0);
                    offsetY = (case oldPlaced of Some op \<Rightarrow> newY - py (position op) | None \<Rightarrow> 0);
                    prev = mousePlaced s
                in s\<lparr>mousePlaced :=
                       foldl (\<lambda>newMap i.
                          if i = primaryPieceId
                          then AList.update i \<lparr>placed_id = i, position = \<lparr>px = newX, py = newY\<rparr>,
                                 isLocked = False, connectedGroup = []\<rparr> newMap
                          else (case map_of prev i of
                                  Some old \<Rightarrow>
                                    AList.update i
                                      (old\<lparr>position := \<lparr>px = px (position old) + offsetX,
                                                         py = py (position old) + offsetY\<rparr>,
                                           isLocked := False\<rparr>) newMap
                                | None \<Rightarrow> newMap))
                        prev (pieceIds ds),
                     mousePool := filter (\<lambda>i. i \<notin> set (pieceIds ds)) (mousePool s)\<rparr>)))"

text \<open>
  \<open>handleMouseUp\<close>: when the first dragged piece snaps, the dragged pieces are shifted
  onto the snap position, locked and linked to all; then each returned neighbor is
  rewritten from the previous map with only its links replaced.
\<close>

definition handleMouseUp :: "Piece list \<Rightarrow> real \<Rightarrow> MouseState \<Rightarrow> MouseState" where
  "handleMouseUp pieces snapThreshold s =
     (case dragState s of
        None \<Rightarrow> s
      | Some ds \<Rightarrow>
          (case pieceIds ds of
             [] \<Rightarrow> s\<lparr>dragState := None\<rparr>
           | primaryPieceId # others \<Rightarrow>
               (case map_of (mousePlaced s) primaryPieceId of
                  None \<Rightarrow> s\<lparr>dragState := None\<rparr>
                | Some placed \<Rightarrow>
                    (let r = checkAndSnapToNeighbors pieces (mousePlaced s) snapThreshold
                               primaryPieceId (position placed)
                     in if shouldSnap r \<and> length (snapNeighbors r) > 0
                        then (let offsetX = px (snapPosition r) - px (position placed);
                                  offsetY = py (snapPosition r) - py (position placed);
                                  prev = mousePlaced s;
                                  allConnected = new_set (pieceIds ds @ snapNeighbors r);
                                  dragged =
                                    foldl (\<lambda>newMap i.
                                       case map_of prev i of
                                         None \<Rightarrow> newMap
                                       | Some old \<Rightarrow>
                                           AList.update i
                                             \<lparr>placed_id = i,
                                              position = \<lparr>px = px (position old) + offsetX,
                                                          py = py (position old) + offsetY\<rparr>,
                                              isLocked = True,
                                              connectedGroup = filter (\<lambda>cId. cId \<noteq> i) allConnected\<rparr>
                                             newMap)
                                     prev (pieceIds ds)
                              in s\<lparr>mousePlaced :=
                                     foldl (\<lambda>newMap nId.
                                        case map_of prev nId of
                                          None \<Rightarrow> newMap
                                        | Some neighbor \<Rightarrow>
                                            AList.update nId
                                              (neighbor\<lparr>connectedGroup :=
                                                  filter (\<lambda>cId. cId \<noteq> nId) allConnected\<rparr>)
                                              newMap)
                                      dragged (snapNeighbors r),
                                   dragState := None\<rparr>)
                        else s\<lparr>dragState := None\<rparr>))))"

text \<open>
  The solved check of these two components: the pool is empty and as many placed
  pieces are locked as there are pieces.
\<close>

definition solved_check_locked :: "Piece list \<Rightarrow> PlacedMap \<Rightarrow> string list \<Rightarrow> bool" where
  "solved_check_locked pieces pm pool =
     (pieces \<noteq> [] \<and> pool = []
      \<and> length (filter isLocked (map snd pm)) = length pieces)"

section \<open>Placement and snapping: puzzle-random\<close>

text \<open>
  puzzle-random drives the board with handlers on the pieces and on the document, for
  mouse and touch alike. \<open>getConnectedGroup\<close> and \<open>checkAndSnapToNeighbors\<close> are those
  of puzzle-triangle. Next to the state of the component there is the ref
  \<open>dragSourceRef\<close>. The preview position of a piece dragged from the pool is only
  shown and is left out. \<open>rect\<close> is the bounding rectangle of the canvas in client
  coordinates, \<open>None\<close> while the canvas does not exist; \<open>client\<close> is the pointer.
\<close>

record CanvasRect =
  rect_left :: real
  rect_top :: real
  rect_right :: real
  rect_bottom :: real

record RandomState =
  randomPlaced :: PlacedMap
  randomPool :: "string list"
  randomDrag :: "DragState option"
  dragSourceRef :: "DragSource option"

text \<open>
  \<open>sc = Math.min(1, maxSize / Math.max(width, height))\<close> with \<open>maxSize = 600\<close>, for
  the dimensions of a loaded image (both positive).
\<close>

definition display_scale :: "real \<Rightarrow> real \<Rightarrow> real" where
  "display_scale imageWidth imageHeight = min 1 (600 / max imageWidth imageHeight)"

definition random_init :: "string list \<Rightarrow> RandomState" where
  "random_init shuffled =
     \<lparr>randomPlaced = [], randomPool = shuffled, randomDrag = None, dragSourceRef = None\<rparr>"

text \<open>
  \<open>handlePoolPieceMouseDown\<close>: the drag starts with the pointer at the centre of the
  scaled piece, and the piece leaves the pool at once.
\<close>

definition random_handlePoolPieceMouseDown ::
  "Piece list \<Rightarrow> real \<Rightarrow> real \<Rightarrow> string \<Rightarrow> RandomState \<Rightarrow> RandomState" where
  "random_handlePoolPieceMouseDown pieces imageWidth imageHeight pieceId s =
     (let piece = find_piece pieces pieceId;
          sc = display_scale imageWidth imageHeight;
          offsetX = (case piece of Some p \<Rightarrow> (width p * sc) / 2 | None \<Rightarrow> 0);
          offsetY = (case piece of Some p \<Rightarrow> (height p * sc) / 2 | None \<Rightarrow> 0)
      in s\<lparr>dragSourceRef := Some FromPool,
            randomDrag := Some \<lparr>pieceIds = [pieceId], offset = \<lparr>px = offsetX, py = offsetY\<rparr>\<rparr>,
            randomPool := filter (\<lambda>i. i \<noteq> pieceId) (randomPool s)\<rparr>)"

definition random_handlePlacedPieceMouseDown ::
  "real \<Rightarrow> real \<Rightarrow> CanvasRect option \<Rightarrow> Point \<Rightarrow> string \<Rightarrow> RandomState \<Rightarrow> RandomState" where
  "random_handlePlacedPieceMouseDown imageWidth imageHeight rect client pieceId s =
     (case rect of
        None \<Rightarrow> s
      | Some r \<Rightarrow>
          (case map_of (randomPlaced s) pieceId of
             None \<Rightarrow> s
           | Some placed \<Rightarrow>
               (let sc = display_scale imageWidth imageHeight;
                    mouseX = (px client - rect_left r) / sc;
                    mouseY = (py client - rect_top r) / sc;
                    groupIds = getConnectedGroup (randomPlaced s) pieceId
                in s\<lparr>dragSourceRef := Some FromPlaced,
                      randomDrag := Some \<lparr>pieceIds = groupIds,
                                           offset = \<lparr>px = mouseX - px (position placed),
                                                     py = mouseY - py (position placed)\<rparr>\<rparr>\<rparr>)))"

text \<open>
  \<open>onMove\<close> is registered while \<open>dragState\<close> is set. For a piece from the pool it moves
  the preview only. Otherwise it asks for an animation frame (dropping the frame it
  asked for before); the function below is the update such a frame makes. Both
  mouse-down handlers put at least the piece itself into \<open>dragState.pieceIds\<close>; on an
  empty list the loop writes nothing.
\<close>

definition random_onMove ::
  "real \<Rightarrow> real \<Rightarrow> CanvasRect option \<Rightarrow> Point \<Rightarrow> RandomState \<Rightarrow> RandomState" where
  "random_onMove imageWidth imageHeight rect client s =
     (case randomDrag s of
        None \<Rightarrow> s
      | Some ds \<Rightarrow>
          if dragSourceRef s = Some FromPool then s
          else (case rect of
                  None \<Rightarrow> s
                | Some r \<Rightarrow>
                    (case pieceIds ds of
                       [] \<Rightarrow> s
                     | primaryPieceId # others \<Rightarrow>
                         (let sc = display_scale imageWidth imageHeight;
                              mouseX = (px client - rect_left r) / sc;
                              mouseY = (py client - rect_top r) / sc;
                              newX = mouseX - px (offset ds);
                              newY = mouseY - py (offset ds);
                              oldPlaced = map_of (randomPlaced s) primaryPieceId;
                              offsetX = (case oldPlaced of Some op \<Rightarrow> newX - px (position op) | None \<Rightarrow> 0);
                              offsetY = (case oldPlaced of Some op \<Rightarrow> newY - py (position op) | None \<Rightarrow> 0);
                              prev = randomPlaced s
                          in s\<lparr>randomPlaced :=
                                 foldl (\<lambda>newMap i.
                                    if i = primaryPieceId
                                    then AList.update i \<lparr>placed_id = i, position = \<lparr>px = newX, py = newY\<rparr>,
                                           isLocked = False, connectedGroup = []\<rparr> newMap
                                    else (case map_of prev i of
                                            Some old \<Rightarrow>
                                              AList.update i
                                                (old\<lparr>position := \<lparr>px = px (position old) + offsetX,
                                                                   py = py (position old) + offsetY\<rparr>,
                                                     isLocked := False\<rparr>) newMap
                                          | None \<Rightarrow> newMap))
                                  prev (pieceIds ds)\<rparr>))))"

text \<open>
  The map update of the placed branch of \<open>onUp\<close>, for the dragged ids, the position of
  the first of them and the result of the snap check: the dragged pieces are shifted
  onto the snap position, locked and linked to all; then each returned neighbor is
  rewritten from the previous map with only its links replaced.
\<close>

definition release_placed :: "PlacedMap \<Rightarrow> string list \<Rightarrow> Point \<Rightarrow> SnapResult \<Rightarrow> PlacedMap" where
  "release_placed prev dragged placedPosition r =
     (let offsetX = px (snapPosition r) - px placedPosition;
          offsetY = py (snapPosition r) - py placedPosition;
          allConnected = new_set (dragged @ snapNeighbors r);
          moved =
            foldl (\<lambda>newMap i.
               case map_of prev i of
                 None \<Rightarrow> newMap
               | Some old \<Rightarrow>
                   AList.update i
                     \<lparr>placed_id = i,
                      position = \<lparr>px = px (position old) + offsetX,
                                  py = py (position old) + offsetY\<rparr>,
                      isLocked = True,
                      connectedGroup = filter (\<lambda>cId. cId \<noteq> i) allConnected\<rparr>
                     newMap)
             prev dragged
      in foldl (\<lambda>newMap nId.
            case map_of prev nId of
              None \<Rightarrow> newMap
            | Some neighbor \<Rightarrow>
                AList.update nId
                  (neighbor\<lparr>connectedGroup := filter (\<lambda>cId. cId \<noteq> nId) allConnected\<rparr>)
                  newMap)
          moved (snapNeighbors r))"

text \<open>
  \<open>onUp\<close>. A piece from the pool is placed when the pointer is released within the
  canvas rectangle, by the same update as in puzzle-triangle (\<open>pool_drop\<close>), and goes
  back to the pool otherwise. For placed pieces the snap check is made for the first
  dragged piece at its position. (The list of dragged ids is never empty, see above.)
\<close>

definition inside_rect :: "CanvasRect \<Rightarrow> Point \<Rightarrow> bool" where
  "inside_rect r client =
     (px client \<ge> rect_left r \<and> px client \<le> rect_right r
      \<and> py client \<ge> rect_top r \<and> py client \<le> rect_bottom r)"

definition random_onUp ::
  "Piece list \<Rightarrow> real \<Rightarrow> real \<Rightarrow> real \<Rightarrow> CanvasRect option \<Rightarrow> Point \<Rightarrow> RandomState \<Rightarrow> RandomState" where
  "random_onUp pieces snapThreshold imageWidth imageHeight rect client s =
     (case randomDrag s of
        None \<Rightarrow> s
      | Some ds \<Rightarrow>
          (case pieceIds ds of
             [] \<Rightarrow> s\<lparr>randomDrag := None, dragSourceRef := None\<rparr>
           | primaryPieceId # others \<Rightarrow>
               (if dragSourceRef s = Some FromPool
                then (case rect of
                        None \<Rightarrow> s\<lparr>randomPool := randomPool s @ pieceIds ds\<rparr>
                      | Some r \<Rightarrow>
                          if inside_rect r client
                          then (let sc = display_scale imageWidth imageHeight;
                                    dropX = (px client - rect_left r) / sc - px (offset ds);
                                    dropY = (py client - rect_top r) / sc - py (offset ds)
                                in s\<lparr>randomPlaced :=
                                       pool_drop pieces snapThreshold (randomPlaced s) primaryPieceId
                                         \<lparr>px = dropX, py = dropY\<rparr>\<rparr>)
                          else s\<lparr>randomPool := randomPool s @ pieceIds ds\<rparr>)
                else (case map_of (randomPlaced s) primaryPieceId of
                        None \<Rightarrow> s
                      | Some placed \<Rightarrow>
                          (let r = checkAndSnapToNeighbors pieces (randomPlaced s) snapThreshold
                                     primaryPieceId (position placed)
                           in if shouldSnap r \<and> length (snapNeighbors r) > 0
                              then s\<lparr>randomPlaced :=
                                       release_placed (randomPlaced s) (pieceIds ds) (position placed) r\<rparr>
                              else s)))
               \<lparr>randomDrag := None, dragSourceRef := None\<rparr>))"

definition random_handleReturnToPool :: "string \<Rightarrow> RandomState \<Rightarrow> RandomState" where
  "random_handleReturnToPool pieceId s =
     (let groupIds = getConnectedGroup (randomPlaced s) pieceId
      in s\<lparr>randomPlaced := foldl (\<lambda>newMap i. AList.delete i newMap) (randomPlaced s) groupIds,
            randomPool := randomPool s @ groupIds\<rparr>)"

text \<open>
  The states of a session of puzzle-random in which drags do not overlap: a piece is
  picked up, and a piece is returned by double click, only while no drag is active.
  The pool shows the pieces of \<open>poolItems\<close>, the board those of \<open>placedPieces\<close>.
\<close>

inductive random_reachable :: "Piece list \<Rightarrow> real \<Rightarrow> real \<Rightarrow> real \<Rightarrow> RandomState \<Rightarrow> bool"
  for pieces :: "Piece list" and snapThreshold :: real and imageWidth :: real and imageHeight :: real
  where
  random_reach_init:
    "mset shuffled = mset (map piece_id pieces) \<Longrightarrow>
     random_reachable pieces snapThreshold imageWidth imageHeight (random_init shuffled)"
| random_reach_pool_down:
    "random_reachable pieces snapThreshold imageWidth imageHeight s \<Longrightarrow>
     randomDrag s = None \<Longrightarrow> i \<in> set (randomPool s) \<Longrightarrow>
     random_reachable pieces snapThreshold imageWidth imageHeight
       (random_handlePoolPieceMouseDown pieces imageWidth imageHeight i s)"
| random_reach_placed_down:
    "random_reachable pieces snapThreshold imageWidth imageHeight s \<Longrightarrow>
     randomDrag s = None \<Longrightarrow>
     random_reachable pieces snapThreshold imageWidth imageHeight
       (random_handlePlacedPieceMouseDown imageWidth imageHeight rect client i s)"
| random_reach_move:
    "random_reachable pieces snapThreshold imageWidth imageHeight s \<Longrightarrow>
     random_reachable pieces snapThreshold imageWidth imageHeight
       (random_onMove imageWidth imageHeight rect client s)"
| random_reach_up:
    "random_reachable pieces snapThreshold imageWidth imageHeight s \<Longrightarrow>
     random_reachable pieces snapThreshold imageWidth imageHeight
       (random_onUp pieces snapThreshold imageWidth imageHeight rect client s)"
| random_reach_return:
    "random_reachable pieces snapThreshold imageWidth imageHeight s \<Longrightarrow>
     randomDrag s = None \<Longrightarrow> map_of (randomPlaced s) i \<noteq> None \<Longrightarrow>
     random_reachable pieces snapThreshold imageWidth imageHeight (random_handleReturnToPool i s)"

section \<open>Sessions of the components with a pool and a map of placed pieces\<close>


subsection \<open>The two mouse-driven triangle components\<close>

text \<open>
  The earlier triangle component and the component with varied triangle pieces share
  the handlers of the section on mouse handlers (the latter makes the update of
  \<open>handleMouseMove\<close> in an animation frame, which \<open>handleMouseUp\<close> cancels when it is
  still pending). \<open>handleMouseUp\<close> also serves \<open>onMouseLeave\<close> of the canvas.
\<close>

definition mouse_init :: "string list \<Rightarrow> MouseState" where
  "mouse_init shuffled = \<lparr>mousePlaced = [], mousePool = shuffled, dragState = None\<rparr>"

definition mouse_handleReturnToPool :: "string \<Rightarrow> MouseState \<Rightarrow> MouseState" where
  "mouse_handleReturnToPool pieceId s =
     (let groupIds = getConnectedGroup (mousePlaced s) pieceId
      in s\<lparr>mousePlaced := foldl (\<lambda>newMap i. AList.delete i newMap) (mousePlaced s) groupIds,
            mousePool := mousePool s @ groupIds\<rparr>)"

text \<open>
  The states of a session of these components in which no pointer move is handled
  while a dragged piece other than the first is in the pool. A mouse-down in the pool
  is on a piece shown there, a double click on a piece shown on the board. Pointer
  events may otherwise come in any order.
\<close>

inductive mouse_reachable :: "Piece list \<Rightarrow> real \<Rightarrow> MouseState \<Rightarrow> bool"
  for pieces :: "Piece list" and snapThreshold :: real where
  mouse_reach_init:
    "mset shuffled = mset (map piece_id pieces) \<Longrightarrow>
     mouse_reachable pieces snapThreshold (mouse_init shuffled)"
| mouse_reach_pool_down:
    "mouse_reachable pieces snapThreshold s \<Longrightarrow> i \<in> set (mousePool s) \<Longrightarrow>
     mouse_reachable pieces snapThreshold (handlePoolPieceMouseDown i s)"
| mouse_reach_placed_down:
    "mouse_reachable pieces snapThreshold s \<Longrightarrow>
     mouse_reachable pieces snapThreshold (handlePlacedPieceMouseDown i mouse s)"
| mouse_reach_move:
    "mouse_reachable pieces snapThreshold s \<Longrightarrow>
     (\<forall>ds. dragState s = Some ds \<longrightarrow>
        (\<forall>i\<in>set (tl (pieceIds ds)). i \<notin> set (mousePool s))) \<Longrightarrow>
     mouse_reachable pieces snapThreshold (handleMouseMove mouse s)"
| mouse_reach_up:
    "mouse_reachable pieces snapThreshold s \<Longrightarrow>
     mouse_reachable pieces snapThreshold (handleMouseUp pieces snapThreshold s)"
| mouse_reach_return:
    "mouse_reachable pieces snapThreshold s \<Longrightarrow> map_of (mousePlaced s) i \<noteq> None \<Longrightarrow>
     mouse_reachable pieces snapThreshold (mouse_handleReturnToPool i s)"

subsection \<open>The component with irregular shapes\<close>

text \<open>
  This component snaps a piece to its own correct position and has no links between
  pieces. Of a piece the handlers read the id and the correct position only.
\<close>

record ShapePiece =
  shape_id :: string
  shape_correctPosition :: Point

record ShapePlaced =
  shape_placed_id :: string
  shape_position :: Point
  shape_isLocked :: bool

record ShapeState =
  shapePlaced :: "(string \<times> ShapePlaced) list"
  shapePool :: "string list"
  draggedPiece :: "string option"
  dragOffset :: Point

definition find_shape :: "ShapePiece list \<Rightarrow> string \<Rightarrow> ShapePiece option" where
  "find_shape pieces i = List.find (\<lambda>p. shape_id p = i) pieces"

text \<open>
  Initialisation. \<open>shuffledIds\<close> is the outcome of the shuffle. In partial mode
  \<open>placedIndices\<close> is the set of random indices, in insertion order; the pieces
  there start locked at their correct positions.
\<close>

definition shape_init :: "ShapePiece list \<Rightarrow> string list \<Rightarrow> PuzzleMode \<Rightarrow> nat list \<Rightarrow> ShapeState" where
  "shape_init pieces shuffledIds mode placedIndices =
     (case mode of
        Partial \<Rightarrow>
          (let newPlaced =
                 foldl (\<lambda>m idx.
                    if idx < length pieces
                    then AList.update (shape_id (pieces ! idx))
                           \<lparr>shape_placed_id = shape_id (pieces ! idx),
                            shape_position = shape_correctPosition (pieces ! idx),
                            shape_isLocked = True\<rparr> m
                    else m)
                  [] placedIndices;
               remainingIds = filter (\<lambda>i. map_of newPlaced i = None) shuffledIds
           in \<lparr>shapePlaced = newPlaced, shapePool = remainingIds, draggedPiece = None,
               dragOffset = \<lparr>px = 0, py = 0\<rparr>\<rparr>)
      | Empty \<Rightarrow>
          \<lparr>shapePlaced = [], shapePool = shuffledIds, draggedPiece = None,
           dragOffset = \<lparr>px = 0, py = 0\<rparr>\<rparr>)"

definition shape_handlePoolPieceMouseDown :: "string \<Rightarrow> ShapeState \<Rightarrow> ShapeState" where
  "shape_handlePoolPieceMouseDown pieceId s =
     s\<lparr>draggedPiece := Some pieceId, dragOffset := \<lparr>px = 0, py = 0\<rparr>\<rparr>"

text \<open>
  \<open>mouse\<close> is the pointer relative to the canvas, \<open>None\<close> while the canvas does not
  exist. A locked piece cannot be picked up.
\<close>

definition shape_handlePlacedPieceMouseDown ::
  "ShapePiece list \<Rightarrow> real \<Rightarrow> Point option \<Rightarrow> string \<Rightarrow> ShapeState \<Rightarrow> ShapeState" where
  "shape_handlePlacedPieceMouseDown pieces scale mouse pieceId s =
     (let placed = map_of (shapePlaced s) pieceId
      in if (case placed of Some p \<Rightarrow> shape_isLocked p | None \<Rightarrow> False) then s
         else (case find_shape pieces pieceId of
                 None \<Rightarrow> s
               | Some piece \<Rightarrow>
                   (case mouse of
                      None \<Rightarrow> s
                    | Some m \<Rightarrow>
                        s\<lparr>draggedPiece := Some pieceId,
                          dragOffset :=
                            \<lparr>px = px m - (case placed of Some p \<Rightarrow> px (shape_position p) | None \<Rightarrow> 0) * scale,
                             py = py m - (case placed of Some p \<Rightarrow> py (shape_position p) | None \<Rightarrow> 0) * scale\<rparr>\<rparr>)))"

text \<open>\<open>!draggedPiece\<close> holds for \<open>null\<close> and for the empty string.\<close>

definition shape_handleMouseMove ::
  "ShapePiece list \<Rightarrow> real \<Rightarrow> Point option \<Rightarrow> ShapeState \<Rightarrow> ShapeState" where
  "shape_handleMouseMove pieces scale mouse s =
     (case draggedPiece s of
        None \<Rightarrow> s
      | Some d \<Rightarrow>
          if d = [] then s
          else (case mouse of
                  None \<Rightarrow> s
                | Some m \<Rightarrow>
                    (case find_shape pieces d of
                       None \<Rightarrow> s
                     | Some piece \<Rightarrow>
                         s\<lparr>shapePlaced :=
                             AList.update d
                               \<lparr>shape_placed_id = d,
                                shape_position = \<lparr>px = (px m - px (dragOffset s)) / scale,
                                                  py = (py m - py (dragOffset s)) / scale\<rparr>,
                                shape_isLocked = False\<rparr> (shapePlaced s),
                           shapePool := filter (\<lambda>i. i \<noteq> d) (shapePool s)\<rparr>)))"

definition shape_handleMouseUp :: "ShapePiece list \<Rightarrow> real \<Rightarrow> ShapeState \<Rightarrow> ShapeState" where
  "shape_handleMouseUp pieces snapThreshold s =
     (case draggedPiece s of
        None \<Rightarrow> s
      | Some d \<Rightarrow>
          if d = [] then s
          else (case find_shape pieces d of
                  None \<Rightarrow> s
                | Some piece \<Rightarrow>
                    (case map_of (shapePlaced s) d of
                       None \<Rightarrow> s
                     | Some placed \<Rightarrow>
                         if distance (shape_position placed) (shape_correctPosition piece) < snapThreshold
                         then s\<lparr>shapePlaced :=
                                  AList.update d
                                    \<lparr>shape_placed_id = d,
                                     shape_position = shape_correctPosition piece,
                                     shape_isLocked = True\<rparr> (shapePlaced s)\<rparr>
                         else s))
               \<lparr>draggedPiece := None\<rparr>)"

definition shape_handleReturnToPool :: "string \<Rightarrow> ShapeState \<Rightarrow> ShapeState" where
  "shape_handleReturnToPool pieceId s =
     (if (case map_of (shapePlaced s) pieceId of Some p \<Rightarrow> shape_isLocked p | None \<Rightarrow> False) then s
      else s\<lparr>shapePlaced := AList.delete pieceId (shapePlaced s),
             shapePool := shapePool s @ [pieceId]\<rparr>)"

text \<open>
  The states of a session of this component: a mouse-down in the pool is on a piece
  shown there, a double click on a piece shown on the board; pointer events may
  otherwise come in any order.
\<close>

inductive shape_reachable :: "ShapePiece list \<Rightarrow> real \<Rightarrow> real \<Rightarrow> ShapeState \<Rightarrow> bool"
  for pieces :: "ShapePiece list" and snapThreshold :: real and scale :: real where
  shape_reach_init:
    "mset shuffledIds = mset (map shape_id pieces) \<Longrightarrow>
     shape_reachable pieces snapThreshold scale (shape_init pieces shuffledIds mode placedIndices)"
| shape_reach_pool_down:
    "shape_reachable pieces snapThreshold scale s \<Longrightarrow> i \<in> set (shapePool s) \<Longrightarrow>
     shape_reachable pieces snapThreshold scale (shape_handlePoolPieceMouseDown i s)"
| shape_reach_placed_down:
    "shape_reachable pieces snapThreshold scale s \<Longrightarrow>
     shape_reachable pieces snapThreshold scale
       (shape_handlePlacedPieceMouseDown pieces scale mouse i s)"
| shape_reach_move:
    "shape_reachable pieces snapThreshold scale s \<Longrightarrow>
     shape_reachable pieces snapThreshold scale (shape_handleMouseMove pieces scale mouse s)"
| shape_reach_up:
    "shape_reachable pieces snapThreshold scale s \<Longrightarrow>
     shape_reachable pieces snapThreshold scale (shape_handleMouseUp pieces snapThreshold s)"
| shape_reach_return:
    "shape_reachable pieces snapThreshold scale s \<Longrightarrow> map_of (shapePlaced s) i \<noteq> None \<Longrightarrow>
     shape_reachable pieces snapThreshold scale (shape_handleReturnToPool i s)"




section \<open>Concrete boards\<close>

text \<open>Two neighboring pieces of that puzzle on the board, joined and in place relative to each other.\<close>

definition two_joined :: PlacedMap where
  "two_joined =
     [(''piece-0-0-0'', \<lparr>placed_id = ''piece-0-0-0'', position = \<lparr>px = 300, py = 300\<rparr>,
                          isLocked = True, connectedGroup = [''piece-0-1-0'']\<rparr>),
      (''piece-0-1-0'', \<lparr>placed_id = ''piece-0-1-0'', position = \<lparr>px = 400, py = 300\<rparr>,
                          isLocked = True, connectedGroup = [''piece-0-0-0'']\<rparr>)]"

text \<open>One piece lying loose on the board, 50 to the right and 50 below its place.\<close>

definition loose_neighbor :: PlacedMap where
  "loose_neighbor =
     [(''piece-0-1-0'', \<lparr>placed_id = ''piece-0-1-0'', position = \<lparr>px = 150, py = 50\<rparr>,
                          isLocked = False, connectedGroup = []\<rparr>)]"

text \<open>An entry of the placed map, written compactly.\<close>

definition placed_entry :: "string \<Rightarrow> real \<Rightarrow> real \<Rightarrow> bool \<Rightarrow> string list \<Rightarrow> string \<times> PlacedPiece" where
  "placed_entry i a b l g =
     (i, \<lparr>placed_id = i, position = \<lparr>px = a, py = b\<rparr>, isLocked = l, connectedGroup = g\<rparr>)"

text \<open>
  The four pieces of the 1 by 1 puzzle of puzzle-random on the board as two joined
  pairs that lie apart: the first pair at the upper left corner of the canvas, the
  second at the lower right.
\<close>

definition two_pairs :: PlacedMap where
  "two_pairs =
     [placed_entry ''piece-0-0-0'' (- 50) (- 25) True [''piece-0-0-1''],
      placed_entry ''piece-0-0-1'' 0 (- 25) True [''piece-0-0-0''],
      placed_entry ''piece-0-0-2'' 50 75 True [''piece-0-0-3''],
      placed_entry ''piece-0-0-3'' 50 25 True [''piece-0-0-2'']]"


text \<open>
  A session of puzzle-random on a 100 by 100 image cut into the four pieces of the
  1 by 1 grid, with snap threshold 20 and the canvas at the client origin. Each piece
  is picked up from the pool and released inside the canvas: the first at the upper
  left corner, the second 27 to the right and 29 down, the third at the lower right
  corner, the fourth at (78, 79).
\<close>

definition canvas_100 :: CanvasRect where
  "canvas_100 = \<lparr>rect_left = 0, rect_top = 0, rect_right = 100, rect_bottom = 100\<rparr>"

definition pick_and_release :: "Piece list \<Rightarrow> string \<Rightarrow> Point \<Rightarrow> RandomState \<Rightarrow> RandomState" where
  "pick_and_release pieces pieceId client s =
     random_onUp pieces 20 100 100 (Some canvas_100) client
       (random_handlePoolPieceMouseDown pieces 100 100 pieceId s)"

definition split_session :: RandomState where
  "split_session =
     (let pieces = createTrianglePuzzle_random 100 100 1 1
      in pick_and_release pieces ''piece-0-0-3'' \<lparr>px = 78, py = 79\<rparr>
           (pick_and_release pieces ''piece-0-0-2'' \<lparr>px = 100, py = 100\<rparr>
              (pick_and_release pieces ''piece-0-0-1'' \<lparr>px = 27, py = 29\<rparr>
                 (pick_and_release pieces ''piece-0-0-0'' \<lparr>px = 0, py = 0\<rparr>
                    (random_init (map piece_id pieces))))))"

text \<open>
  A session of the mouse-driven triangle component on the 2 by 2 puzzle, snap threshold
  20. The first piece is dragged from the pool to (50, 50) and released; its right
  neighbor is dragged from the pool to (147, 46) and released, which snaps the two
  together. The first piece is then picked up at (60, 60) and moved with the pointer at
  (160, 60), and before any mouse-up a second mouse-down on the same piece arrives at
  (160, 60) (\<open>onMouseDown\<close> does not look at the button, and no handler looks whether a
  drag is active).
\<close>

definition regrab_session :: MouseState where
  "regrab_session =
     (let pieces = createTrianglePuzzle 200 200 2 2
      in handlePlacedPieceMouseDown ''piece-0-0-0'' \<lparr>px = 160, py = 60\<rparr>
           (handleMouseMove \<lparr>px = 160, py = 60\<rparr>
              (handlePlacedPieceMouseDown ''piece-0-0-0'' \<lparr>px = 60, py = 60\<rparr>
                 (handleMouseUp pieces 20
                    (handleMouseMove \<lparr>px = 147, py = 46\<rparr>
                       (handlePoolPieceMouseDown ''piece-0-1-0''
                          (handleMouseUp pieces 20
                             (handleMouseMove \<lparr>px = 50, py = 50\<rparr>
                                (handlePoolPieceMouseDown ''piece-0-0-0''
                                   (mouse_init (map piece_id pieces)))))))))))"

section \<open>Properties of the exact-slot variants\<close>

subsection \<open>Pieces on the grid sit on their own slots\<close>










subsection \<open>The other grid components change the state like the first\<close>





subsection \<open>The store: placed pieces lie on their own cells\<close>









subsection \<open>Rejected drops\<close>










section \<open>Properties of the piece-count tables\<close>

lemma excess_bits_small: "m < 2 ^ 53 \<Longrightarrow> excess_bits m = 0"
  by (simp add: excess_bits.simps)

lemma excess_bits_step: "2 ^ 53 \<le> m \<Longrightarrow> excess_bits m = Suc (excess_bits (m div 2))"
  by (subst excess_bits.simps) simp

lemma round_double_exact: "\<bar>n\<bar> < 2 ^ 53 \<Longrightarrow> round_double n = n"
  by (simp add: round_double_def excess_bits_small Let_def mult_sgn_abs)

lemma gridMap_range: "\<forall>g\<in>set gridMap. 0 < ge_pieces g \<and> ge_pieces g \<le> 144"
  by (simp add: gridMap_def)

lemma gridMap_diff_exact:
  assumes "0 \<le> n" and "n \<le> 2 ^ 53" and "g \<in> set gridMap"
  shows "\<bar>round_double (n - ge_pieces g)\<bar> = \<bar>n - ge_pieces g\<bar>"
proof -
  have "0 < ge_pieces g" "ge_pieces g \<le> 144" using gridMap_range assms(3) by auto
  then have "\<bar>n - ge_pieces g\<bar> < 2 ^ 53" using assms(1,2) by simp
  then show ?thesis by (simp add: round_double_exact)
qed

lemma closest_loop_minimal:
  assumes "minDiff = \<bar>n - ge_pieces closest\<bar>"
    and "\<forall>g\<in>set gs. \<bar>round_double (n - ge_pieces g)\<bar> = \<bar>n - ge_pieces g\<bar>"
  shows "closest_loop n closest minDiff gs \<in> insert closest (set gs)
       \<and> (\<forall>e\<in>insert closest (set gs).
             \<bar>n - ge_pieces (closest_loop n closest minDiff gs)\<bar> \<le> \<bar>n - ge_pieces e\<bar>)"
  using assms
proof (induction gs arbitrary: closest minDiff)
  case Nil
  then show ?case by simp
next
  case (Cons g gs)
  have ex: "\<bar>round_double (n - ge_pieces g)\<bar> = \<bar>n - ge_pieces g\<bar>"
    and rest: "\<forall>g\<in>set gs. \<bar>round_double (n - ge_pieces g)\<bar> = \<bar>n - ge_pieces g\<bar>"
    using Cons.prems(2) by simp_all
  show ?case
  proof (cases "\<bar>n - ge_pieces g\<bar> < minDiff")
    case True
    have eq: "closest_loop n closest minDiff (g # gs) = closest_loop n g \<bar>n - ge_pieces g\<bar> gs"
      using True ex by simp
    from Cons.IH [of "\<bar>n - ge_pieces g\<bar>" g] rest
    have ih: "closest_loop n g \<bar>n - ge_pieces g\<bar> gs \<in> insert g (set gs)"
      "\<forall>e\<in>insert g (set gs). \<bar>n - ge_pieces (closest_loop n g \<bar>n - ge_pieces g\<bar> gs)\<bar> \<le> \<bar>n - ge_pieces e\<bar>"
      by simp_all
    from ih(2) have "\<bar>n - ge_pieces (closest_loop n g \<bar>n - ge_pieces g\<bar> gs)\<bar> \<le> \<bar>n - ge_pieces g\<bar>"
      by simp
    then have "\<bar>n - ge_pieces (closest_loop n g \<bar>n - ge_pieces g\<bar> gs)\<bar> \<le> \<bar>n - ge_pieces closest\<bar>"
      using True Cons.prems(1) by linarith
    then show ?thesis using ih eq by auto
  next
    case False
    have eq: "closest_loop n closest minDiff (g # gs) = closest_loop n closest minDiff gs"
      using False ex by simp
    from Cons.IH [OF Cons.prems(1) rest]
    have ih: "closest_loop n closest minDiff gs \<in> insert closest (set gs)"
      "\<forall>e\<in>insert closest (set gs). \<bar>n - ge_pieces (closest_loop n closest minDiff gs)\<bar> \<le> \<bar>n - ge_pieces e\<bar>"
      by simp_all
    from ih(2) have "\<bar>n - ge_pieces (closest_loop n closest minDiff gs)\<bar> \<le> \<bar>n - ge_pieces closest\<bar>"
      by simp
    then have "\<bar>n - ge_pieces (closest_loop n closest minDiff gs)\<bar> \<le> \<bar>n - ge_pieces g\<bar>"
      using False Cons.prems(1) by linarith
    then show ?thesis using ih eq by auto
  qed
qed

lemma gridMap_nonempty: "hd gridMap \<in> set gridMap"
  by (simp add: gridMap_def)

text \<open>
  Beyond the exact range of doubles the loop no longer finds the closest entry: at
  \<open>2^62\<close> every difference rounds to \<open>2^62\<close>, no entry is strictly closer than the
  first, and the 1 by 1 grid is returned although 144 is the closest count.
\<close>

lemma round_double_near_2_62:
  "round_double 4611686018427387900 = 4611686018427387904"
  "round_double 4611686018427387896 = 4611686018427387904"
  "round_double 4611686018427387892 = 4611686018427387904"
  "round_double 4611686018427387888 = 4611686018427387904"
  "round_double 4611686018427387884 = 4611686018427387904"
  "round_double 4611686018427387880 = 4611686018427387904"
  "round_double 4611686018427387872 = 4611686018427387904"
  "round_double 4611686018427387868 = 4611686018427387904"
  "round_double 4611686018427387864 = 4611686018427387904"
  "round_double 4611686018427387856 = 4611686018427387904"
  "round_double 4611686018427387844 = 4611686018427387904"
  "round_double 4611686018427387840 = 4611686018427387904"
  "round_double 4611686018427387832 = 4611686018427387904"
  "round_double 4611686018427387824 = 4611686018427387904"
  "round_double 4611686018427387808 = 4611686018427387904"
  "round_double 4611686018427387804 = 4611686018427387904"
  "round_double 4611686018427387784 = 4611686018427387904"
  "round_double 4611686018427387760 = 4611686018427387904"
  by (simp_all add: round_double_def Let_def excess_bits_step excess_bits_small)

lemma closest_beyond_exact_range:
  "getGridForPieceCount 4611686018427387904 = \<lparr>rows = 1, cols = 1\<rparr>"
  unfolding getGridForPieceCount_def gridMap_def
  by (simp add: round_double_near_2_62 Let_def)

text \<open>
  C9 (as the code has it). A piece count without a table entry makes generation fail
  only in the random-shapes component, whose error lists the available counts.
  puzzle-triangle falls back to the 4 by 4 grid, and puzzle-random takes the table
  entry whose piece count is closest to the request (for counts from 0 to \<open>2^53\<close>,
  where the differences are computed exactly).
\<close>

theorem unsupported_count_substituted:
  "(pieceCount \<notin> fst ` set mapping \<longrightarrow> getPieceDimensions pieceCount = \<lparr>rows = 4, cols = 4\<rparr>)
   \<and> (pieceCount \<notin> ge_pieces ` set gridMap \<and> 0 \<le> pieceCount \<and> pieceCount \<le> 2 ^ 53 \<longrightarrow>
        (\<exists>e\<in>set gridMap. getGridForPieceCount pieceCount = \<lparr>rows = ge_rows e, cols = ge_cols e\<rparr>
           \<and> (\<forall>e'\<in>set gridMap. \<bar>pieceCount - ge_pieces e\<bar> \<le> \<bar>pieceCount - ge_pieces e'\<bar>)))
   \<and> (pieceCount \<notin> fst ` set PIECE_CONFIGURATIONS \<longrightarrow>
        createTrianglePuzzle_config pieceCount
          = Inl (NoConfiguration pieceCount AVAILABLE_PIECE_COUNTS))"
proof (intro conjI impI)
  assume "pieceCount \<notin> fst ` set mapping"
  then have "map_of mapping pieceCount = None"
    by (simp add: map_of_eq_None_iff)
  then show "getPieceDimensions pieceCount = \<lparr>rows = 4, cols = 4\<rparr>"
    by (simp add: getPieceDimensions_def)
next
  assume a: "pieceCount \<notin> ge_pieces ` set gridMap \<and> 0 \<le> pieceCount \<and> pieceCount \<le> 2 ^ 53"
  have ex: "\<forall>g\<in>set gridMap. \<bar>round_double (pieceCount - ge_pieces g)\<bar> = \<bar>pieceCount - ge_pieces g\<bar>"
    using a gridMap_diff_exact by blast
  have ex0: "\<bar>round_double (pieceCount - ge_pieces (hd gridMap))\<bar> = \<bar>pieceCount - ge_pieces (hd gridMap)\<bar>"
    using ex gridMap_nonempty by blast
  have "List.find (\<lambda>g. ge_pieces g = pieceCount) gridMap = None"
    using a by (auto simp: find_None_iff)
  then have eq: "getGridForPieceCount pieceCount =
      \<lparr>rows = ge_rows (closest_loop pieceCount (hd gridMap) \<bar>pieceCount - ge_pieces (hd gridMap)\<bar> gridMap),
       cols = ge_cols (closest_loop pieceCount (hd gridMap) \<bar>pieceCount - ge_pieces (hd gridMap)\<bar> gridMap)\<rparr>"
    by (simp add: getGridForPieceCount_def Let_def ex0)
  let ?c = "closest_loop pieceCount (hd gridMap) \<bar>pieceCount - ge_pieces (hd gridMap)\<bar> gridMap"
  from closest_loop_minimal [OF refl ex, of "hd gridMap"]
  have "?c \<in> set gridMap"
    and "\<forall>e'\<in>set gridMap. \<bar>pieceCount - ge_pieces ?c\<bar> \<le> \<bar>pieceCount - ge_pieces e'\<bar>"
    using gridMap_nonempty by (auto simp: insert_absorb)
  then show "\<exists>e\<in>set gridMap. getGridForPieceCount pieceCount = \<lparr>rows = ge_rows e, cols = ge_cols e\<rparr>
           \<and> (\<forall>e'\<in>set gridMap. \<bar>pieceCount - ge_pieces e\<bar> \<le> \<bar>pieceCount - ge_pieces e'\<bar>)"
    using eq by blast
next
  assume "pieceCount \<notin> fst ` set PIECE_CONFIGURATIONS"
  then have "map_of PIECE_CONFIGURATIONS pieceCount = None"
    by (simp add: map_of_eq_None_iff)
  then show "createTrianglePuzzle_config pieceCount
      = Inl (NoConfiguration pieceCount AVAILABLE_PIECE_COUNTS)"
    by (simp add: createTrianglePuzzle_config_def)
qed

lemma getGridForPieceCount_7: "getGridForPieceCount 7 = \<lparr>rows = 1, cols = 2\<rparr>"
  unfolding getGridForPieceCount_def gridMap_def
  by (simp add: round_double_exact)

lemma AVAILABLE_PIECE_COUNTS_eq:
  "AVAILABLE_PIECE_COUNTS
   = [4, 6, 8, 9, 12, 15, 16, 18, 20, 24, 25, 28, 30, 32, 35, 36, 40, 42, 45, 48, 50]"
  by (simp add: AVAILABLE_PIECE_COUNTS_def PIECE_CONFIGURATIONS_def)

theorem unsupported_count_substituted_witness:
  "getPieceDimensions 7 = \<lparr>rows = 4, cols = 4\<rparr>
   \<and> getGridForPieceCount 7 = \<lparr>rows = 1, cols = 2\<rparr>
   \<and> \<bar>7 - ge_pieces \<lparr>ge_pieces = 8, ge_rows = 1, ge_cols = 2\<rparr>\<bar> \<le> \<bar>(7::int) - 4\<bar>
   \<and> createTrianglePuzzle_config 7
       = Inl (NoConfiguration 7
           [4, 6, 8, 9, 12, 15, 16, 18, 20, 24, 25, 28, 30, 32, 35, 36, 40, 42, 45, 48, 50])"
proof -
  have a: "(7::int) \<notin> fst ` set mapping" by (simp add: mapping_def)
  have c: "(7::int) \<notin> fst ` set PIECE_CONFIGURATIONS" by (simp add: PIECE_CONFIGURATIONS_def)
  note t = unsupported_count_substituted [of 7]
  have "getPieceDimensions 7 = \<lparr>rows = 4, cols = 4\<rparr>"
    by (rule mp [OF t [THEN conjunct1] a])
  moreover have "createTrianglePuzzle_config 7 = Inl (NoConfiguration 7 AVAILABLE_PIECE_COUNTS)"
    by (rule mp [OF t [THEN conjunct2, THEN conjunct2] c])
  ultimately show ?thesis
    by (simp add: getGridForPieceCount_7 AVAILABLE_PIECE_COUNTS_eq)
qed

text \<open>
  The claim as the specification states it (an unsupported count makes generation
  fail) does not hold: for the count 7, which neither table lists, both functions
  return a grid.
\<close>

theorem unsupported_count_counterexample:
  "map_of mapping 7 = None
   \<and> List.find (\<lambda>g. ge_pieces g = 7) gridMap = None
   \<and> getPieceDimensions 7 = \<lparr>rows = 4, cols = 4\<rparr>
   \<and> getGridForPieceCount 7 = \<lparr>rows = 1, cols = 2\<rparr>"
  by (simp add: getPieceDimensions_def getGridForPieceCount_7 mapping_def gridMap_def)
section \<open>Properties of the connected-group walk and of the drop handlers\<close>

lemma walk_prefix: "\<exists>ys. walk pm excl queue visited = visited @ ys"
proof (induction pm excl queue visited rule: walk.induct)
  case (1 pm excl visited)
  then show ?case by simp
next
  case (2 pm excl current queue visited)
  show ?case
  proof (cases "current \<in> set visited \<or> current \<in> set excl")
    case True
    then show ?thesis using 2(1) by simp
  next
    case False
    show ?thesis
    proof (cases "map_of pm current")
      case None
      then show ?thesis using False 2(2) by auto
    next
      case (Some placed)
      then show ?thesis using False 2(3) by auto
    qed
  qed
qed

lemma getConnectedGroup_head: "\<exists>ys. getConnectedGroup pm a = a # ys"
proof -
  have "\<exists>ys. walk pm [] [a] [] = [a] @ ys"
    by (cases "map_of pm a") (use walk_prefix [of pm "[]" _ "[a]"] in auto)
  then show ?thesis by (simp add: getConnectedGroup_def)
qed

lemma getConnectedGroup_anchor: "a \<in> set (getConnectedGroup pm a)"
  using getConnectedGroup_head [of pm a] by auto

text \<open>Lookup after the loops that rewrite a map entry by entry.\<close>

lemma map_of_update: "map_of (AList.update k v al) = (map_of al)(k \<mapsto> v)"
  by (rule update_conv')

lemma foldl_update_other:
  assumes "\<And>m j. j \<in> set ids \<Longrightarrow> map_of (f m j) i = map_of m i"
  shows "map_of (foldl f m ids) i = map_of m i"
  using assms by (induction ids arbitrary: m) auto

lemma move_group_lookup:
  "map_of (move_group prev ids delta) i =
     (if i \<in> set ids
      then map_option (\<lambda>old. old\<lparr>position := \<lparr>px = px (position old) + px delta,
                                              py = py (position old) + py delta\<rparr>,
                                  isLocked := False\<rparr>) (map_of prev i)
      else map_of prev i)"
proof -
  let ?f = "\<lambda>newMap i.
              case map_of prev i of
                Some old \<Rightarrow>
                  AList.update i (old\<lparr>position := \<lparr>px = px (position old) + px delta,
                                                   py = py (position old) + py delta\<rparr>,
                                      isLocked := False\<rparr>) newMap
              | None \<Rightarrow> newMap"
  have "map_of (foldl ?f m ids) i =
     (if i \<in> set ids \<and> map_of prev i \<noteq> None
      then map_option (\<lambda>old. old\<lparr>position := \<lparr>px = px (position old) + px delta,
                                              py = py (position old) + py delta\<rparr>,
                                  isLocked := False\<rparr>) (map_of prev i)
      else map_of m i)" for m
  proof (induction ids arbitrary: m rule: rev_induct)
    case Nil
    then show ?case by simp
  next
    case (snoc j ids)
    then show ?case
      by (cases "map_of prev j") (auto simp: map_of_update)
  qed
  from this [of prev] show ?thesis
    by (cases "map_of prev i") (auto simp: move_group_def)
qed

lemma set_foldl_set_add: "set (foldl set_add s xs) = set s \<union> set xs"
  by (induction xs arbitrary: s) (auto simp: set_add_def)

lemma distinct_foldl_set_add: "distinct s \<Longrightarrow> distinct (foldl set_add s xs)"
  by (induction xs arbitrary: s) (auto simp: set_add_def)

lemma set_new_set: "set (new_set xs) = set xs"
  by (simp add: new_set_def set_foldl_set_add)

lemma distinct_new_set: "distinct (new_set xs)"
  by (simp add: new_set_def distinct_foldl_set_add)

lemma new_set_empty_iff: "new_set xs = [] \<longleftrightarrow> xs = []"
  using set_new_set [of xs] by (metis set_empty)

lemma foldl_rewrite_lookup:
  assumes "distinct ids"
  shows "map_of (foldl (\<lambda>m j. case map_of m j of None \<Rightarrow> m
                              | Some old \<Rightarrow> AList.update j (F j old) m) m ids) i
         = (if i \<in> set ids then map_option (F i) (map_of m i) else map_of m i)"
  using assms
proof (induction ids arbitrary: m)
  case Nil
  then show ?case by simp
next
  case (Cons j ids)
  let ?g = "\<lambda>m j. case map_of m j of None \<Rightarrow> m | Some old \<Rightarrow> AList.update j (F j old) m"
  have step: "map_of (?g m j) i = (if i = j then map_option (F j) (map_of m j) else map_of m i)"
    by (cases "map_of m j") (auto simp: map_of_update)
  have "map_of (foldl ?g (?g m j) ids) i
        = (if i \<in> set ids then map_option (F i) (map_of (?g m j) i) else map_of (?g m j) i)"
    using Cons by simp
  then show ?case using Cons.prems step by auto
qed

lemma foldl_better:
  "cands \<noteq> [] \<Longrightarrow>
   \<exists>b. foldl better None cands = Some b \<and> b \<in> set cands \<and> (\<forall>c\<in>set cands. bs_dist b \<le> bs_dist c)"
proof (induction cands rule: rev_induct)
  case Nil
  then show ?case by simp
next
  case (snoc c cands)
  show ?case
  proof (cases "cands = []")
    case True
    then show ?thesis by (simp add: better_def)
  next
    case False
    then obtain b where b: "foldl better None cands = Some b" "b \<in> set cands"
      "\<forall>c\<in>set cands. bs_dist b \<le> bs_dist c"
      using snoc.IH by blast
    show ?thesis
    proof (cases "bs_dist c < bs_dist b")
      case True
      then have "foldl better None (cands @ [c]) = Some c" using b(1) by (simp add: better_def)
      moreover have "\<forall>c'\<in>set (cands @ [c]). bs_dist c \<le> bs_dist c'"
        using True b(3) by fastforce
      ultimately show ?thesis by simp
    next
      case False
      then have "foldl better None (cands @ [c]) = Some b" using b(1) by (simp add: better_def)
      moreover have "\<forall>c'\<in>set (cands @ [c]). bs_dist b \<le> bs_dist c'"
        using False b(3) by fastforce
      ultimately show ?thesis using b(2) by simp
    qed
  qed
qed

lemma foldl_better_None: "foldl better None [] = None"
  by simp





lemma merge_group_lookup:
  "map_of (merge_group newMap groupIds bs nbs) i =
     (if i \<in> set groupIds \<union> set (expandedNeighbors newMap groupIds nbs)
      then map_option (\<lambda>old.
             \<lparr>placed_id = i,
              position = (if i \<in> set groupIds
                          then \<lparr>px = px (position old) + (px (bs_snapPos bs) - px (bs_groupPiecePos bs)),
                                py = py (position old) + (py (bs_snapPos bs) - py (bs_groupPiecePos bs))\<rparr>
                          else position old),
              isLocked = True,
              connectedGroup = filter (\<lambda>cId. cId \<noteq> i)
                  (new_set (groupIds @ expandedNeighbors newMap groupIds nbs))\<rparr>) (map_of newMap i)
      else map_of newMap i)"
  unfolding merge_group_def Let_def
  by (subst foldl_rewrite_lookup) (auto simp: distinct_new_set set_new_set cong: if_cong)

lemma group_drop_no_candidates:
  assumes "group_candidates pieces (move_group prev (getConnectedGroup prev pieceId) delta) th
             (getConnectedGroup prev pieceId) = []"
  shows "group_drop pieces th prev pieceId delta = move_group prev (getConnectedGroup prev pieceId) delta"
  using assms by (simp add: group_drop_def Let_def)

lemma group_drop_candidates:
  assumes "group_candidates pieces (move_group prev (getConnectedGroup prev pieceId) delta) th
             (getConnectedGroup prev pieceId) \<noteq> []"
  shows "\<exists>b\<in>set (group_candidates pieces (move_group prev (getConnectedGroup prev pieceId) delta) th
             (getConnectedGroup prev pieceId)).
          (\<forall>c\<in>set (group_candidates pieces (move_group prev (getConnectedGroup prev pieceId) delta) th
             (getConnectedGroup prev pieceId)). bs_dist b \<le> bs_dist c)
          \<and> group_drop pieces th prev pieceId delta =
              merge_group (move_group prev (getConnectedGroup prev pieceId) delta)
                (getConnectedGroup prev pieceId) b
                (new_set (map bs_neighborId
                   (group_candidates pieces (move_group prev (getConnectedGroup prev pieceId) delta) th
                      (getConnectedGroup prev pieceId))))"
proof -
  let ?cands = "group_candidates pieces (move_group prev (getConnectedGroup prev pieceId) delta) th
             (getConnectedGroup prev pieceId)"
  from foldl_better [OF assms] obtain b where b: "foldl better None ?cands = Some b"
    "b \<in> set ?cands" "\<forall>c\<in>set ?cands. bs_dist b \<le> bs_dist c" by blast
  have "new_set (map bs_neighborId ?cands) \<noteq> []"
    using assms by (simp add: new_set_empty_iff)
  then have "group_drop pieces th prev pieceId delta =
              merge_group (move_group prev (getConnectedGroup prev pieceId) delta)
                (getConnectedGroup prev pieceId) b (new_set (map bs_neighborId ?cands))"
    using b(1) by (simp add: group_drop_def Let_def)
  then show ?thesis using b(2,3) by blast
qed

text \<open>Every dragged piece is translated by one and the same vector.\<close>

lemma group_drop_translation:
  "\<exists>tx ty. \<forall>i\<in>set (getConnectedGroup prev pieceId). \<forall>old. map_of prev i = Some old \<longrightarrow>
      (\<exists>new. map_of (group_drop pieces th prev pieceId delta) i = Some new
          \<and> px (position new) = px (position old) + tx
          \<and> py (position new) = py (position old) + ty)"
proof (cases "group_candidates pieces (move_group prev (getConnectedGroup prev pieceId) delta) th
             (getConnectedGroup prev pieceId) = []")
  case True
  show ?thesis
    unfolding group_drop_no_candidates [OF True]
    by (rule exI [of _ "px delta"], rule exI [of _ "py delta"]) (auto simp: move_group_lookup)
next
  case False
  from group_drop_candidates [OF False] obtain b where
    eq: "group_drop pieces th prev pieceId delta =
              merge_group (move_group prev (getConnectedGroup prev pieceId) delta)
                (getConnectedGroup prev pieceId) b
                (new_set (map bs_neighborId
                   (group_candidates pieces (move_group prev (getConnectedGroup prev pieceId) delta) th
                      (getConnectedGroup prev pieceId))))"
    by blast
  show ?thesis
    unfolding eq
    by (rule exI [of _ "px delta + (px (bs_snapPos b) - px (bs_groupPiecePos b))"],
        rule exI [of _ "py delta + (py (bs_snapPos b) - py (bs_groupPiecePos b))"])
       (auto simp: merge_group_lookup move_group_lookup)
qed

lemma mouse_fold_lookup:
  "map_of (foldl (\<lambda>newMap j.
              if j = p then AList.update j (P j) newMap
              else (case map_of prev j of
                      Some old \<Rightarrow> AList.update j (F j old) newMap
                    | None \<Rightarrow> newMap)) m ids) i
   = (if i \<in> set ids
      then (if i = p then Some (P i)
            else (case map_of prev i of Some old \<Rightarrow> Some (F i old) | None \<Rightarrow> map_of m i))
      else map_of m i)"
proof (induction ids arbitrary: m rule: rev_induct)
  case Nil
  then show ?case by simp
next
  case (snoc j ids)
  then show ?case
    by (cases "map_of prev j") (auto simp: map_of_update split: option.splits)
qed

lemma handleMouseMove_lookup:
  assumes "dragState s = Some ds" and "pieceIds ds = anchor # others"
  shows "map_of (mousePlaced (handleMouseMove mouse s)) i =
     (if i \<in> set (pieceIds ds)
      then (if i = anchor
            then Some \<lparr>placed_id = i,
                   position = \<lparr>px = px mouse - px (offset ds), py = py mouse - py (offset ds)\<rparr>,
                   isLocked = False, connectedGroup = []\<rparr>
            else map_option (\<lambda>old. old\<lparr>position :=
                     \<lparr>px = px (position old)
                           + (case map_of (mousePlaced s) anchor of
                                Some op \<Rightarrow> px mouse - px (offset ds) - px (position op) | None \<Rightarrow> 0),
                      py = py (position old)
                           + (case map_of (mousePlaced s) anchor of
                                Some op \<Rightarrow> py mouse - py (offset ds) - py (position op) | None \<Rightarrow> 0)\<rparr>,
                   isLocked := False\<rparr>) (map_of (mousePlaced s) i))
      else map_of (mousePlaced s) i)"
proof -
  have "map_of (mousePlaced (handleMouseMove mouse s)) i =
    map_of (foldl (\<lambda>newMap j.
              if j = anchor
              then AList.update j \<lparr>placed_id = j,
                     position = \<lparr>px = px mouse - px (offset ds), py = py mouse - py (offset ds)\<rparr>,
                     isLocked = False, connectedGroup = []\<rparr> newMap
              else (case map_of (mousePlaced s) j of
                      Some old \<Rightarrow> AList.update j (old\<lparr>position :=
                         \<lparr>px = px (position old)
                           + (case map_of (mousePlaced s) anchor of
                                Some op \<Rightarrow> px mouse - px (offset ds) - px (position op) | None \<Rightarrow> 0),
                          py = py (position old)
                           + (case map_of (mousePlaced s) anchor of
                                Some op \<Rightarrow> py mouse - py (offset ds) - py (position op) | None \<Rightarrow> 0)\<rparr>,
                         isLocked := False\<rparr>) newMap
                    | None \<Rightarrow> newMap)) (mousePlaced s) (pieceIds ds)) i"
    using assms by (simp add: handleMouseMove_def Let_def del: foldl_Cons)
  then show ?thesis
    by (simp only: mouse_fold_lookup) (auto split: option.splits)
qed

lemma handleMouseMove_step:
  assumes "dragState s = Some ds" and "pieceIds ds = anchor # others"
    and "map_of (mousePlaced s) anchor = Some a0"
    and "i \<in> set (pieceIds ds)" and "map_of (mousePlaced s) i = Some old"
  shows "\<exists>a1 new. map_of (mousePlaced (handleMouseMove mouse s)) anchor = Some a1
           \<and> map_of (mousePlaced (handleMouseMove mouse s)) i = Some new
           \<and> px (position new) - px (position old) = px (position a1) - px (position a0)
           \<and> py (position new) - py (position old) = py (position a1) - py (position a0)"
proof -
  have "anchor \<in> set (pieceIds ds)" using assms(2) by simp
  then show ?thesis
    using assms(3,4,5)
    by (cases "i = anchor") (auto simp: handleMouseMove_lookup [OF assms(1,2)])
qed

lemma handleMouseMove_dragState: "dragState (handleMouseMove mouse s) = dragState s"
  by (simp add: handleMouseMove_def Let_def split: option.splits list.splits)

lemma handleMouseMove_sequence:
  assumes "dragState s = Some ds" and "pieceIds ds = anchor # others"
    and "map_of (mousePlaced s) anchor = Some a0"
    and "i \<in> set (pieceIds ds)" and "map_of (mousePlaced s) i = Some old"
  shows "dragState (foldl (\<lambda>st m. handleMouseMove m st) s moves) = Some ds
       \<and> (\<exists>a1 new. map_of (mousePlaced (foldl (\<lambda>st m. handleMouseMove m st) s moves)) anchor = Some a1
           \<and> map_of (mousePlaced (foldl (\<lambda>st m. handleMouseMove m st) s moves)) i = Some new
           \<and> px (position new) - px (position old) = px (position a1) - px (position a0)
           \<and> py (position new) - py (position old) = py (position a1) - py (position a0))"
proof (induction moves rule: rev_induct)
  case Nil
  then show ?case using assms by simp
next
  case (snoc m moves)
  let ?s = "foldl (\<lambda>st m. handleMouseMove m st) s moves"
  from snoc obtain a1 new where h: "dragState ?s = Some ds"
    "map_of (mousePlaced ?s) anchor = Some a1" "map_of (mousePlaced ?s) i = Some new"
    "px (position new) - px (position old) = px (position a1) - px (position a0)"
    "py (position new) - py (position old) = py (position a1) - py (position a0)"
    by blast
  from handleMouseMove_step [OF h(1) assms(2) h(2) assms(4) h(3), of m]
  obtain a2 new2 where k: "map_of (mousePlaced (handleMouseMove m ?s)) anchor = Some a2"
    "map_of (mousePlaced (handleMouseMove m ?s)) i = Some new2"
    "px (position new2) - px (position new) = px (position a2) - px (position a1)"
    "py (position new2) - py (position new) = py (position a2) - py (position a1)"
    by blast
  have "px (position new2) - px (position old) = px (position a2) - px (position a0)"
    "py (position new2) - py (position old) = py (position a2) - py (position a0)"
    using h(4,5) k(3,4) by linarith+
  then show ?case
    using k(1,2) h(1) by (simp add: handleMouseMove_dragState)
qed

text \<open>
  Within one drag, and with the additions taken as exact, a placed piece and every
  placed member of the group found when the drag started move by the same vector, so
  the offsets between them do not change: for any sequence of mouse moves that follows
  one mouse-down in the mouse-driven component, and for the move and any snap of a drop
  in puzzle-triangle.
\<close>

theorem rigid_group_translation:
  "(map_of (mousePlaced s0) anchor = Some a0
      \<and> i \<in> set (getConnectedGroup (mousePlaced s0) anchor)
      \<and> map_of (mousePlaced s0) i = Some old
    \<longrightarrow> (\<exists>a1 new.
          map_of (mousePlaced (foldl (\<lambda>st m. handleMouseMove m st)
                    (handlePlacedPieceMouseDown anchor mouse0 s0) moves)) anchor = Some a1
          \<and> map_of (mousePlaced (foldl (\<lambda>st m. handleMouseMove m st)
                    (handlePlacedPieceMouseDown anchor mouse0 s0) moves)) i = Some new
          \<and> px (position new) - px (position old) = px (position a1) - px (position a0)
          \<and> py (position new) - py (position old) = py (position a1) - py (position a0)))
   \<and> (map_of prev anchor = Some a0
      \<and> i \<in> set (getConnectedGroup prev anchor)
      \<and> map_of prev i = Some old
    \<longrightarrow> (\<exists>a1 new.
          map_of (group_drop pieces snapThreshold prev anchor delta) anchor = Some a1
          \<and> map_of (group_drop pieces snapThreshold prev anchor delta) i = Some new
          \<and> px (position new) - px (position old) = px (position a1) - px (position a0)
          \<and> py (position new) - py (position old) = py (position a1) - py (position a0)))"
proof (intro conjI impI)
  assume a: "map_of (mousePlaced s0) anchor = Some a0
      \<and> i \<in> set (getConnectedGroup (mousePlaced s0) anchor)
      \<and> map_of (mousePlaced s0) i = Some old"
  obtain others where o: "getConnectedGroup (mousePlaced s0) anchor = anchor # others"
    using getConnectedGroup_head by blast
  let ?ds = "\<lparr>pieceIds = getConnectedGroup (mousePlaced s0) anchor,
              offset = \<lparr>px = px mouse0 - px (position a0), py = py mouse0 - py (position a0)\<rparr>\<rparr>"
  let ?s1 = "handlePlacedPieceMouseDown anchor mouse0 s0"
  have d: "dragState ?s1 = Some ?ds" and m: "mousePlaced ?s1 = mousePlaced s0"
    using a by (simp_all add: handlePlacedPieceMouseDown_def)
  have p: "pieceIds ?ds = anchor # others" using o by simp
  from handleMouseMove_sequence [OF d p, of a0 i old moves] a m
  show "\<exists>a1 new.
          map_of (mousePlaced (foldl (\<lambda>st m. handleMouseMove m st) ?s1 moves)) anchor = Some a1
          \<and> map_of (mousePlaced (foldl (\<lambda>st m. handleMouseMove m st) ?s1 moves)) i = Some new
          \<and> px (position new) - px (position old) = px (position a1) - px (position a0)
          \<and> py (position new) - py (position old) = py (position a1) - py (position a0)"
    by simp
next
  assume a: "map_of prev anchor = Some a0
      \<and> i \<in> set (getConnectedGroup prev anchor)
      \<and> map_of prev i = Some old"
  from group_drop_translation [of prev anchor pieces snapThreshold delta]
  obtain tx ty where t: "\<forall>i\<in>set (getConnectedGroup prev anchor). \<forall>old. map_of prev i = Some old \<longrightarrow>
      (\<exists>new. map_of (group_drop pieces snapThreshold prev anchor delta) i = Some new
          \<and> px (position new) = px (position old) + tx
          \<and> py (position new) = py (position old) + ty)"
    by blast
  from t a getConnectedGroup_anchor [of anchor prev]
  obtain a1 where a1: "map_of (group_drop pieces snapThreshold prev anchor delta) anchor = Some a1"
    "px (position a1) = px (position a0) + tx" "py (position a1) = py (position a0) + ty"
    by blast
  from t a obtain new where n: "map_of (group_drop pieces snapThreshold prev anchor delta) i = Some new"
    "px (position new) = px (position old) + tx" "py (position new) = py (position old) + ty"
    by blast
  show "\<exists>a1 new.
          map_of (group_drop pieces snapThreshold prev anchor delta) anchor = Some a1
          \<and> map_of (group_drop pieces snapThreshold prev anchor delta) i = Some new
          \<and> px (position new) - px (position old) = px (position a1) - px (position a0)
          \<and> py (position new) - py (position old) = py (position a1) - py (position a0)"
    using a1 n by simp
qed

lemma group_two_joined: "getConnectedGroup two_joined ''piece-0-0-0'' = [''piece-0-0-0'', ''piece-0-1-0'']"
  by (simp add: getConnectedGroup_def two_joined_def)

theorem rigid_group_translation_witness:
  "map_option position
      (map_of (mousePlaced (foldl (\<lambda>st m. handleMouseMove m st)
         (handlePlacedPieceMouseDown ''piece-0-0-0'' \<lparr>px = 310, py = 320\<rparr>
            \<lparr>mousePlaced = two_joined, mousePool = [], dragState = None\<rparr>)
         [\<lparr>px = 350, py = 360\<rparr>, \<lparr>px = 400, py = 100\<rparr>])) ''piece-0-1-0'')
     = Some \<lparr>px = 490, py = 80\<rparr>
   \<and> map_option position
      (map_of (group_drop puzzle_2x2 10 two_joined ''piece-0-0-0'' \<lparr>px = 7, py = 6\<rparr>) ''piece-0-1-0'')
     = Some \<lparr>px = 407, py = 306\<rparr>"
proof -
  let ?s0 = "\<lparr>mousePlaced = two_joined, mousePool = [], dragState = None\<rparr>"
  let ?a0 = "\<lparr>placed_id = ''piece-0-0-0'', position = \<lparr>px = 300, py = 300\<rparr>,
              isLocked = True, connectedGroup = [''piece-0-1-0'']\<rparr>"
  let ?old = "\<lparr>placed_id = ''piece-0-1-0'', position = \<lparr>px = 400, py = 300\<rparr>,
              isLocked = True, connectedGroup = [''piece-0-0-0'']\<rparr>"
  let ?moves = "[\<lparr>px = 350, py = 360\<rparr>, \<lparr>px = 400, py = 100\<rparr>]"
  let ?end = "foldl (\<lambda>st m. handleMouseMove m st)
         (handlePlacedPieceMouseDown ''piece-0-0-0'' \<lparr>px = 310, py = 320\<rparr> ?s0) ?moves"
  let ?drop = "group_drop puzzle_2x2 10 two_joined ''piece-0-0-0'' \<lparr>px = 7, py = 6\<rparr>"
  have h: "map_of two_joined ''piece-0-0-0'' = Some ?a0"
      "''piece-0-1-0'' \<in> set (getConnectedGroup two_joined ''piece-0-0-0'')"
      "map_of two_joined ''piece-0-1-0'' = Some ?old"
    by (simp_all add: group_two_joined) (simp_all add: two_joined_def)
  note t = rigid_group_translation [of ?s0 "''piece-0-0-0''" ?a0 "''piece-0-1-0''" ?old
      "\<lparr>px = 310, py = 320\<rparr>" ?moves two_joined puzzle_2x2 10 "\<lparr>px = 7, py = 6\<rparr>"]
  from t h obtain a1 new where m:
      "map_of (mousePlaced ?end) ''piece-0-0-0'' = Some a1"
      "map_of (mousePlaced ?end) ''piece-0-1-0'' = Some new"
      "px (position new) - px (position ?old) = px (position a1) - px (position ?a0)"
      "py (position new) - py (position ?old) = py (position a1) - py (position ?a0)"
    by auto
  let ?ds = "\<lparr>pieceIds = [''piece-0-0-0'', ''piece-0-1-0''], offset = \<lparr>px = 10, py = 20\<rparr>\<rparr>"
  let ?s1 = "handlePlacedPieceMouseDown ''piece-0-0-0'' \<lparr>px = 310, py = 320\<rparr> ?s0"
  let ?s2 = "handleMouseMove \<lparr>px = 350, py = 360\<rparr> ?s1"
  have d1: "dragState ?s1 = Some ?ds"
    using h(1) by (simp add: handlePlacedPieceMouseDown_def group_two_joined)
  have d2: "dragState ?s2 = Some ?ds"
    using d1 by (simp add: handleMouseMove_dragState)
  have ids: "pieceIds ?ds = ''piece-0-0-0'' # [''piece-0-1-0'']" by simp
  have e: "?end = handleMouseMove \<lparr>px = 400, py = 100\<rparr> ?s2" by simp
  have "map_option position (map_of (mousePlaced ?end) ''piece-0-0-0'') = Some \<lparr>px = 390, py = 80\<rparr>"
    unfolding e handleMouseMove_lookup [OF d2 ids] by simp
  then have "position a1 = \<lparr>px = 390, py = 80\<rparr>" using m(1) by simp
  then have "px (position new) = 490" "py (position new) = 80" using m(3,4) by simp_all
  then have c1: "map_option position (map_of (mousePlaced ?end) ''piece-0-1-0'') = Some \<lparr>px = 490, py = 80\<rparr>"
    using m(2) by simp
  from t h obtain b1 new2 where d:
      "map_of ?drop ''piece-0-0-0'' = Some b1"
      "map_of ?drop ''piece-0-1-0'' = Some new2"
      "px (position new2) - px (position ?old) = px (position b1) - px (position ?a0)"
      "py (position new2) - py (position ?old) = py (position b1) - py (position ?a0)"
    by auto
  have cands: "group_candidates puzzle_2x2 (move_group two_joined [''piece-0-0-0'', ''piece-0-1-0''] \<lparr>px = 7, py = 6\<rparr>) 10
          [''piece-0-0-0'', ''piece-0-1-0''] = []"
    by (simp add: group_candidates_def group_candidate_of_def find_piece_def puzzle_2x2_def
          move_group_def two_joined_def)
  have "map_option position (map_of ?drop ''piece-0-0-0'') = Some \<lparr>px = 307, py = 306\<rparr>"
    using cands by (simp add: group_drop_def group_two_joined Let_def)
       (simp add: move_group_def two_joined_def)
  then have "position b1 = \<lparr>px = 307, py = 306\<rparr>" using d(1) by simp
  then have "px (position new2) = 407" "py (position new2) = 306" using d(3,4) by simp_all
  then have c2: "map_option position (map_of ?drop ''piece-0-1-0'') = Some \<lparr>px = 407, py = 306\<rparr>"
    using d(2) by simp
  from c1 c2 show ?thesis by blast
qed






















section \<open>The release of placed pieces in the mouse-driven components\<close>











section \<open>Properties of neighbor resolution\<close>

subsection \<open>The concrete puzzle is what the generator produces\<close>

lemma upt2: "[0..<2] = [0, Suc 0]" by (simp add: upt_rec)

lemma createTrianglePiece_triangle:
  "createTrianglePiece [\<lparr>px = a1, py = b1\<rparr>, \<lparr>px = a2, py = b2\<rparr>, \<lparr>px = a3, py = b3\<rparr>] r c k
   = \<lparr>piece_id = ''piece-'' @ string_of_nat r @ ''-'' @ string_of_nat c @ ''-'' @ string_of_nat k,
          piece_row = r, piece_col = c, triangleIndex = k,
          correctPosition = \<lparr>px = min (min a1 a2) a3, py = min (min b1 b2) b3\<rparr>,
          polygon = [\<lparr>px = a1, py = b1\<rparr>, \<lparr>px = a2, py = b2\<rparr>, \<lparr>px = a3, py = b3\<rparr>],
          width = max (max a1 a2) a3 - min (min a1 a2) a3, height = max (max b1 b2) b3 - min (min b1 b2) b3,
          neighbors = []\<rparr>"
  by (simp add: createTrianglePiece_def getPolygonBounds_def Let_def min.commute max.commute
           del: string_of_nat.simps)

lemma string_of_digit: "string_of_nat 0 = ''0''" "string_of_nat (Suc 0) = ''1''"
  by (simp_all add: digit_char_def)

lemma raw_2x2_eq:
  "concat (map (\<lambda>r. concat (map (\<lambda>c.
              map (\<lambda>(k, tri). createTrianglePiece tri r c k)
                  (enumerate 0 (cell_triangles 100 100 r c)))
              [0..<2])) [0..<2]) = raw_2x2"
  by (simp add: upt2 cell_triangles_def Let_def createTrianglePiece_triangle string_of_digit raw_2x2_def
           del: string_of_nat.simps)

lemmas neighbor_eval = visit_other_def sharedPoints_def close_to_def edgeKey_def

lemma nb0: "foldl (visit_other (raw_2x2 ! 0)) [] raw_2x2 = neighbors (puzzle_2x2 ! 0)"
  by (simp add: raw_2x2_def puzzle_2x2_def neighbor_eval)
lemma nb1: "foldl (visit_other (raw_2x2 ! 1)) [] raw_2x2 = neighbors (puzzle_2x2 ! 1)"
  by (simp add: raw_2x2_def puzzle_2x2_def neighbor_eval)
lemma nb2: "foldl (visit_other (raw_2x2 ! 2)) [] raw_2x2 = neighbors (puzzle_2x2 ! 2)"
  by (simp add: raw_2x2_def puzzle_2x2_def neighbor_eval)
lemma nb3: "foldl (visit_other (raw_2x2 ! 3)) [] raw_2x2 = neighbors (puzzle_2x2 ! 3)"
  by (simp add: raw_2x2_def puzzle_2x2_def neighbor_eval)
lemma nb4: "foldl (visit_other (raw_2x2 ! 4)) [] raw_2x2 = neighbors (puzzle_2x2 ! 4)"
  by (simp add: raw_2x2_def puzzle_2x2_def neighbor_eval)
lemma nb5: "foldl (visit_other (raw_2x2 ! 5)) [] raw_2x2 = neighbors (puzzle_2x2 ! 5)"
  by (simp add: raw_2x2_def puzzle_2x2_def neighbor_eval)
lemma nb6: "foldl (visit_other (raw_2x2 ! 6)) [] raw_2x2 = neighbors (puzzle_2x2 ! 6)"
  by (simp add: raw_2x2_def puzzle_2x2_def neighbor_eval)
lemma nb7: "foldl (visit_other (raw_2x2 ! 7)) [] raw_2x2 = neighbors (puzzle_2x2 ! 7)"
  by (simp add: raw_2x2_def puzzle_2x2_def neighbor_eval)


lemma setupNeighbors_nth:
  "i < length ps \<Longrightarrow>
   setupNeighbors ps ! i = (ps ! i)\<lparr>neighbors := foldl (visit_other (ps ! i)) (neighbors (ps ! i)) ps\<rparr>"
  by (simp add: setupNeighbors_def)

lemma raw_2x2_neighbors: "i < 8 \<Longrightarrow> neighbors (raw_2x2 ! i) = []"
proof -
  assume "i < 8"
  then have "i = 0 \<or> i = 1 \<or> i = 2 \<or> i = 3 \<or> i = 4 \<or> i = 5 \<or> i = 6 \<or> i = 7" by arith
  then show ?thesis by (auto simp: raw_2x2_def)
qed

lemma raw_2x2_with_neighbors:
  "i < 8 \<Longrightarrow> (raw_2x2 ! i)\<lparr>neighbors := neighbors (puzzle_2x2 ! i)\<rparr> = puzzle_2x2 ! i"
proof -
  assume "i < 8"
  then have "i = 0 \<or> i = 1 \<or> i = 2 \<or> i = 3 \<or> i = 4 \<or> i = 5 \<or> i = 6 \<or> i = 7" by arith
  then show ?thesis by (auto simp: raw_2x2_def puzzle_2x2_def)
qed

lemma raw_2x2_fold:
  "i < 8 \<Longrightarrow> foldl (visit_other (raw_2x2 ! i)) [] raw_2x2 = neighbors (puzzle_2x2 ! i)"
proof -
  assume "i < 8"
  then have "i = 0 \<or> i = 1 \<or> i = 2 \<or> i = 3 \<or> i = 4 \<or> i = 5 \<or> i = 6 \<or> i = 7" by arith
  then show ?thesis using nb0 nb1 nb2 nb3 nb4 nb5 nb6 nb7 by (elim disjE) simp_all
qed

lemma length_raw_2x2: "length raw_2x2 = 8" "length puzzle_2x2 = 8"
  by (simp_all add: raw_2x2_def puzzle_2x2_def)

lemma setupNeighbors_raw_2x2: "setupNeighbors raw_2x2 = puzzle_2x2"
proof (rule nth_equalityI)
  show "length (setupNeighbors raw_2x2) = length puzzle_2x2"
    by (simp add: setupNeighbors_def length_raw_2x2)
next
  fix i
  assume "i < length (setupNeighbors raw_2x2)"
  then have i: "i < 8" by (simp add: setupNeighbors_def length_raw_2x2)
  then have "setupNeighbors raw_2x2 ! i
      = (raw_2x2 ! i)\<lparr>neighbors := foldl (visit_other (raw_2x2 ! i)) (neighbors (raw_2x2 ! i)) raw_2x2\<rparr>"
    by (simp add: setupNeighbors_nth length_raw_2x2)
  also have "\<dots> = (raw_2x2 ! i)\<lparr>neighbors := neighbors (puzzle_2x2 ! i)\<rparr>"
    using i by (simp add: raw_2x2_neighbors raw_2x2_fold)
  also have "\<dots> = puzzle_2x2 ! i"
    using i by (rule raw_2x2_with_neighbors)
  finally show "setupNeighbors raw_2x2 ! i = puzzle_2x2 ! i" .
qed

lemma createTrianglePuzzle_2x2: "createTrianglePuzzle 200 200 2 2 = puzzle_2x2"
proof -
  have "createTrianglePuzzle 200 200 2 2 = setupNeighbors raw_2x2"
    unfolding createTrianglePuzzle_def Let_def using raw_2x2_eq by simp
  then show ?thesis by (simp add: setupNeighbors_raw_2x2)
qed








subsection \<open>Edge keys in puzzle-triangle\<close>

text \<open>
  C6 (where the code departs from it). For the 2 by 2 puzzle on a 200 by 200 image,
  \<open>piece-0-0-1\<close> and \<open>piece-1-0-0\<close> share the edge from (0,100) to (100,100). Each lists
  the other, but under different keys: the first under \<open>100,100-0,100\<close>, the second
  under \<open>0,100-100,100\<close>, each following the vertex order of its own polygon. Under
  the first piece's key the second piece has no entry.
\<close>

theorem triangle_edge_keys_differ:
  "piece_id (createTrianglePuzzle 200 200 2 2 ! 1) = ''piece-0-0-1''
   \<and> piece_id (createTrianglePuzzle 200 200 2 2 ! 4) = ''piece-1-0-0''
   \<and> neighbors (createTrianglePuzzle 200 200 2 2 ! 1)
        = [(EdgeKey 0 0 100 100, ''piece-0-0-0''), (EdgeKey 100 100 0 100, ''piece-1-0-0'')]
   \<and> neighbors (createTrianglePuzzle 200 200 2 2 ! 4)
        = [(EdgeKey 0 100 100 100, ''piece-0-0-1''), (EdgeKey 100 100 0 200, ''piece-1-0-1'')]
   \<and> map_of (neighbors (createTrianglePuzzle 200 200 2 2 ! 1)) (EdgeKey 100 100 0 100)
        = Some ''piece-1-0-0''
   \<and> map_of (neighbors (createTrianglePuzzle 200 200 2 2 ! 4)) (EdgeKey 100 100 0 100) = None"
  by (simp add: createTrianglePuzzle_2x2 puzzle_2x2_def)

subsection \<open>The tolerance of the vertex test\<close>

lemma generateTrianglePattern_unit:
  "generateTrianglePattern \<lparr>px = 0, py = 0\<rparr> \<lparr>px = w, py = 0\<rparr> \<lparr>px = 0, py = h\<rparr> \<lparr>px = w, py = h\<rparr> 0 0
   = [[\<lparr>px = 0, py = 0\<rparr>, \<lparr>px = w, py = 0\<rparr>, \<lparr>px = w / 2, py = h / 2\<rparr>],
      [\<lparr>px = w, py = 0\<rparr>, \<lparr>px = w, py = h\<rparr>, \<lparr>px = w / 2, py = h / 2\<rparr>],
      [\<lparr>px = w, py = h\<rparr>, \<lparr>px = 0, py = h\<rparr>, \<lparr>px = w / 2, py = h / 2\<rparr>],
      [\<lparr>px = 0, py = h\<rparr>, \<lparr>px = 0, py = 0\<rparr>, \<lparr>px = w / 2, py = h / 2\<rparr>]]"
  by (simp add: generateTrianglePattern_def Let_def)

lemma string_of_digit_more:
  "string_of_nat (Suc (Suc 0)) = ''2''" "string_of_nat (Suc (Suc (Suc 0))) = ''3''"
  by (simp_all add: digit_char_def)

lemma upt4: "[0..<4] = [0, Suc 0, 2, 3]"
  by (simp add: upt_rec eval_nat_numeral)

lemmas random_eval = visit_pair_def sharedPoints_random_def push_shared_def close_to_def
  sort_points_def compare_points_def edgeKey_random_def round10_def






section \<open>Snapping on concrete boards\<close>

lemma distance_less_iff:
  assumes "0 < t"
  shows "distance p q < t \<longleftrightarrow> (px p - px q)\<^sup>2 + (py p - py q)\<^sup>2 < t\<^sup>2"
proof -
  have "sqrt ((px p - px q)\<^sup>2 + (py p - py q)\<^sup>2) < sqrt (t\<^sup>2)
        \<longleftrightarrow> (px p - px q)\<^sup>2 + (py p - py q)\<^sup>2 < t\<^sup>2"
    by (rule real_sqrt_less_iff)
  then show ?thesis using assms by (simp add: distance_def)
qed

lemma find_piece_2x2:
  "find_piece puzzle_2x2 ''piece-0-0-0'' = Some (puzzle_2x2 ! 0)"
  "find_piece puzzle_2x2 ''piece-0-0-1'' = Some (puzzle_2x2 ! 1)"
  "find_piece puzzle_2x2 ''piece-0-1-0'' = Some (puzzle_2x2 ! 2)"
  by (simp_all add: find_piece_def puzzle_2x2_def)

lemma pieces_2x2:
  "neighbors (puzzle_2x2 ! 0) = [(EdgeKey 0 0 100 100, ''piece-0-0-1''), (EdgeKey 100 0 100 100, ''piece-0-1-0'')]"
  "correctPosition (puzzle_2x2 ! 0) = \<lparr>px = 0, py = 0\<rparr>"
  "correctPosition (puzzle_2x2 ! 1) = \<lparr>px = 0, py = 0\<rparr>"
  "correctPosition (puzzle_2x2 ! Suc 0) = \<lparr>px = 0, py = 0\<rparr>"
  "neighbors (puzzle_2x2 ! Suc 0) = [(EdgeKey 0 0 100 100, ''piece-0-0-0''), (EdgeKey 100 100 0 100, ''piece-1-0-0'')]"
  "correctPosition (puzzle_2x2 ! 2) = \<lparr>px = 100, py = 0\<rparr>"
  "neighbors (puzzle_2x2 ! 1) = [(EdgeKey 0 0 100 100, ''piece-0-0-0''), (EdgeKey 100 100 0 100, ''piece-1-0-0'')]"
  "neighbors (puzzle_2x2 ! 2) = [(EdgeKey 100 0 100 100, ''piece-0-0-0''), (EdgeKey 200 0 100 100, ''piece-0-1-1'')]"
  by (simp_all add: puzzle_2x2_def)

lemma snap_to_loose:
  "checkAndSnapToNeighbors puzzle_2x2
      [(''piece-0-1-0'', \<lparr>placed_id = ''piece-0-1-0'', position = \<lparr>px = 150, py = 50\<rparr>,
                          isLocked = False, connectedGroup = []\<rparr>),
       (''piece-0-0-0'', \<lparr>placed_id = ''piece-0-0-0'', position = \<lparr>px = 47, py = 46\<rparr>,
                          isLocked = False, connectedGroup = []\<rparr>)]
      20 ''piece-0-0-0'' \<lparr>px = 47, py = 46\<rparr>
   = \<lparr>shouldSnap = True, snapPosition = \<lparr>px = 50, py = 50\<rparr>, snapNeighbors = [''piece-0-1-0'']\<rparr>"
  by (simp add: checkAndSnapToNeighbors_def find_piece_2x2 pieces_2x2 snapCandidates_def
        candidate_of_def expectedPos_def distance_less_iff Let_def
        getConnectedGroup_def set_add_def)

text \<open>
  C2 (where the code departs from it). In the mouse-driven component \<open>piece-0-1-0\<close>
  lies loose on the board; \<open>piece-0-0-0\<close> is dragged from the pool to within 5 of its
  place next to it and released. The two pieces end linked to each other and the
  dragged piece is locked, but the neighbor it snapped to stays unlocked:
  \<open>handleMouseUp\<close> rewrites a neighbor from the old map and replaces only its links.
  The same drop through the pool branch of puzzle-triangle (and of puzzle-random)
  locks both.
\<close>

theorem mouse_snap_leaves_neighbor_unlocked:
  "mousePlaced
     (handleMouseUp puzzle_2x2 20
        (handleMouseMove \<lparr>px = 47, py = 46\<rparr>
           (handlePoolPieceMouseDown ''piece-0-0-0''
              \<lparr>mousePlaced = loose_neighbor, mousePool = [''piece-0-0-0''], dragState = None\<rparr>)))
   = [(''piece-0-1-0'', \<lparr>placed_id = ''piece-0-1-0'', position = \<lparr>px = 150, py = 50\<rparr>,
                          isLocked = False, connectedGroup = [''piece-0-0-0'']\<rparr>),
      (''piece-0-0-0'', \<lparr>placed_id = ''piece-0-0-0'', position = \<lparr>px = 50, py = 50\<rparr>,
                          isLocked = True, connectedGroup = [''piece-0-1-0'']\<rparr>)]
   \<and> pool_drop puzzle_2x2 20 loose_neighbor ''piece-0-0-0'' \<lparr>px = 47, py = 46\<rparr>
   = [(''piece-0-1-0'', \<lparr>placed_id = ''piece-0-1-0'', position = \<lparr>px = 150, py = 50\<rparr>,
                          isLocked = True, connectedGroup = [''piece-0-0-0'']\<rparr>),
      (''piece-0-0-0'', \<lparr>placed_id = ''piece-0-0-0'', position = \<lparr>px = 50, py = 50\<rparr>,
                          isLocked = True, connectedGroup = [''piece-0-1-0'']\<rparr>)]"
proof -
  have m: "handleMouseMove \<lparr>px = 47, py = 46\<rparr>
           (handlePoolPieceMouseDown ''piece-0-0-0''
              \<lparr>mousePlaced = loose_neighbor, mousePool = [''piece-0-0-0''], dragState = None\<rparr>)
        = \<lparr>mousePlaced =
             [(''piece-0-1-0'', \<lparr>placed_id = ''piece-0-1-0'', position = \<lparr>px = 150, py = 50\<rparr>,
                          isLocked = False, connectedGroup = []\<rparr>),
              (''piece-0-0-0'', \<lparr>placed_id = ''piece-0-0-0'', position = \<lparr>px = 47, py = 46\<rparr>,
                          isLocked = False, connectedGroup = []\<rparr>)],
           mousePool = [],
           dragState = Some \<lparr>pieceIds = [''piece-0-0-0''], offset = \<lparr>px = 0, py = 0\<rparr>\<rparr>\<rparr>"
    by (simp add: handleMouseMove_def handlePoolPieceMouseDown_def Let_def loose_neighbor_def)
  have u: "mousePlaced
     (handleMouseUp puzzle_2x2 20
        (handleMouseMove \<lparr>px = 47, py = 46\<rparr>
           (handlePoolPieceMouseDown ''piece-0-0-0''
              \<lparr>mousePlaced = loose_neighbor, mousePool = [''piece-0-0-0''], dragState = None\<rparr>)))
   = [(''piece-0-1-0'', \<lparr>placed_id = ''piece-0-1-0'', position = \<lparr>px = 150, py = 50\<rparr>,
                          isLocked = False, connectedGroup = [''piece-0-0-0'']\<rparr>),
      (''piece-0-0-0'', \<lparr>placed_id = ''piece-0-0-0'', position = \<lparr>px = 50, py = 50\<rparr>,
                          isLocked = True, connectedGroup = [''piece-0-1-0'']\<rparr>)]"
    unfolding m
    by (simp add: handleMouseUp_def snap_to_loose Let_def new_set_def set_add_def)
  have p: "pool_drop puzzle_2x2 20 loose_neighbor ''piece-0-0-0'' \<lparr>px = 47, py = 46\<rparr>
   = [(''piece-0-1-0'', \<lparr>placed_id = ''piece-0-1-0'', position = \<lparr>px = 150, py = 50\<rparr>,
                          isLocked = True, connectedGroup = [''piece-0-0-0'']\<rparr>),
      (''piece-0-0-0'', \<lparr>placed_id = ''piece-0-0-0'', position = \<lparr>px = 50, py = 50\<rparr>,
                          isLocked = True, connectedGroup = [''piece-0-1-0'']\<rparr>)]"
    by (simp add: pool_drop_def loose_neighbor_def checkAndSnapToNeighbors_def find_piece_2x2
        pieces_2x2 snapCandidates_def candidate_of_def expectedPos_def distance_less_iff Let_def
        getConnectedGroup_def set_add_def new_set_def)
  from u p show ?thesis by (rule conjI)
qed

lemma createTrianglePuzzle_random_1x1:
  "createTrianglePuzzle_random 100 100 1 1 = puzzle_random_1x1"
proof -
  have "createTrianglePuzzle_random 100 100 1 1 =
    setupNeighbors_random
      [createTrianglePiece [\<lparr>px = 0, py = 0\<rparr>, \<lparr>px = 100, py = 0\<rparr>, \<lparr>px = 50, py = 50\<rparr>] 0 0 0,
       createTrianglePiece [\<lparr>px = 100, py = 0\<rparr>, \<lparr>px = 100, py = 100\<rparr>, \<lparr>px = 50, py = 50\<rparr>] 0 0 (Suc 0),
       createTrianglePiece [\<lparr>px = 100, py = 100\<rparr>, \<lparr>px = 0, py = 100\<rparr>, \<lparr>px = 50, py = 50\<rparr>] 0 0 (Suc (Suc 0)),
       createTrianglePiece [\<lparr>px = 0, py = 100\<rparr>, \<lparr>px = 0, py = 0\<rparr>, \<lparr>px = 50, py = 50\<rparr>] 0 0 (Suc (Suc (Suc 0)))] 1"
    using generateTrianglePattern_unit [of 100 100]
    by (simp add: createTrianglePuzzle_random_def Let_def)
  then show ?thesis
    by (simp add: createTrianglePiece_triangle string_of_digit string_of_digit_more
          setupNeighbors_random_def upt4 random_eval Let_def puzzle_random_1x1_def
          del: string_of_nat.simps)
qed

lemma find_piece_random:
  "find_piece puzzle_random_1x1 ''piece-0-0-0'' = Some (puzzle_random_1x1 ! 0)"
  "find_piece puzzle_random_1x1 ''piece-0-0-1'' = Some (puzzle_random_1x1 ! 1)"
  "find_piece puzzle_random_1x1 ''piece-0-0-2'' = Some (puzzle_random_1x1 ! 2)"
  "find_piece puzzle_random_1x1 ''piece-0-0-3'' = Some (puzzle_random_1x1 ! 3)"
  by (simp_all add: find_piece_def puzzle_random_1x1_def)

lemma pieces_random:
  "neighbors (puzzle_random_1x1 ! 0)
     = [(EdgeKey 500 500 1000 0, ''piece-0-0-1''), (EdgeKey 0 0 500 500, ''piece-0-0-3'')]"
  "neighbors (puzzle_random_1x1 ! Suc 0)
     = [(EdgeKey 500 500 1000 0, ''piece-0-0-0''), (EdgeKey 500 500 1000 1000, ''piece-0-0-2'')]"
  "neighbors (puzzle_random_1x1 ! 2)
     = [(EdgeKey 500 500 1000 1000, ''piece-0-0-1''), (EdgeKey 0 1000 500 500, ''piece-0-0-3'')]"
  "neighbors (puzzle_random_1x1 ! 3)
     = [(EdgeKey 0 0 500 500, ''piece-0-0-0''), (EdgeKey 0 1000 500 500, ''piece-0-0-2'')]"
  "correctPosition (puzzle_random_1x1 ! 0) = \<lparr>px = 0, py = 0\<rparr>"
  "correctPosition (puzzle_random_1x1 ! Suc 0) = \<lparr>px = 50, py = 0\<rparr>"
  "correctPosition (puzzle_random_1x1 ! 2) = \<lparr>px = 0, py = 50\<rparr>"
  "correctPosition (puzzle_random_1x1 ! 3) = \<lparr>px = 0, py = 0\<rparr>"
  by (simp_all add: puzzle_random_1x1_def)

lemmas snap_eval = checkAndSnapToNeighbors_def snapCandidates_def candidate_of_def expectedPos_def
  distance_less_iff getConnectedGroup_def set_add_def new_set_def

subsection \<open>A session of puzzle-random that ends in two separate pairs\<close>

lemma sizes_random:
  "width (puzzle_random_1x1 ! 0) = 100" "height (puzzle_random_1x1 ! 0) = 50"
  "width (puzzle_random_1x1 ! Suc 0) = 50" "height (puzzle_random_1x1 ! Suc 0) = 100"
  "width (puzzle_random_1x1 ! 2) = 100" "height (puzzle_random_1x1 ! 2) = 50"
  "width (puzzle_random_1x1 ! 3) = 50" "height (puzzle_random_1x1 ! 3) = 100"
  by (simp_all add: puzzle_random_1x1_def)

lemma ids_random:
  "map piece_id puzzle_random_1x1
   = [''piece-0-0-0'', ''piece-0-0-1'', ''piece-0-0-2'', ''piece-0-0-3'']"
  by (simp add: puzzle_random_1x1_def)

lemma display_scale_100: "display_scale 100 100 = 1"
  by (simp add: display_scale_def)

lemma drop1: "pool_drop puzzle_random_1x1 20 [] ''piece-0-0-0'' \<lparr>px = - 50, py = - 25\<rparr>
   = [placed_entry ''piece-0-0-0'' (- 50) (- 25) False []]"
  by (simp add: pool_drop_def snap_eval find_piece_random pieces_random Let_def placed_entry_def)

lemma drop2: "pool_drop puzzle_random_1x1 20 [placed_entry ''piece-0-0-0'' (- 50) (- 25) False []]
     ''piece-0-0-1'' \<lparr>px = 2, py = - 21\<rparr>
   = [placed_entry ''piece-0-0-0'' (- 50) (- 25) True [''piece-0-0-1''],
      placed_entry ''piece-0-0-1'' 0 (- 25) True [''piece-0-0-0'']]"
  by (simp add: pool_drop_def snap_eval find_piece_random pieces_random Let_def placed_entry_def)

lemma drop3: "pool_drop puzzle_random_1x1 20
     [placed_entry ''piece-0-0-0'' (- 50) (- 25) True [''piece-0-0-1''],
      placed_entry ''piece-0-0-1'' 0 (- 25) True [''piece-0-0-0'']]
     ''piece-0-0-2'' \<lparr>px = 50, py = 75\<rparr>
   = [placed_entry ''piece-0-0-0'' (- 50) (- 25) True [''piece-0-0-1''],
      placed_entry ''piece-0-0-1'' 0 (- 25) True [''piece-0-0-0''],
      placed_entry ''piece-0-0-2'' 50 75 False []]"
  by (simp add: pool_drop_def snap_eval find_piece_random pieces_random Let_def placed_entry_def)

lemma drop4: "pool_drop puzzle_random_1x1 20
     [placed_entry ''piece-0-0-0'' (- 50) (- 25) True [''piece-0-0-1''],
      placed_entry ''piece-0-0-1'' 0 (- 25) True [''piece-0-0-0''],
      placed_entry ''piece-0-0-2'' 50 75 False []]
     ''piece-0-0-3'' \<lparr>px = 53, py = 29\<rparr>
   = [placed_entry ''piece-0-0-0'' (- 50) (- 25) True [''piece-0-0-1''],
      placed_entry ''piece-0-0-1'' 0 (- 25) True [''piece-0-0-0''],
      placed_entry ''piece-0-0-2'' 50 75 True [''piece-0-0-3''],
      placed_entry ''piece-0-0-3'' 50 25 True [''piece-0-0-2'']]"
  by (simp add: pool_drop_def snap_eval find_piece_random pieces_random Let_def placed_entry_def)

lemma pick_and_release_inside:
  assumes "find_piece puzzle_random_1x1 i = Some piece"
    and "0 \<le> px client" "px client \<le> 100" "0 \<le> py client" "py client \<le> 100"
  shows "pick_and_release puzzle_random_1x1 i client
           \<lparr>randomPlaced = pm, randomPool = pool, randomDrag = None, dragSourceRef = None\<rparr>
         = \<lparr>randomPlaced = pool_drop puzzle_random_1x1 20 pm i
                \<lparr>px = px client - width piece / 2, py = py client - height piece / 2\<rparr>,
            randomPool = filter (\<lambda>j. j \<noteq> i) pool, randomDrag = None, dragSourceRef = None\<rparr>"
  using assms
  by (simp add: pick_and_release_def random_handlePoolPieceMouseDown_def random_onUp_def
      display_scale_100 inside_rect_def canvas_100_def Let_def)

lemma pick_and_release_reachable:
  assumes "random_reachable pieces 20 100 100 s" and "randomDrag s = None"
    and "i \<in> set (randomPool s)"
  shows "random_reachable pieces 20 100 100 (pick_and_release pieces i client s)"
  unfolding pick_and_release_def
  by (rule random_reach_up) (rule random_reach_pool_down [OF assms])

lemma split_session_steps:
  "pick_and_release puzzle_random_1x1 ''piece-0-0-0'' \<lparr>px = 0, py = 0\<rparr>
     (random_init (map piece_id puzzle_random_1x1))
   = \<lparr>randomPlaced = [placed_entry ''piece-0-0-0'' (- 50) (- 25) False []],
      randomPool = [''piece-0-0-1'', ''piece-0-0-2'', ''piece-0-0-3''],
      randomDrag = None, dragSourceRef = None\<rparr>"
  "pick_and_release puzzle_random_1x1 ''piece-0-0-1'' \<lparr>px = 27, py = 29\<rparr>
     \<lparr>randomPlaced = [placed_entry ''piece-0-0-0'' (- 50) (- 25) False []],
      randomPool = [''piece-0-0-1'', ''piece-0-0-2'', ''piece-0-0-3''],
      randomDrag = None, dragSourceRef = None\<rparr>
   = \<lparr>randomPlaced = [placed_entry ''piece-0-0-0'' (- 50) (- 25) True [''piece-0-0-1''],
                       placed_entry ''piece-0-0-1'' 0 (- 25) True [''piece-0-0-0'']],
      randomPool = [''piece-0-0-2'', ''piece-0-0-3''],
      randomDrag = None, dragSourceRef = None\<rparr>"
  "pick_and_release puzzle_random_1x1 ''piece-0-0-2'' \<lparr>px = 100, py = 100\<rparr>
     \<lparr>randomPlaced = [placed_entry ''piece-0-0-0'' (- 50) (- 25) True [''piece-0-0-1''],
                       placed_entry ''piece-0-0-1'' 0 (- 25) True [''piece-0-0-0'']],
      randomPool = [''piece-0-0-2'', ''piece-0-0-3''],
      randomDrag = None, dragSourceRef = None\<rparr>
   = \<lparr>randomPlaced = [placed_entry ''piece-0-0-0'' (- 50) (- 25) True [''piece-0-0-1''],
                       placed_entry ''piece-0-0-1'' 0 (- 25) True [''piece-0-0-0''],
                       placed_entry ''piece-0-0-2'' 50 75 False []],
      randomPool = [''piece-0-0-3''],
      randomDrag = None, dragSourceRef = None\<rparr>"
  "pick_and_release puzzle_random_1x1 ''piece-0-0-3'' \<lparr>px = 78, py = 79\<rparr>
     \<lparr>randomPlaced = [placed_entry ''piece-0-0-0'' (- 50) (- 25) True [''piece-0-0-1''],
                       placed_entry ''piece-0-0-1'' 0 (- 25) True [''piece-0-0-0''],
                       placed_entry ''piece-0-0-2'' 50 75 False []],
      randomPool = [''piece-0-0-3''],
      randomDrag = None, dragSourceRef = None\<rparr>
   = \<lparr>randomPlaced = two_pairs, randomPool = [], randomDrag = None, dragSourceRef = None\<rparr>"
  unfolding random_init_def ids_random
  by (simp_all add: pick_and_release_inside [OF find_piece_random(1)]
      pick_and_release_inside [OF find_piece_random(2)]
      pick_and_release_inside [OF find_piece_random(3)]
      pick_and_release_inside [OF find_piece_random(4)]
      sizes_random drop1 drop2 drop3 drop4 two_pairs_def)

lemma split_session_eq:
  "split_session
   = \<lparr>randomPlaced = two_pairs, randomPool = [], randomDrag = None, dragSourceRef = None\<rparr>"
  unfolding split_session_def Let_def createTrianglePuzzle_random_1x1
  by (simp only: split_session_steps)

lemma split_session_reachable:
  "random_reachable puzzle_random_1x1 20 100 100
     \<lparr>randomPlaced = two_pairs, randomPool = [], randomDrag = None, dragSourceRef = None\<rparr>"
proof -
  have "random_reachable puzzle_random_1x1 20 100 100 (random_init (map piece_id puzzle_random_1x1))"
    by (rule random_reach_init) simp
  then have "random_reachable puzzle_random_1x1 20 100 100
      (pick_and_release puzzle_random_1x1 ''piece-0-0-0'' \<lparr>px = 0, py = 0\<rparr>
         (random_init (map piece_id puzzle_random_1x1)))"
    by (rule pick_and_release_reachable) (simp_all add: random_init_def ids_random)
  then have "random_reachable puzzle_random_1x1 20 100 100
     \<lparr>randomPlaced = [placed_entry ''piece-0-0-0'' (- 50) (- 25) False []],
      randomPool = [''piece-0-0-1'', ''piece-0-0-2'', ''piece-0-0-3''],
      randomDrag = None, dragSourceRef = None\<rparr>"
    by (simp only: split_session_steps)
  then have "random_reachable puzzle_random_1x1 20 100 100
      (pick_and_release puzzle_random_1x1 ''piece-0-0-1'' \<lparr>px = 27, py = 29\<rparr>
     \<lparr>randomPlaced = [placed_entry ''piece-0-0-0'' (- 50) (- 25) False []],
      randomPool = [''piece-0-0-1'', ''piece-0-0-2'', ''piece-0-0-3''],
      randomDrag = None, dragSourceRef = None\<rparr>)"
    by (rule pick_and_release_reachable) simp_all
  then have "random_reachable puzzle_random_1x1 20 100 100
     \<lparr>randomPlaced = [placed_entry ''piece-0-0-0'' (- 50) (- 25) True [''piece-0-0-1''],
                       placed_entry ''piece-0-0-1'' 0 (- 25) True [''piece-0-0-0'']],
      randomPool = [''piece-0-0-2'', ''piece-0-0-3''],
      randomDrag = None, dragSourceRef = None\<rparr>"
    by (simp only: split_session_steps)
  then have "random_reachable puzzle_random_1x1 20 100 100
      (pick_and_release puzzle_random_1x1 ''piece-0-0-2'' \<lparr>px = 100, py = 100\<rparr>
     \<lparr>randomPlaced = [placed_entry ''piece-0-0-0'' (- 50) (- 25) True [''piece-0-0-1''],
                       placed_entry ''piece-0-0-1'' 0 (- 25) True [''piece-0-0-0'']],
      randomPool = [''piece-0-0-2'', ''piece-0-0-3''],
      randomDrag = None, dragSourceRef = None\<rparr>)"
    by (rule pick_and_release_reachable) simp_all
  then have "random_reachable puzzle_random_1x1 20 100 100
     \<lparr>randomPlaced = [placed_entry ''piece-0-0-0'' (- 50) (- 25) True [''piece-0-0-1''],
                       placed_entry ''piece-0-0-1'' 0 (- 25) True [''piece-0-0-0''],
                       placed_entry ''piece-0-0-2'' 50 75 False []],
      randomPool = [''piece-0-0-3''],
      randomDrag = None, dragSourceRef = None\<rparr>"
    by (simp only: split_session_steps)
  then have "random_reachable puzzle_random_1x1 20 100 100
      (pick_and_release puzzle_random_1x1 ''piece-0-0-3'' \<lparr>px = 78, py = 79\<rparr>
     \<lparr>randomPlaced = [placed_entry ''piece-0-0-0'' (- 50) (- 25) True [''piece-0-0-1''],
                       placed_entry ''piece-0-0-1'' 0 (- 25) True [''piece-0-0-0''],
                       placed_entry ''piece-0-0-2'' 50 75 False []],
      randomPool = [''piece-0-0-3''],
      randomDrag = None, dragSourceRef = None\<rparr>)"
    by (rule pick_and_release_reachable) simp_all
  then show ?thesis
    by (simp only: split_session_steps)
qed

text \<open>
  C4 (where the code departs from it). In the session \<open>split_session\<close> of puzzle-random
  every piece is released inside the canvas; two pieces snap together at the upper left
  corner, the other two at the lower right. All four are locked and the pool is empty,
  so the check of puzzle-random (and of the two mouse-driven triangle components), which
  counts locked pieces, reports the puzzle solved; but the walk from the first piece
  visits only two of the four pieces, two groups lie apart, and the check of
  puzzle-triangle, which walks the links, does not report such a board solved.
\<close>

theorem locked_count_reports_solved_when_split:
  "split_session
     = \<lparr>randomPlaced = two_pairs, randomPool = [], randomDrag = None, dragSourceRef = None\<rparr>
   \<and> random_reachable (createTrianglePuzzle_random 100 100 1 1) 20 100 100 split_session
   \<and> solved_check_locked (createTrianglePuzzle_random 100 100 1 1)
        (randomPlaced split_session) (randomPool split_session)
   \<and> getConnectedGroup (randomPlaced split_session) ''piece-0-0-0''
       = [''piece-0-0-0'', ''piece-0-0-1'']
   \<and> getConnectedGroup (randomPlaced split_session) ''piece-0-0-2''
       = [''piece-0-0-2'', ''piece-0-0-3'']
   \<and> \<not> solved_check (createTrianglePuzzle_random 100 100 1 1)
         \<lparr>placedPieces = randomPlaced split_session, poolItems = randomPool split_session,
          activeId = None, dragSource = None\<rparr>"
proof -
  have l: "solved_check_locked puzzle_random_1x1 two_pairs []"
    by (simp add: solved_check_locked_def two_pairs_def placed_entry_def puzzle_random_1x1_def)
  have g: "getConnectedGroup two_pairs ''piece-0-0-0'' = [''piece-0-0-0'', ''piece-0-0-1'']"
      "getConnectedGroup two_pairs ''piece-0-0-2'' = [''piece-0-0-2'', ''piece-0-0-3'']"
    by (simp_all add: getConnectedGroup_def two_pairs_def placed_entry_def)
  have n: "\<not> solved_check puzzle_random_1x1
         \<lparr>placedPieces = two_pairs, poolItems = [], activeId = None, dragSource = None\<rparr>"
    by (simp add: solved_check_def puzzle_random_1x1_def g(1))
  show ?thesis
    unfolding createTrianglePuzzle_random_1x1 split_session_eq
    using split_session_reachable l g n by simp
qed

section \<open>A second mouse-down during a drag\<close>

lemma ids_2x2:
  "map piece_id puzzle_2x2 = [''piece-0-0-0'', ''piece-0-0-1'', ''piece-0-1-0'', ''piece-0-1-1'',
     ''piece-1-0-0'', ''piece-1-0-1'', ''piece-1-1-0'', ''piece-1-1-1'']"
  by (simp add: puzzle_2x2_def)

lemma fst_placed_entry: "fst (placed_entry i a b l g) = i"
  by (simp add: placed_entry_def)

lemma mouse_drag_evals:
  "handleMouseMove mouse (handlePoolPieceMouseDown i \<lparr>mousePlaced = pm, mousePool = pool, dragState = d\<rparr>)
   = \<lparr>mousePlaced = AList.update i \<lparr>placed_id = i, position = \<lparr>px = px mouse, py = py mouse\<rparr>,
                          isLocked = False, connectedGroup = []\<rparr> pm,
      mousePool = filter (\<lambda>j. j \<noteq> i) pool,
      dragState = Some \<lparr>pieceIds = [i], offset = \<lparr>px = 0, py = 0\<rparr>\<rparr>\<rparr>"
  by (simp add: handleMouseMove_def handlePoolPieceMouseDown_def Let_def)

lemma regrab_step1:
  "handleMouseUp puzzle_2x2 20
     (handleMouseMove \<lparr>px = 50, py = 50\<rparr>
        (handlePoolPieceMouseDown ''piece-0-0-0'' (mouse_init (map piece_id puzzle_2x2))))
   = \<lparr>mousePlaced = [placed_entry ''piece-0-0-0'' 50 50 False []],
      mousePool = [''piece-0-0-1'', ''piece-0-1-0'', ''piece-0-1-1'',
        ''piece-1-0-0'', ''piece-1-0-1'', ''piece-1-1-0'', ''piece-1-1-1''],
      dragState = None\<rparr>"
  unfolding ids_2x2 mouse_init_def mouse_drag_evals
  by (simp add: handleMouseUp_def Let_def placed_entry_def snap_eval find_piece_2x2 pieces_2x2)

lemma regrab_snap:
  "checkAndSnapToNeighbors puzzle_2x2
      [placed_entry ''piece-0-0-0'' 50 50 False [],
       placed_entry ''piece-0-1-0'' 147 46 False []]
      20 ''piece-0-1-0'' \<lparr>px = 147, py = 46\<rparr>
   = \<lparr>shouldSnap = True, snapPosition = \<lparr>px = 150, py = 50\<rparr>, snapNeighbors = [''piece-0-0-0'']\<rparr>"
  by (simp add: snap_eval find_piece_2x2 pieces_2x2 distance_less_iff Let_def placed_entry_def
      getConnectedGroup_def set_add_def)

lemma regrab_step2:
  "handleMouseUp puzzle_2x2 20
     (handleMouseMove \<lparr>px = 147, py = 46\<rparr>
        (handlePoolPieceMouseDown ''piece-0-1-0''
           \<lparr>mousePlaced = [placed_entry ''piece-0-0-0'' 50 50 False []],
            mousePool = [''piece-0-0-1'', ''piece-0-1-0'', ''piece-0-1-1'',
              ''piece-1-0-0'', ''piece-1-0-1'', ''piece-1-1-0'', ''piece-1-1-1''],
            dragState = None\<rparr>))
   = \<lparr>mousePlaced = [placed_entry ''piece-0-0-0'' 50 50 False [''piece-0-1-0''],
                     placed_entry ''piece-0-1-0'' 150 50 True [''piece-0-0-0'']],
      mousePool = [''piece-0-0-1'', ''piece-0-1-1'',
        ''piece-1-0-0'', ''piece-1-0-1'', ''piece-1-1-0'', ''piece-1-1-1''],
      dragState = None\<rparr>"
proof -
  have m: "handleMouseMove \<lparr>px = 147, py = 46\<rparr>
        (handlePoolPieceMouseDown ''piece-0-1-0''
           \<lparr>mousePlaced = [placed_entry ''piece-0-0-0'' 50 50 False []],
            mousePool = [''piece-0-0-1'', ''piece-0-1-0'', ''piece-0-1-1'',
              ''piece-1-0-0'', ''piece-1-0-1'', ''piece-1-1-0'', ''piece-1-1-1''],
            dragState = None\<rparr>)
     = \<lparr>mousePlaced = [placed_entry ''piece-0-0-0'' 50 50 False [],
                       placed_entry ''piece-0-1-0'' 147 46 False []],
        mousePool = [''piece-0-0-1'', ''piece-0-1-1'',
          ''piece-1-0-0'', ''piece-1-0-1'', ''piece-1-1-0'', ''piece-1-1-1''],
        dragState = Some \<lparr>pieceIds = [''piece-0-1-0''], offset = \<lparr>px = 0, py = 0\<rparr>\<rparr>\<rparr>"
    unfolding mouse_drag_evals by (simp add: placed_entry_def)
  have p: "map_of [placed_entry ''piece-0-0-0'' 50 50 False [],
                   placed_entry ''piece-0-1-0'' 147 46 False []] ''piece-0-1-0''
      = Some (snd (placed_entry ''piece-0-1-0'' 147 46 False []))"
    by (simp add: placed_entry_def)
  have q: "position (snd (placed_entry ''piece-0-1-0'' 147 46 False [])) = \<lparr>px = 147, py = 46\<rparr>"
    by (simp add: placed_entry_def)
  show ?thesis
    unfolding m
    by (simp add: handleMouseUp_def p q regrab_snap Let_def new_set_def set_add_def)
       (simp add: placed_entry_def)
qed

lemma regrab_group:
  "getConnectedGroup [placed_entry ''piece-0-0-0'' 50 50 False [''piece-0-1-0''],
                      placed_entry ''piece-0-1-0'' 150 50 True [''piece-0-0-0'']] ''piece-0-0-0''
   = [''piece-0-0-0'', ''piece-0-1-0'']"
  "getConnectedGroup [placed_entry ''piece-0-0-0'' 150 50 False [],
                      placed_entry ''piece-0-1-0'' 250 50 False [''piece-0-0-0'']] ''piece-0-0-0''
   = [''piece-0-0-0'']"
  "getConnectedGroup [placed_entry ''piece-0-0-0'' 150 50 False [],
                      placed_entry ''piece-0-1-0'' 250 50 False [''piece-0-0-0'']] ''piece-0-1-0''
   = [''piece-0-1-0'', ''piece-0-0-0'']"
  by (simp_all add: getConnectedGroup_def placed_entry_def)

lemma regrab_step3:
  "handleMouseMove \<lparr>px = 160, py = 60\<rparr>
     (handlePlacedPieceMouseDown ''piece-0-0-0'' \<lparr>px = 60, py = 60\<rparr>
        \<lparr>mousePlaced = [placed_entry ''piece-0-0-0'' 50 50 False [''piece-0-1-0''],
                        placed_entry ''piece-0-1-0'' 150 50 True [''piece-0-0-0'']],
         mousePool = [''piece-0-0-1'', ''piece-0-1-1'',
           ''piece-1-0-0'', ''piece-1-0-1'', ''piece-1-1-0'', ''piece-1-1-1''],
         dragState = None\<rparr>)
   = \<lparr>mousePlaced = [placed_entry ''piece-0-0-0'' 150 50 False [],
                     placed_entry ''piece-0-1-0'' 250 50 False [''piece-0-0-0'']],
      mousePool = [''piece-0-0-1'', ''piece-0-1-1'',
        ''piece-1-0-0'', ''piece-1-0-1'', ''piece-1-1-0'', ''piece-1-1-1''],
      dragState = Some \<lparr>pieceIds = [''piece-0-0-0'', ''piece-0-1-0''],
                         offset = \<lparr>px = 10, py = 10\<rparr>\<rparr>\<rparr>"
  by (simp add: handlePlacedPieceMouseDown_def regrab_group)
     (simp add: handleMouseMove_def Let_def placed_entry_def)

lemma regrab_step4:
  "handlePlacedPieceMouseDown ''piece-0-0-0'' \<lparr>px = 160, py = 60\<rparr>
     \<lparr>mousePlaced = [placed_entry ''piece-0-0-0'' 150 50 False [],
                     placed_entry ''piece-0-1-0'' 250 50 False [''piece-0-0-0'']],
      mousePool = [''piece-0-0-1'', ''piece-0-1-1'',
        ''piece-1-0-0'', ''piece-1-0-1'', ''piece-1-1-0'', ''piece-1-1-1''],
      dragState = Some \<lparr>pieceIds = [''piece-0-0-0'', ''piece-0-1-0''],
                         offset = \<lparr>px = 10, py = 10\<rparr>\<rparr>\<rparr>
   = \<lparr>mousePlaced = [placed_entry ''piece-0-0-0'' 150 50 False [],
                     placed_entry ''piece-0-1-0'' 250 50 False [''piece-0-0-0'']],
      mousePool = [''piece-0-0-1'', ''piece-0-1-1'',
        ''piece-1-0-0'', ''piece-1-0-1'', ''piece-1-1-0'', ''piece-1-1-1''],
      dragState = Some \<lparr>pieceIds = [''piece-0-0-0''], offset = \<lparr>px = 10, py = 10\<rparr>\<rparr>\<rparr>"
  by (simp add: handlePlacedPieceMouseDown_def regrab_group)
     (simp add: placed_entry_def)

lemma regrab_session_eq:
  "regrab_session
   = \<lparr>mousePlaced = [placed_entry ''piece-0-0-0'' 150 50 False [],
                     placed_entry ''piece-0-1-0'' 250 50 False [''piece-0-0-0'']],
      mousePool = [''piece-0-0-1'', ''piece-0-1-1'',
        ''piece-1-0-0'', ''piece-1-0-1'', ''piece-1-1-0'', ''piece-1-1-1''],
      dragState = Some \<lparr>pieceIds = [''piece-0-0-0''], offset = \<lparr>px = 10, py = 10\<rparr>\<rparr>\<rparr>"
  unfolding regrab_session_def Let_def createTrianglePuzzle_2x2
  by (simp only: regrab_step1 regrab_step2 regrab_step3 regrab_step4)

lemma regrab_move:
  "handleMouseMove \<lparr>px = 260, py = 160\<rparr>
     \<lparr>mousePlaced = [placed_entry ''piece-0-0-0'' 150 50 False [],
                     placed_entry ''piece-0-1-0'' 250 50 False [''piece-0-0-0'']],
      mousePool = [''piece-0-0-1'', ''piece-0-1-1'',
        ''piece-1-0-0'', ''piece-1-0-1'', ''piece-1-1-0'', ''piece-1-1-1''],
      dragState = Some \<lparr>pieceIds = [''piece-0-0-0''], offset = \<lparr>px = 10, py = 10\<rparr>\<rparr>\<rparr>
   = \<lparr>mousePlaced = [placed_entry ''piece-0-0-0'' 250 150 False [],
                     placed_entry ''piece-0-1-0'' 250 50 False [''piece-0-0-0'']],
      mousePool = [''piece-0-0-1'', ''piece-0-1-1'',
        ''piece-1-0-0'', ''piece-1-0-1'', ''piece-1-1-0'', ''piece-1-1-1''],
      dragState = Some \<lparr>pieceIds = [''piece-0-0-0''], offset = \<lparr>px = 10, py = 10\<rparr>\<rparr>\<rparr>"
  by (simp add: handleMouseMove_def Let_def placed_entry_def)

lemma regrab_reachable:
  "mouse_reachable puzzle_2x2 20
     \<lparr>mousePlaced = [placed_entry ''piece-0-0-0'' 150 50 False [],
                     placed_entry ''piece-0-1-0'' 250 50 False [''piece-0-0-0'']],
      mousePool = [''piece-0-0-1'', ''piece-0-1-1'',
        ''piece-1-0-0'', ''piece-1-0-1'', ''piece-1-1-0'', ''piece-1-1-1''],
      dragState = Some \<lparr>pieceIds = [''piece-0-0-0''], offset = \<lparr>px = 10, py = 10\<rparr>\<rparr>\<rparr>"
proof -
  let ?s0 = "mouse_init (map piece_id puzzle_2x2)"
  let ?s1 = "\<lparr>mousePlaced = [placed_entry ''piece-0-0-0'' 50 50 False []],
      mousePool = [''piece-0-0-1'', ''piece-0-1-0'', ''piece-0-1-1'',
        ''piece-1-0-0'', ''piece-1-0-1'', ''piece-1-1-0'', ''piece-1-1-1''],
      dragState = None\<rparr>"
  let ?s2 = "\<lparr>mousePlaced = [placed_entry ''piece-0-0-0'' 50 50 False [''piece-0-1-0''],
                     placed_entry ''piece-0-1-0'' 150 50 True [''piece-0-0-0'']],
      mousePool = [''piece-0-0-1'', ''piece-0-1-1'',
        ''piece-1-0-0'', ''piece-1-0-1'', ''piece-1-1-0'', ''piece-1-1-1''],
      dragState = None\<rparr>"
  have "mouse_reachable puzzle_2x2 20 ?s0"
    by (rule mouse_reach_init) simp
  then have "mouse_reachable puzzle_2x2 20 (handlePoolPieceMouseDown ''piece-0-0-0'' ?s0)"
    by (rule mouse_reach_pool_down) (simp add: mouse_init_def ids_2x2)
  then have "mouse_reachable puzzle_2x2 20
      (handleMouseMove \<lparr>px = 50, py = 50\<rparr> (handlePoolPieceMouseDown ''piece-0-0-0'' ?s0))"
    by (rule mouse_reach_move) (simp add: handlePoolPieceMouseDown_def)
  then have "mouse_reachable puzzle_2x2 20
      (handleMouseUp puzzle_2x2 20
        (handleMouseMove \<lparr>px = 50, py = 50\<rparr> (handlePoolPieceMouseDown ''piece-0-0-0'' ?s0)))"
    by (rule mouse_reach_up)
  then have r1: "mouse_reachable puzzle_2x2 20 ?s1"
    by (simp only: regrab_step1)
  then have "mouse_reachable puzzle_2x2 20 (handlePoolPieceMouseDown ''piece-0-1-0'' ?s1)"
    by (rule mouse_reach_pool_down) simp
  then have "mouse_reachable puzzle_2x2 20
      (handleMouseMove \<lparr>px = 147, py = 46\<rparr> (handlePoolPieceMouseDown ''piece-0-1-0'' ?s1))"
    by (rule mouse_reach_move) (simp add: handlePoolPieceMouseDown_def)
  then have "mouse_reachable puzzle_2x2 20
      (handleMouseUp puzzle_2x2 20
        (handleMouseMove \<lparr>px = 147, py = 46\<rparr> (handlePoolPieceMouseDown ''piece-0-1-0'' ?s1)))"
    by (rule mouse_reach_up)
  then have r2: "mouse_reachable puzzle_2x2 20 ?s2"
    by (simp only: regrab_step2)
  then have "mouse_reachable puzzle_2x2 20
      (handlePlacedPieceMouseDown ''piece-0-0-0'' \<lparr>px = 60, py = 60\<rparr> ?s2)"
    by (rule mouse_reach_placed_down)
  moreover have "dragState (handlePlacedPieceMouseDown ''piece-0-0-0'' \<lparr>px = 60, py = 60\<rparr> ?s2)
      = Some \<lparr>pieceIds = [''piece-0-0-0'', ''piece-0-1-0''], offset = \<lparr>px = 10, py = 10\<rparr>\<rparr>"
    by (simp add: handlePlacedPieceMouseDown_def regrab_group) (simp add: placed_entry_def)
  moreover have "mousePool (handlePlacedPieceMouseDown ''piece-0-0-0'' \<lparr>px = 60, py = 60\<rparr> ?s2)
      = mousePool ?s2"
    by (simp add: handlePlacedPieceMouseDown_def split: option.splits)
  ultimately have "mouse_reachable puzzle_2x2 20
      (handleMouseMove \<lparr>px = 160, py = 60\<rparr>
         (handlePlacedPieceMouseDown ''piece-0-0-0'' \<lparr>px = 60, py = 60\<rparr> ?s2))"
    by (intro mouse_reach_move) simp_all
  then have "mouse_reachable puzzle_2x2 20
      (handlePlacedPieceMouseDown ''piece-0-0-0'' \<lparr>px = 160, py = 60\<rparr>
        (handleMouseMove \<lparr>px = 160, py = 60\<rparr>
           (handlePlacedPieceMouseDown ''piece-0-0-0'' \<lparr>px = 60, py = 60\<rparr> ?s2)))"
    by (rule mouse_reach_placed_down)
  then show ?thesis
    by (simp only: regrab_step3 regrab_step4)
qed

lemma sibling_drop:
  "group_drop puzzle_2x2 20
     [placed_entry ''piece-0-0-0'' 50 50 False [''piece-0-1-0''],
      placed_entry ''piece-0-1-0'' 150 50 True [''piece-0-0-0'']]
     ''piece-0-0-0'' \<lparr>px = 100, py = 0\<rparr>
   = [placed_entry ''piece-0-0-0'' 150 50 False [''piece-0-1-0''],
      placed_entry ''piece-0-1-0'' 250 50 False [''piece-0-0-0'']]"
proof -
  have cands: "group_candidates puzzle_2x2
      (move_group [placed_entry ''piece-0-0-0'' 50 50 False [''piece-0-1-0''],
                   placed_entry ''piece-0-1-0'' 150 50 True [''piece-0-0-0'']]
         [''piece-0-0-0'', ''piece-0-1-0''] \<lparr>px = 100, py = 0\<rparr>) 20
      [''piece-0-0-0'', ''piece-0-1-0''] = []"
    by (simp add: group_candidates_def group_candidate_of_def find_piece_def puzzle_2x2_def
          move_group_def placed_entry_def)
  show ?thesis
    using cands by (simp add: group_drop_def regrab_group Let_def)
       (simp add: move_group_def placed_entry_def)
qed

text \<open>
  C3 (where the code departs from it). In the session \<open>regrab_session\<close> of the
  mouse-driven triangle component the two pieces are joined; the first drag-move shifts
  both by (100, 0). \<open>handleMouseMove\<close> writes the piece under the pointer with an empty
  \<open>connectedGroup\<close>, so the second mouse-down finds that piece alone, although its
  neighbor still lists it and the walk from the neighbor still reaches it. The next
  drag-move shifts the piece by (100, 100) and leaves the neighbor where it was: the
  offset between the two members of the group changes from (100, 0) to (0, - 100). The
  move of puzzle-triangle keeps the links of every piece it moves.
\<close>

theorem regrab_moves_piece_without_group:
  "mouse_reachable (createTrianglePuzzle 200 200 2 2) 20 regrab_session
   \<and> mousePlaced regrab_session
       = [placed_entry ''piece-0-0-0'' 150 50 False [],
          placed_entry ''piece-0-1-0'' 250 50 False [''piece-0-0-0'']]
   \<and> map_option pieceIds (dragState regrab_session) = Some [''piece-0-0-0'']
   \<and> getConnectedGroup (mousePlaced regrab_session) ''piece-0-1-0''
       = [''piece-0-1-0'', ''piece-0-0-0'']
   \<and> mousePlaced (handleMouseMove \<lparr>px = 260, py = 160\<rparr> regrab_session)
       = [placed_entry ''piece-0-0-0'' 250 150 False [],
          placed_entry ''piece-0-1-0'' 250 50 False [''piece-0-0-0'']]
   \<and> group_drop (createTrianglePuzzle 200 200 2 2) 20
        [placed_entry ''piece-0-0-0'' 50 50 False [''piece-0-1-0''],
         placed_entry ''piece-0-1-0'' 150 50 True [''piece-0-0-0'']]
        ''piece-0-0-0'' \<lparr>px = 100, py = 0\<rparr>
       = [placed_entry ''piece-0-0-0'' 150 50 False [''piece-0-1-0''],
          placed_entry ''piece-0-1-0'' 250 50 False [''piece-0-0-0'']]"
  unfolding regrab_session_eq createTrianglePuzzle_2x2
  using regrab_reachable regrab_group(3) sibling_drop
  by (simp add: regrab_move)

section \<open>Snap candidates and the closest candidate\<close>























text \<open>
  What the theorem leaves out: a dragged piece that is among the returned snap neighbors.
  In the session \<open>regrab_session\<close> the piece under the pointer is moved on to (160, 50),
  10 to the right of its place next to its neighbor, and released. The neighbor is its
  closest (and only) candidate, and since the neighbor still lists the piece, the piece
  is among the returned neighbors: \<open>handleMouseUp\<close> first shifts it onto the snap
  position (150, 50) and locks it, then rewrites it from the previous map with only the
  links replaced. It ends linked, but unlocked and 10 away from the snap position. The
  placed branch of \<open>onUp\<close> in puzzle-random makes the same update.
\<close>

lemma mouse_release_overwrites_dragged_piece:
  "snapCandidates (createTrianglePuzzle 200 200 2 2)
       (mousePlaced (handleMouseMove \<lparr>px = 170, py = 60\<rparr> regrab_session)) 20
       (createTrianglePuzzle 200 200 2 2 ! 0) \<lparr>px = 160, py = 50\<rparr>
     = [\<lparr>neighborId = ''piece-0-1-0'', snapPos = \<lparr>px = 150, py = 50\<rparr>,
         dist = distance \<lparr>px = 160, py = 50\<rparr> \<lparr>px = 150, py = 50\<rparr>\<rparr>]
   \<and> mousePlaced (handleMouseUp (createTrianglePuzzle 200 200 2 2) 20
        (handleMouseMove \<lparr>px = 170, py = 60\<rparr> regrab_session))
     = [placed_entry ''piece-0-0-0'' 160 50 False [''piece-0-1-0''],
        placed_entry ''piece-0-1-0'' 250 50 False [''piece-0-0-0'']]"
proof -
  have m: "handleMouseMove \<lparr>px = 170, py = 60\<rparr> regrab_session
      = \<lparr>mousePlaced = [placed_entry ''piece-0-0-0'' 160 50 False [],
                        placed_entry ''piece-0-1-0'' 250 50 False [''piece-0-0-0'']],
         mousePool = [''piece-0-0-1'', ''piece-0-1-1'',
           ''piece-1-0-0'', ''piece-1-0-1'', ''piece-1-1-0'', ''piece-1-1-1''],
         dragState = Some \<lparr>pieceIds = [''piece-0-0-0''], offset = \<lparr>px = 10, py = 10\<rparr>\<rparr>\<rparr>"
    unfolding regrab_session_eq by (simp add: handleMouseMove_def Let_def placed_entry_def)
  have c: "snapCandidates puzzle_2x2
       [placed_entry ''piece-0-0-0'' 160 50 False [],
        placed_entry ''piece-0-1-0'' 250 50 False [''piece-0-0-0'']] 20
       (puzzle_2x2 ! 0) \<lparr>px = 160, py = 50\<rparr>
     = [\<lparr>neighborId = ''piece-0-1-0'', snapPos = \<lparr>px = 150, py = 50\<rparr>,
         dist = distance \<lparr>px = 160, py = 50\<rparr> \<lparr>px = 150, py = 50\<rparr>\<rparr>]"
    by (simp add: snapCandidates_def candidate_of_def pieces_2x2 find_piece_2x2 placed_entry_def
          expectedPos_def distance_less_iff Let_def)
  have r: "checkAndSnapToNeighbors puzzle_2x2
       [placed_entry ''piece-0-0-0'' 160 50 False [],
        placed_entry ''piece-0-1-0'' 250 50 False [''piece-0-0-0'']] 20
       ''piece-0-0-0'' \<lparr>px = 160, py = 50\<rparr>
     = \<lparr>shouldSnap = True, snapPosition = \<lparr>px = 150, py = 50\<rparr>,
        snapNeighbors = [''piece-0-1-0'', ''piece-0-0-0'']\<rparr>"
    by (simp add: snap_eval find_piece_2x2 pieces_2x2 distance_less_iff Let_def placed_entry_def
        getConnectedGroup_def set_add_def)
  have q: "position (snd (placed_entry ''piece-0-0-0'' 160 50 False [])) = \<lparr>px = 160, py = 50\<rparr>"
    by (simp add: placed_entry_def)
  have u: "mousePlaced (handleMouseUp puzzle_2x2 20
        \<lparr>mousePlaced = [placed_entry ''piece-0-0-0'' 160 50 False [],
                        placed_entry ''piece-0-1-0'' 250 50 False [''piece-0-0-0'']],
         mousePool = [''piece-0-0-1'', ''piece-0-1-1'',
           ''piece-1-0-0'', ''piece-1-0-1'', ''piece-1-1-0'', ''piece-1-1-1''],
         dragState = Some \<lparr>pieceIds = [''piece-0-0-0''], offset = \<lparr>px = 10, py = 10\<rparr>\<rparr>\<rparr>)
     = [placed_entry ''piece-0-0-0'' 160 50 False [''piece-0-1-0''],
        placed_entry ''piece-0-1-0'' 250 50 False [''piece-0-0-0'']]"
    by (simp add: handleMouseUp_def fst_placed_entry q r Let_def new_set_def set_add_def)
       (simp add: placed_entry_def)
  show ?thesis
    unfolding createTrianglePuzzle_2x2 m using c u by simp
qed
section \<open>Pool and board hold every piece between drags\<close>



lemma in_flight_cleared: "in_flight (s\<lparr>activeId := None, dragSource := None\<rparr>) = {}"
  by (simp add: in_flight_def)















subsection \<open>puzzle-random\<close>













subsection \<open>The mouse-driven triangle components\<close>











subsection \<open>The component with irregular shapes\<close>











subsection \<open>The sessions together\<close>













subsection \<open>A pointer move with a dragged piece in the pool\<close>

lemma regrab_release:
  "handleMouseUp puzzle_2x2 20
     \<lparr>mousePlaced = [placed_entry ''piece-0-0-0'' 250 150 False [],
                     placed_entry ''piece-0-1-0'' 250 50 False [''piece-0-0-0'']],
      mousePool = [''piece-0-0-1'', ''piece-0-1-1'',
        ''piece-1-0-0'', ''piece-1-0-1'', ''piece-1-1-0'', ''piece-1-1-1''],
      dragState = Some \<lparr>pieceIds = [''piece-0-0-0''], offset = \<lparr>px = 10, py = 10\<rparr>\<rparr>\<rparr>
   = \<lparr>mousePlaced = [placed_entry ''piece-0-0-0'' 250 150 False [],
                     placed_entry ''piece-0-1-0'' 250 50 False [''piece-0-0-0'']],
      mousePool = [''piece-0-0-1'', ''piece-0-1-1'',
        ''piece-1-0-0'', ''piece-1-0-1'', ''piece-1-1-0'', ''piece-1-1-1''],
      dragState = None\<rparr>"
proof -
  have c: "checkAndSnapToNeighbors puzzle_2x2
      [placed_entry ''piece-0-0-0'' 250 150 False [],
       placed_entry ''piece-0-1-0'' 250 50 False [''piece-0-0-0'']]
      20 ''piece-0-0-0'' \<lparr>px = 250, py = 150\<rparr>
     = \<lparr>shouldSnap = False, snapPosition = \<lparr>px = 250, py = 150\<rparr>, snapNeighbors = []\<rparr>"
    by (simp add: snap_eval find_piece_2x2 pieces_2x2 distance_less_iff Let_def placed_entry_def)
  have p: "map_of [placed_entry ''piece-0-0-0'' 250 150 False [],
                   placed_entry ''piece-0-1-0'' 250 50 False [''piece-0-0-0'']] ''piece-0-0-0''
      = Some (snd (placed_entry ''piece-0-0-0'' 250 150 False []))"
    by (simp add: placed_entry_def)
  have q: "position (snd (placed_entry ''piece-0-0-0'' 250 150 False [])) = \<lparr>px = 250, py = 150\<rparr>"
    by (simp add: placed_entry_def)
  show ?thesis
    by (simp add: handleMouseUp_def fst_placed_entry q c Let_def)
qed

lemma regrab_return:
  "mouse_handleReturnToPool ''piece-0-0-0''
     \<lparr>mousePlaced = [placed_entry ''piece-0-0-0'' 250 150 False [],
                     placed_entry ''piece-0-1-0'' 250 50 False [''piece-0-0-0'']],
      mousePool = [''piece-0-0-1'', ''piece-0-1-1'',
        ''piece-1-0-0'', ''piece-1-0-1'', ''piece-1-1-0'', ''piece-1-1-1''],
      dragState = None\<rparr>
   = \<lparr>mousePlaced = [placed_entry ''piece-0-1-0'' 250 50 False [''piece-0-0-0'']],
      mousePool = [''piece-0-0-1'', ''piece-0-1-1'',
        ''piece-1-0-0'', ''piece-1-0-1'', ''piece-1-1-0'', ''piece-1-1-1'', ''piece-0-0-0''],
      dragState = None\<rparr>"
proof -
  have g: "getConnectedGroup [placed_entry ''piece-0-0-0'' 250 150 False [],
                     placed_entry ''piece-0-1-0'' 250 50 False [''piece-0-0-0'']] ''piece-0-0-0''
      = [''piece-0-0-0'']"
    by (simp add: getConnectedGroup_def placed_entry_def)
  show ?thesis
    by (simp add: mouse_handleReturnToPool_def g Let_def) (simp add: placed_entry_def)
qed

lemma regrab_neighbor_down:
  "handlePlacedPieceMouseDown ''piece-0-1-0'' \<lparr>px = 260, py = 60\<rparr>
     \<lparr>mousePlaced = [placed_entry ''piece-0-1-0'' 250 50 False [''piece-0-0-0'']],
      mousePool = [''piece-0-0-1'', ''piece-0-1-1'',
        ''piece-1-0-0'', ''piece-1-0-1'', ''piece-1-1-0'', ''piece-1-1-1'', ''piece-0-0-0''],
      dragState = None\<rparr>
   = \<lparr>mousePlaced = [placed_entry ''piece-0-1-0'' 250 50 False [''piece-0-0-0'']],
      mousePool = [''piece-0-0-1'', ''piece-0-1-1'',
        ''piece-1-0-0'', ''piece-1-0-1'', ''piece-1-1-0'', ''piece-1-1-1'', ''piece-0-0-0''],
      dragState = Some \<lparr>pieceIds = [''piece-0-1-0'', ''piece-0-0-0''],
                         offset = \<lparr>px = 10, py = 10\<rparr>\<rparr>\<rparr>"
proof -
  have g: "getConnectedGroup [placed_entry ''piece-0-1-0'' 250 50 False [''piece-0-0-0'']] ''piece-0-1-0''
      = [''piece-0-1-0'', ''piece-0-0-0'']"
    by (simp add: getConnectedGroup_def placed_entry_def)
  show ?thesis
    by (simp add: handlePlacedPieceMouseDown_def g) (simp add: placed_entry_def)
qed

lemma regrab_neighbor_move:
  "handleMouseMove \<lparr>px = 270, py = 70\<rparr>
     \<lparr>mousePlaced = [placed_entry ''piece-0-1-0'' 250 50 False [''piece-0-0-0'']],
      mousePool = [''piece-0-0-1'', ''piece-0-1-1'',
        ''piece-1-0-0'', ''piece-1-0-1'', ''piece-1-1-0'', ''piece-1-1-1'', ''piece-0-0-0''],
      dragState = Some \<lparr>pieceIds = [''piece-0-1-0'', ''piece-0-0-0''],
                         offset = \<lparr>px = 10, py = 10\<rparr>\<rparr>\<rparr>
   = \<lparr>mousePlaced = [placed_entry ''piece-0-1-0'' 260 60 False []],
      mousePool = [''piece-0-0-1'', ''piece-0-1-1'',
        ''piece-1-0-0'', ''piece-1-0-1'', ''piece-1-1-0'', ''piece-1-1-1''],
      dragState = Some \<lparr>pieceIds = [''piece-0-1-0'', ''piece-0-0-0''],
                         offset = \<lparr>px = 10, py = 10\<rparr>\<rparr>\<rparr>"
  by (simp add: handleMouseMove_def Let_def placed_entry_def)

text \<open>
  The session \<open>regrab_session\<close> goes on: the piece under the pointer is moved away alone
  and released (too far from its neighbor to snap), a double click returns it to the
  pool, alone, since it lists nobody, and its former neighbor, which still lists it, is
  picked up. The next pointer move filters both ids out of the pool and writes only the
  neighbor to the board: the returned piece is then neither in the pool nor on the
  board. Up to that move the states are states of \<open>mouse_reachable\<close>.
\<close>

lemma mouse_move_drops_pooled_piece:
  "mouse_reachable (createTrianglePuzzle 200 200 2 2) 20
     (handlePlacedPieceMouseDown ''piece-0-1-0'' \<lparr>px = 260, py = 60\<rparr>
        (mouse_handleReturnToPool ''piece-0-0-0''
           (handleMouseUp (createTrianglePuzzle 200 200 2 2) 20
              (handleMouseMove \<lparr>px = 260, py = 160\<rparr> regrab_session))))
   \<and> ''piece-0-0-0'' \<in> set (mousePool
        (handlePlacedPieceMouseDown ''piece-0-1-0'' \<lparr>px = 260, py = 60\<rparr>
           (mouse_handleReturnToPool ''piece-0-0-0''
              (handleMouseUp (createTrianglePuzzle 200 200 2 2) 20
                 (handleMouseMove \<lparr>px = 260, py = 160\<rparr> regrab_session)))))
   \<and> handleMouseMove \<lparr>px = 270, py = 70\<rparr>
        (handlePlacedPieceMouseDown ''piece-0-1-0'' \<lparr>px = 260, py = 60\<rparr>
           (mouse_handleReturnToPool ''piece-0-0-0''
              (handleMouseUp (createTrianglePuzzle 200 200 2 2) 20
                 (handleMouseMove \<lparr>px = 260, py = 160\<rparr> regrab_session))))
       = \<lparr>mousePlaced = [placed_entry ''piece-0-1-0'' 260 60 False []],
          mousePool = [''piece-0-0-1'', ''piece-0-1-1'',
            ''piece-1-0-0'', ''piece-1-0-1'', ''piece-1-1-0'', ''piece-1-1-1''],
          dragState = Some \<lparr>pieceIds = [''piece-0-1-0'', ''piece-0-0-0''],
                             offset = \<lparr>px = 10, py = 10\<rparr>\<rparr>\<rparr>"
proof -
  let ?s4 = "\<lparr>mousePlaced = [placed_entry ''piece-0-0-0'' 150 50 False [],
                     placed_entry ''piece-0-1-0'' 250 50 False [''piece-0-0-0'']],
      mousePool = [''piece-0-0-1'', ''piece-0-1-1'',
        ''piece-1-0-0'', ''piece-1-0-1'', ''piece-1-1-0'', ''piece-1-1-1''],
      dragState = Some \<lparr>pieceIds = [''piece-0-0-0''], offset = \<lparr>px = 10, py = 10\<rparr>\<rparr>\<rparr>"
  let ?s6 = "\<lparr>mousePlaced = [placed_entry ''piece-0-0-0'' 250 150 False [],
                     placed_entry ''piece-0-1-0'' 250 50 False [''piece-0-0-0'']],
      mousePool = [''piece-0-0-1'', ''piece-0-1-1'',
        ''piece-1-0-0'', ''piece-1-0-1'', ''piece-1-1-0'', ''piece-1-1-1''],
      dragState = None\<rparr>"
  let ?s7 = "\<lparr>mousePlaced = [placed_entry ''piece-0-1-0'' 250 50 False [''piece-0-0-0'']],
      mousePool = [''piece-0-0-1'', ''piece-0-1-1'',
        ''piece-1-0-0'', ''piece-1-0-1'', ''piece-1-1-0'', ''piece-1-1-1'', ''piece-0-0-0''],
      dragState = None\<rparr>"
  have "mouse_reachable puzzle_2x2 20 (handleMouseMove \<lparr>px = 260, py = 160\<rparr> ?s4)"
    by (rule mouse_reach_move [OF regrab_reachable]) simp
  then have "mouse_reachable puzzle_2x2 20
      (handleMouseUp puzzle_2x2 20 (handleMouseMove \<lparr>px = 260, py = 160\<rparr> ?s4))"
    by (rule mouse_reach_up)
  then have "mouse_reachable puzzle_2x2 20 ?s6"
    by (simp only: regrab_move regrab_release)
  then have "mouse_reachable puzzle_2x2 20 (mouse_handleReturnToPool ''piece-0-0-0'' ?s6)"
    by (rule mouse_reach_return) (simp add: placed_entry_def)
  then have "mouse_reachable puzzle_2x2 20 ?s7"
    by (simp only: regrab_return)
  then have r: "mouse_reachable puzzle_2x2 20
      (handlePlacedPieceMouseDown ''piece-0-1-0'' \<lparr>px = 260, py = 60\<rparr> ?s7)"
    by (rule mouse_reach_placed_down)
  show ?thesis
    unfolding regrab_session_eq createTrianglePuzzle_2x2
    unfolding regrab_move regrab_release regrab_return
    using r by (simp add: regrab_neighbor_down regrab_neighbor_move)
qed

end
